theory Spec2Isabelle
  imports Main "HOL-Library.Sublist"
begin

section \<open>Strings: the Python operations the cleanup script uses\<close>

text \<open>
  \<^verbatim>\<open>s.split(":")\<close>: the pieces between the separators; the result is never empty
  (\<^verbatim>\<open>"".split(":") == [""]\<close>).
\<close>

fun split :: "string \<Rightarrow> char \<Rightarrow> string list" where
  "split [] d = [[]]"
| "split (c # cs) d =
     (if c = d then [] # split cs d
      else (case split cs d of [] \<Rightarrow> [[c]] | p # ps \<Rightarrow> (c # p) # ps))"

text \<open>\<^verbatim>\<open>sep.join(parts)\<close>.\<close>

fun join :: "string \<Rightarrow> string list \<Rightarrow> string" where
  "join sep [] = []"
| "join sep [p] = p"
| "join sep (p # q # ps) = p @ sep @ join sep (q # ps)"

text \<open>
  \<^verbatim>\<open>re.match(r"^<literal>(.+)", s)\<close> for a literal without metacharacters: the string
  starts with the literal, and at least one character other than a newline follows it.
  The value is \<^verbatim>\<open>match.group(1)\<close>: the longest run of non-newline characters after the
  literal. \<open>None\<close> is Python's \<^verbatim>\<open>None\<close> (no match).
\<close>

definition re_match :: "string \<Rightarrow> string \<Rightarrow> string option" where
  "re_match lit s =
     (if prefix lit s
      then (let g = takeWhile (\<lambda>c. c \<noteq> CHR 0x0A) (drop (length lit) s)
            in if g = [] then None else Some g)
      else None)"

text \<open>\<^verbatim>\<open>s.replace(old, "")\<close>: every occurrence of \<open>old\<close>, left to right, is removed.\<close>

function replace_empty :: "string \<Rightarrow> string \<Rightarrow> string" where
  "replace_empty s old =
     (if s = [] then []
      else if old \<noteq> [] \<and> prefix old s then replace_empty (drop (length old) s) old
      else hd s # replace_empty (tl s) old)"
  by pat_completeness auto
termination
  by (relation "measure (\<lambda>(s, old). length s)") auto

section \<open>Errors, provider calls and their responses\<close>

text \<open>
  The exceptions the code can meet. \<open>ClientError\<close> carries the name of the botocore
  exception class of the fault (\<^verbatim>\<open>ResourceNotFoundException\<close>,
  \<^verbatim>\<open>EntityAlreadyExistsException\<close>, ...); every modelled service exception is a
  subclass of \<^verbatim>\<open>ClientError\<close>. \<open>OtherError\<close> is any exception that is not a
  \<^verbatim>\<open>ClientError\<close> (a connection failure, a missing file).
\<close>

datatype error = IndexError | KeyError string | ClientError string | OtherError string

text \<open>A policy document, as the dictionary handed to \<^verbatim>\<open>json.dumps\<close>.\<close>

datatype json = JString string | JArray "json list" | JObject "(string \<times> json) list"

type_synonym tags = "(string \<times> string) list"

text \<open>The fields of the response dictionaries that the code reads.\<close>

record collection_detail =
  collection_name :: string

record policy_summary =
  policy_summary_name :: string

record knowledge_base =
  knowledge_base_name :: string

record data_source_summary =
  dataSourceId :: string
  data_source_summary_name :: string

record data_source =
  data_source_name :: string
  dataSourceConfiguration :: json
  vectorIngestionConfiguration :: "json option"

record s3_object =
  Key :: string

record attached_policy =
  PolicyName :: string
  PolicyArn :: string

record instance_profile =
  InstanceProfileName :: string

record policy_version =
  VersionId :: string
  IsDefaultVersion :: bool

record descriptor =
  Arn :: string

record function_configuration =
  FunctionName :: string
  FunctionArn :: string

text \<open>
  One datatype per service client, one constructor per operation the code calls (the
  boto3 method, with the keyword arguments the code passes, in the order it passes
  them). \<open>ListObjectsV2\<close> is one request of the \<^verbatim>\<open>list_objects_v2\<close> paginator, with
  the continuation token of the page before. \<open>ZipFile\<close> is the packaging of a local
  file into a zip archive.
\<close>

datatype aoss_call =
    BatchGetCollection "string list"
  | ListSecurityPolicies string "string list"
  | DeleteSecurityPolicy string string
  | ListAccessPolicies string "string list"
  | DeleteAccessPolicy string string
  | DeleteCollection string

datatype bedrock_agent_call =
    GetKnowledgeBase string
  | ListDataSources string
  | GetDataSource string string
  | UpdateDataSource string string string json json string
  | DeleteDataSource string string
  | DeleteKnowledgeBase string
  | DeleteAgent string

datatype s3_call =
    ListObjectsV2 string "string option"
  | DeleteObjects string "string list"
  | DeleteBucket string

datatype iam_call =
    ListAttachedRolePolicies string
  | DetachRolePolicy string string
  | ListRolePolicies string
  | DeleteRolePolicy string string
  | ListInstanceProfilesForRole string
  | RemoveRoleFromInstanceProfile string string
  | DeleteRole string
  | ListPolicyVersions string
  | DeletePolicyVersion string string
  | DeletePolicy string
  | CreateRole string json tags
  | GetRole string
  | AttachRolePolicy string string
  | CreatePolicy string json
  | GetPolicy string

datatype lambda_call =
    DeleteFunction string
  | CreateFunction string string nat string string string tags
  | GetFunction string

datatype call =
    Aoss aoss_call
  | Bedrock_DeleteGuardrail string
  | BedrockAgent bedrock_agent_call
  | S3 s3_call
  | Iam iam_call
  | Lambda lambda_call
  | Dynamodb_DeleteTable string
  | ZipFile string

text \<open>
  The dictionary that a service call answers with, by the keys of it that the code reads.
  \<open>ObjectsPage\<close> is a page of \<^verbatim>\<open>list_objects_v2\<close>: its \<^verbatim>\<open>Contents\<close> key (absent for an
  empty listing) and the token of the next page (absent on the last page).
  \<open>FunctionConfiguration\<close> holds the keys of a function configuration at its top level,
  as the answer of \<^verbatim>\<open>create_function\<close> does; \<open>ConfigurationOf\<close> is the answer of
  \<^verbatim>\<open>get_function\<close>, which holds a function configuration under the key
  \<^verbatim>\<open>Configuration\<close>. \<open>Empty\<close> holds none of the keys the code reads.
\<close>

datatype response =
    Empty
  | CollectionDetails "collection_detail list"
  | SecurityPolicySummaries "policy_summary list"
  | AccessPolicySummaries "policy_summary list"
  | KnowledgeBase knowledge_base
  | DataSourceSummaries "data_source_summary list"
  | DataSource data_source
  | ObjectsPage "s3_object list option" "string option"
  | AttachedPolicies "attached_policy list"
  | PolicyNames "string list"
  | InstanceProfiles "instance_profile list"
  | Versions "policy_version list"
  | ZipContent string
  | FunctionConfiguration function_configuration
  | ConfigurationOf function_configuration
  | Role descriptor
  | Policy descriptor

text \<open>
  What a run leaves behind, in order: the lines printed, the provider calls with what
  the provider answered, and the pauses.
\<close>

datatype event = Print string | Call call "error + response" | Sleep nat

text \<open>
  The provider (the cloud services and the local file system) is external: a function
  from a call and the provider's state to the answer and the new state.
\<close>

type_synonym 'w api = "call \<Rightarrow> 'w \<Rightarrow> (error + response) \<times> 'w"

text \<open>
  A piece of code: from the provider's state to its result (\<open>Inl\<close> the exception
  raised), the events of the run and the provider's state after it.
\<close>

type_synonym ('w, 'a) prog = "'w \<Rightarrow> (error + 'a) \<times> event list \<times> 'w"

definition return :: "'a \<Rightarrow> ('w, 'a) prog" where
  "return x w = (Inr x, [], w)"

definition raise :: "error \<Rightarrow> ('w, 'a) prog" where
  "raise e w = (Inl e, [], w)"

definition bind :: "('w, 'a) prog \<Rightarrow> ('a \<Rightarrow> ('w, 'b) prog) \<Rightarrow> ('w, 'b) prog" where
  "bind m f w =
     (case m w of
        (Inl e, t, w') \<Rightarrow> (Inl e, t, w')
      | (Inr x, t, w') \<Rightarrow> (case f x w' of (r, t', w'') \<Rightarrow> (r, t @ t', w'')))"

definition print :: "string \<Rightarrow> ('w, unit) prog" where
  "print s w = (Inr (), [Print s], w)"

definition sleep :: "nat \<Rightarrow> ('w, unit) prog" where
  "sleep n w = (Inr (), [Sleep n], w)"

definition invoke :: "'w api \<Rightarrow> call \<Rightarrow> ('w, response) prog" where
  "invoke api c w = (case api c w of (r, w') \<Rightarrow> (r, [Call c r], w'))"

text \<open>One statement after another; a call whose response the code drops.\<close>

definition seq :: "('w, 'a) prog \<Rightarrow> ('w, 'b) prog \<Rightarrow> ('w, 'b) prog" where
  "seq m n = bind m (\<lambda>_. n)"

definition perform :: "'w api \<Rightarrow> call \<Rightarrow> ('w, unit) prog" where
  "perform api c = bind (invoke api c) (\<lambda>_. return ())"

text \<open>\<^verbatim>\<open>for x in xs: body(x)\<close>; an exception in the body leaves the loop.\<close>

fun for_each :: "'a list \<Rightarrow> ('a \<Rightarrow> ('w, unit) prog) \<Rightarrow> ('w, unit) prog" where
  "for_each [] body = return ()"
| "for_each (x # xs) body = bind (body x) (\<lambda>_. for_each xs body)"

text \<open>\<^verbatim>\<open>try: m  except ClientError: pass\<close>.\<close>

definition except_ClientError_pass :: "('w, unit) prog \<Rightarrow> ('w, unit) prog" where
  "except_ClientError_pass m w =
     (case m w of
        (Inl (ClientError c), t, w') \<Rightarrow> (Inr (), t, w')
      | r \<Rightarrow> r)"

text \<open>\<^verbatim>\<open>response["key"]\<close>: a \<^verbatim>\<open>KeyError\<close> when the dictionary lacks the key.\<close>

definition lookup :: "string \<Rightarrow> 'a option \<Rightarrow> ('w, 'a) prog" where
  "lookup k v = (case v of None \<Rightarrow> raise (KeyError k) | Some x \<Rightarrow> return x)"

definition collectionDetails :: "response \<Rightarrow> collection_detail list option" where
  "collectionDetails r = (case r of CollectionDetails cs \<Rightarrow> Some cs | _ \<Rightarrow> None)"

definition securityPolicySummaries :: "response \<Rightarrow> policy_summary list option" where
  "securityPolicySummaries r = (case r of SecurityPolicySummaries ps \<Rightarrow> Some ps | _ \<Rightarrow> None)"

definition accessPolicySummaries :: "response \<Rightarrow> policy_summary list option" where
  "accessPolicySummaries r = (case r of AccessPolicySummaries ps \<Rightarrow> Some ps | _ \<Rightarrow> None)"

definition knowledgeBase :: "response \<Rightarrow> knowledge_base option" where
  "knowledgeBase r = (case r of KnowledgeBase kb \<Rightarrow> Some kb | _ \<Rightarrow> None)"

definition dataSourceSummaries :: "response \<Rightarrow> data_source_summary list option" where
  "dataSourceSummaries r = (case r of DataSourceSummaries ds \<Rightarrow> Some ds | _ \<Rightarrow> None)"

definition dataSource :: "response \<Rightarrow> data_source option" where
  "dataSource r = (case r of DataSource d \<Rightarrow> Some d | _ \<Rightarrow> None)"

definition Contents :: "response \<Rightarrow> s3_object list option" where
  "Contents r = (case r of ObjectsPage c n \<Rightarrow> c | _ \<Rightarrow> None)"

definition NextContinuationToken :: "response \<Rightarrow> string option" where
  "NextContinuationToken r = (case r of ObjectsPage c n \<Rightarrow> n | _ \<Rightarrow> None)"

definition AttachedPolicies_of :: "response \<Rightarrow> attached_policy list option" where
  "AttachedPolicies_of r = (case r of AttachedPolicies ps \<Rightarrow> Some ps | _ \<Rightarrow> None)"

definition PolicyNames_of :: "response \<Rightarrow> string list option" where
  "PolicyNames_of r = (case r of PolicyNames ns \<Rightarrow> Some ns | _ \<Rightarrow> None)"

definition InstanceProfiles_of :: "response \<Rightarrow> instance_profile list option" where
  "InstanceProfiles_of r = (case r of InstanceProfiles ps \<Rightarrow> Some ps | _ \<Rightarrow> None)"

definition Versions_of :: "response \<Rightarrow> policy_version list option" where
  "Versions_of r = (case r of Versions vs \<Rightarrow> Some vs | _ \<Rightarrow> None)"

section \<open>Identifier classification\<close>

text \<open>
  \<^verbatim>\<open>parse_arn\<close>: \<^verbatim>\<open>parts[2]\<close> raises \<^verbatim>\<open>IndexError\<close> when there are fewer than three
  parts; the slice \<^verbatim>\<open>parts[5:]\<close> never raises.
\<close>

definition parse_arn :: "string \<Rightarrow> error + string \<times> string" where
  "parse_arn arn =
     (let parts = split arn CHR '':''
      in if length parts \<le> 2 then Inl IndexError
         else Inr (parts ! 2, join '':'' (drop 5 parts)))"


section \<open>Deletion handlers\<close>

text \<open>
  Each handler is the source function of the same name, with the service clients (module
  globals in the source, and the S3 client that \<^verbatim>\<open>delete_bucket\<close> creates for itself) as
  the parameter \<open>api\<close>.
\<close>

definition delete_collection :: "'w api \<Rightarrow> string \<Rightarrow> string \<Rightarrow> string \<Rightarrow> ('w, unit) prog" where
  "delete_collection api arn service resource =
     (case re_match ''collection/'' resource of
        None \<Rightarrow> return ()
      | Some collection_id \<Rightarrow>
          if service = ''aoss'' then
            seq (print (''Deleting: '' @ arn))
            (bind (invoke api (Aoss (BatchGetCollection [collection_id]))) (\<lambda>response.
             bind (lookup ''collectionDetails'' (collectionDetails response)) (\<lambda>collections.
             if length collections = 1 then
               (let collection = collections ! 0;
                    resource_name = ''collection/'' @ collection_name collection
                in
                seq (for_each [''encryption'', ''network''] (\<lambda>policy_type.
                       bind (invoke api (Aoss (ListSecurityPolicies policy_type [resource_name])))
                         (\<lambda>response.
                       bind (lookup ''securityPolicySummaries'' (securityPolicySummaries response))
                         (\<lambda>security_policies.
                       for_each security_policies (\<lambda>policy.
                         (let policy_name = policy_summary_name policy
                          in
                          seq (print (''-> Deleting OpenSearchServerless '' @ policy_type
                                      @ '' policy: '' @ policy_name))
                              (perform api (Aoss (DeleteSecurityPolicy policy_name policy_type)))))))))
                (bind (invoke api (Aoss (ListAccessPolicies ''data'' [resource_name]))) (\<lambda>response.
                 bind (lookup ''accessPolicySummaries'' (accessPolicySummaries response))
                   (\<lambda>access_policies.
                 seq (for_each access_policies (\<lambda>policy.
                        (let policy_name = policy_summary_name policy
                         in
                         seq (print (''-> Deleting OpenSearchServerless data policy: '' @ policy_name))
                             (perform api (Aoss (DeleteAccessPolicy policy_name ''data''))))))
                 (seq (print (''-> Deleting OpenSearch Serverless collection: '' @ resource_name))
                      (perform api (Aoss (DeleteCollection collection_id))))))))
             else return ())))
          else return ())"

definition delete_guardrail :: "'w api \<Rightarrow> string \<Rightarrow> string \<Rightarrow> string \<Rightarrow> ('w, unit) prog" where
  "delete_guardrail api arn service resource =
     (case re_match ''guardrail/'' resource of
        None \<Rightarrow> return ()
      | Some guardrail_id \<Rightarrow>
          if service = ''bedrock'' then
            seq (print (''Deleting: '' @ arn))
            (seq (print (''-> Deleting guardrail: '' @ guardrail_id))
                 (perform api (Bedrock_DeleteGuardrail arn)))
          else return ())"

definition delete_knowledgebase :: "'w api \<Rightarrow> string \<Rightarrow> string \<Rightarrow> string \<Rightarrow> ('w, unit) prog" where
  "delete_knowledgebase api arn service resource =
     (case re_match ''knowledge-base/'' resource of
        None \<Rightarrow> return ()
      | Some kb_id \<Rightarrow>
          if service = ''bedrock'' then
            seq (print (''Deleting: '' @ arn))
            (bind (invoke api (BedrockAgent (GetKnowledgeBase kb_id))) (\<lambda>response.
             bind (lookup ''knowledgeBase'' (knowledgeBase response)) (\<lambda>kb.
             bind (invoke api (BedrockAgent (ListDataSources kb_id))) (\<lambda>response.
             bind (lookup ''dataSourceSummaries'' (dataSourceSummaries response)) (\<lambda>data_sources.
             seq (for_each data_sources (\<lambda>ds.
                    bind (invoke api (BedrockAgent (GetDataSource kb_id (dataSourceId ds))))
                      (\<lambda>response.
                    bind (lookup ''dataSource'' (dataSource response)) (\<lambda>ds_details.
                    bind (lookup ''vectorIngestionConfiguration''
                            (vectorIngestionConfiguration ds_details)) (\<lambda>vector_ingestion.
                    seq (perform api (BedrockAgent (UpdateDataSource kb_id (dataSourceId ds)
                           (data_source_name ds_details) (dataSourceConfiguration ds_details)
                           vector_ingestion ''RETAIN'')))
                    (seq (print (''-> Deleting data source: '' @ data_source_summary_name ds))
                         (perform api (BedrockAgent (DeleteDataSource kb_id (dataSourceId ds))))))))))
             (seq (print (''-> Deleting knowledge base: '' @ knowledge_base_name kb))
                  (perform api (BedrockAgent (DeleteKnowledgeBase kb_id)))))))))
          else return ())"

definition delete_roles :: "'w api \<Rightarrow> string \<Rightarrow> string \<Rightarrow> string \<Rightarrow> ('w, unit) prog" where
  "delete_roles api arn service resource =
     (case re_match ''role/'' resource of
        None \<Rightarrow> return ()
      | Some name \<Rightarrow>
          if service = ''iam'' then
            (let role_name = (if prefix ''service-role/'' name
                              then replace_empty name ''service-role/'' else name)
             in
             seq (print (''Deleting: '' @ arn))
             (bind (invoke api (Iam (ListAttachedRolePolicies role_name))) (\<lambda>response.
              bind (lookup ''AttachedPolicies'' (AttachedPolicies_of response)) (\<lambda>attached_policies.
              seq (for_each attached_policies (\<lambda>policy.
                     seq (print (''-> Detaching managed policy: '' @ PolicyName policy))
                         (perform api (Iam (DetachRolePolicy role_name (PolicyArn policy))))))
              (bind (invoke api (Iam (ListRolePolicies role_name))) (\<lambda>response.
               bind (lookup ''PolicyNames'' (PolicyNames_of response)) (\<lambda>inline_policies.
               seq (for_each inline_policies (\<lambda>policy_name.
                      seq (print (''-> Deleting inline policy: '' @ policy_name))
                          (perform api (Iam (DeleteRolePolicy role_name policy_name)))))
               (seq (except_ClientError_pass
                       (bind (invoke api (Iam (ListInstanceProfilesForRole role_name))) (\<lambda>response.
                        bind (lookup ''InstanceProfiles'' (InstanceProfiles_of response))
                          (\<lambda>instance_profiles.
                        for_each instance_profiles (\<lambda>profile.
                          seq (print (''-> Removing role from instance profile: ''
                                      @ InstanceProfileName profile))
                              (perform api (Iam (RemoveRoleFromInstanceProfile
                                 (InstanceProfileName profile) role_name))))))))
               (seq (print (''-> Deleting role: '' @ role_name))
                    (perform api (Iam (DeleteRole role_name))))))))))))
          else return ())"

definition delete_policy :: "'w api \<Rightarrow> string \<Rightarrow> string \<Rightarrow> string \<Rightarrow> ('w, unit) prog" where
  "delete_policy api arn service resource =
     (case re_match ''policy/'' resource of
        None \<Rightarrow> return ()
      | Some policy_name \<Rightarrow>
          if service = ''iam'' then
            seq (print (''Deleting: '' @ arn))
            (bind (invoke api (Iam (ListPolicyVersions arn))) (\<lambda>response.
             bind (lookup ''Versions'' (Versions_of response)) (\<lambda>versions.
             seq (for_each versions (\<lambda>version.
                    if \<not> IsDefaultVersion version then
                      seq (print (''-> Deleting IAM policy version: '' @ VersionId version))
                          (perform api (Iam (DeletePolicyVersion arn (VersionId version))))
                    else return ()))
             (seq (print (''-> Deleting IAM policy: '' @ policy_name))
                  (perform api (Iam (DeletePolicy arn)))))))
          else return ())"

definition delete_function :: "'w api \<Rightarrow> string \<Rightarrow> string \<Rightarrow> string \<Rightarrow> ('w, unit) prog" where
  "delete_function api arn service resource =
     (case re_match ''function:'' resource of
        None \<Rightarrow> return ()
      | Some function_name \<Rightarrow>
          if service = ''lambda'' then
            seq (print (''Deleting: '' @ arn))
            (seq (print (''-> Deleting Lambda function: '' @ function_name))
                 (perform api (Lambda (DeleteFunction function_name))))
          else return ())"

definition delete_table :: "'w api \<Rightarrow> string \<Rightarrow> string \<Rightarrow> string \<Rightarrow> ('w, unit) prog" where
  "delete_table api arn service resource =
     (case re_match ''table/'' resource of
        None \<Rightarrow> return ()
      | Some table_name \<Rightarrow>
          if service = ''dynamodb'' then
            seq (print (''Deleting: '' @ arn))
            (seq (print (''-> Deleting DynamoDB table: '' @ table_name))
                 (perform api (Dynamodb_DeleteTable table_name)))
          else return ())"

definition delete_agent :: "'w api \<Rightarrow> string \<Rightarrow> string \<Rightarrow> string \<Rightarrow> ('w, unit) prog" where
  "delete_agent api arn service resource =
     (case re_match ''agent/'' resource of
        None \<Rightarrow> return ()
      | Some agent_id \<Rightarrow>
          if service = ''bedrock'' then
            seq (print (''Deleting: '' @ arn))
            (seq (print (''-> Deleting Bedrock Agent: '' @ agent_id))
                 (perform api (BedrockAgent (DeleteAgent agent_id))))
          else return ())"

text \<open>
  The bucket handler pages through the listing, and nothing in the code bounds the
  number of pages the provider hands out: a run that never ends is \<open>None\<close>.
\<close>

type_synonym ('w, 'a) partial_prog = "'w \<Rightarrow> ((error + 'a) \<times> event list \<times> 'w) option"

text \<open>
  \<^verbatim>\<open>for page in paginator.paginate(Bucket=bucket_name): body(page)\<close>. The paginator is
  lazy: it requests a page, hands it to the loop body, and requests the next page with
  the continuation token of the response as long as there is one. It raises
  \<^verbatim>\<open>PaginationError\<close> (not a \<^verbatim>\<open>ClientError\<close>) when a response repeats the token it
  was requested with.
\<close>

partial_function (option) paginate ::
  "'w api \<Rightarrow> string \<Rightarrow> string option \<Rightarrow> (response \<Rightarrow> ('w, unit) prog) \<Rightarrow> 'w
   \<Rightarrow> ((error + unit) \<times> event list \<times> 'w) option" where
  "paginate api bucket_name token body w =
     (case bind (invoke api (S3 (ListObjectsV2 bucket_name token)))
             (\<lambda>page. seq (body page) (return (NextContinuationToken page))) w of
        (Inl e, t, w') \<Rightarrow> Some (Inl e, t, w')
      | (Inr None, t, w') \<Rightarrow> Some (Inr (), t, w')
      | (Inr (Some next_token), t, w') \<Rightarrow>
          if token = Some next_token then Some (Inl (OtherError ''PaginationError''), t, w')
          else Option.bind (paginate api bucket_name (Some next_token) body w')
                 (\<lambda>(r, t', w''). Some (r, t @ t', w'')))"

definition lift :: "('w, 'a) prog \<Rightarrow> ('w, 'a) partial_prog" where
  "lift m w = Some (m w)"

definition bind_partial ::
  "('w, 'a) partial_prog \<Rightarrow> ('a \<Rightarrow> ('w, 'b) partial_prog) \<Rightarrow> ('w, 'b) partial_prog" where
  "bind_partial m f w =
     (case m w of
        None \<Rightarrow> None
      | Some (Inl e, t, w') \<Rightarrow> Some (Inl e, t, w')
      | Some (Inr x, t, w') \<Rightarrow>
          (case f x w' of None \<Rightarrow> None | Some (r, t', w'') \<Rightarrow> Some (r, t @ t', w'')))"

definition delete_bucket :: "'w api \<Rightarrow> string \<Rightarrow> string \<Rightarrow> string \<Rightarrow> ('w, unit) partial_prog" where
  "delete_bucket api arn service resource =
     (if service = ''s3'' then
        (let bucket_name = resource
         in
         bind_partial (lift (print (''Deleting: '' @ arn))) (\<lambda>_.
         bind_partial (lift (print ''-> Deleting all contained objects'')) (\<lambda>_.
         bind_partial (paginate api bucket_name None (\<lambda>page.
            (case Contents page of
               Some contents \<Rightarrow>
                 (let objects = map Key contents
                  in perform api (S3 (DeleteObjects bucket_name objects)))
             | None \<Rightarrow> return ()))) (\<lambda>_.
         bind_partial (lift (print (''-> Deleting S3 bucket: '' @ bucket_name))) (\<lambda>_.
         lift (perform api (S3 (DeleteBucket bucket_name))))))))
      else lift (return ()))"

section \<open>The sweep\<close>

text \<open>
  \<^verbatim>\<open>delete_resources\<close> takes the list of identifiers as it is given; the discovery that
  produces the list (\<^verbatim>\<open>get_tagged_resources\<close>) is not part of it.
\<close>

type_synonym 'w action = "'w api \<Rightarrow> string \<Rightarrow> string \<Rightarrow> string \<Rightarrow> ('w, unit) partial_prog"

text \<open>The list \<^verbatim>\<open>delete_actions\<close> of \<^verbatim>\<open>delete_resources\<close>, in its order.\<close>

definition delete_actions :: "'w action list" where
  "delete_actions =
     [\<lambda>api arn service resource. lift (delete_guardrail api arn service resource),
      \<lambda>api arn service resource. lift (delete_collection api arn service resource),
      \<lambda>api arn service resource. lift (delete_knowledgebase api arn service resource),
      delete_bucket,
      \<lambda>api arn service resource. lift (delete_function api arn service resource),
      \<lambda>api arn service resource. lift (delete_roles api arn service resource),
      \<lambda>api arn service resource. lift (delete_policy api arn service resource),
      \<lambda>api arn service resource. lift (delete_table api arn service resource),
      \<lambda>api arn service resource. lift (delete_agent api arn service resource)]"

text \<open>
  The body of the inner loop: \<^verbatim>\<open>service, resource = parse_arn(arn)\<close>,
  \<^verbatim>\<open>action(arn, service, resource)\<close>. Nothing catches what either raises.
\<close>

definition apply_action :: "'w api \<Rightarrow> 'w action \<Rightarrow> string \<Rightarrow> ('w, unit) partial_prog" where
  "apply_action api action arn =
     (case parse_arn arn of
        Inl e \<Rightarrow> lift (raise e)
      | Inr (service, resource) \<Rightarrow> action api arn service resource)"

text \<open>\<^verbatim>\<open>for arn in arns\<close>, for one action.\<close>

fun for_arns :: "'w api \<Rightarrow> 'w action \<Rightarrow> string list \<Rightarrow> ('w, unit) partial_prog" where
  "for_arns api action [] = lift (return ())"
| "for_arns api action (arn # arns) =
     bind_partial (apply_action api action arn) (\<lambda>_. for_arns api action arns)"

text \<open>\<^verbatim>\<open>for action in delete_actions\<close>, over the same list of identifiers each time.\<close>

fun for_actions :: "'w api \<Rightarrow> 'w action list \<Rightarrow> string list \<Rightarrow> ('w, unit) partial_prog" where
  "for_actions api [] arns = lift (return ())"
| "for_actions api (action # actions) arns =
     bind_partial (for_arns api action arns) (\<lambda>_. for_actions api actions arns)"

definition delete_resources :: "'w api \<Rightarrow> string list \<Rightarrow> ('w, unit) partial_prog" where
  "delete_resources api arns = for_actions api delete_actions arns"

section \<open>Provisioning helpers\<close>

text \<open>
  The module globals of \<^verbatim>\<open>agent.py\<close> that the helpers read. \<open>standard_tags\<close> and
  \<open>standard_tags_kv\<close> are imported from \<^verbatim>\<open>util.tagging\<close>, which is not among the sources:
  they are parameters here.
\<close>

record env =
  region_name :: string
  account_id :: string
  standard_tags :: tags
  standard_tags_kv :: tags

text \<open>
  \<^verbatim>\<open>try: m  except <class>: handler\<close>, for a class of service exception; every other
  exception passes through. The value of the statement is the value the branch taken
  assigns.
\<close>

definition try_except :: "('w, 'a) prog \<Rightarrow> string \<Rightarrow> ('w, 'a) prog \<Rightarrow> ('w, 'a) prog" where
  "try_except m cls handler w =
     (case m w of
        (Inl (ClientError c), t, w') \<Rightarrow>
          if c = cls then (case handler w' of (r, t', w'') \<Rightarrow> (r, t @ t', w''))
          else (Inl (ClientError c), t, w')
      | r \<Rightarrow> r)"

text \<open>
  A dictionary as the caller of a helper gets it. The answer of a service call holds,
  beside the keys of its \<open>response\<close>, the key \<^verbatim>\<open>ResponseMetadata\<close>, which boto3 adds to
  every answer: \<open>Whole\<close>. A dictionary taken out of an answer holds its own keys and no
  \<^verbatim>\<open>ResponseMetadata\<close>: \<open>Part\<close>.
\<close>

datatype returned = Whole response | Part response

definition keys_of :: "returned \<Rightarrow> response" where
  "keys_of v = (case v of Whole r \<Rightarrow> r | Part r \<Rightarrow> r)"

text \<open>\<^verbatim>\<open>"ResponseMetadata" in v\<close>.\<close>

definition has_ResponseMetadata :: "returned \<Rightarrow> bool" where
  "has_ResponseMetadata v = (case v of Whole r \<Rightarrow> True | Part r \<Rightarrow> False)"

text \<open>
  \<^verbatim>\<open>v['Role']\<close> and \<^verbatim>\<open>v['FunctionArn']\<close>, as \<^verbatim>\<open>create_lambda\<close> and
  \<^verbatim>\<open>clean_up_resources\<close> read the values the helpers returned.
\<close>

definition Role_of :: "returned \<Rightarrow> descriptor option" where
  "Role_of v = (case keys_of v of Role d \<Rightarrow> Some d | _ \<Rightarrow> None)"

definition FunctionArn_of :: "returned \<Rightarrow> string option" where
  "FunctionArn_of v =
     (case keys_of v of FunctionConfiguration c \<Rightarrow> Some (FunctionArn c) | _ \<Rightarrow> None)"

definition Policy_of :: "response \<Rightarrow> descriptor option" where
  "Policy_of r = (case r of Policy d \<Rightarrow> Some d | _ \<Rightarrow> None)"

text \<open>\<^verbatim>\<open>response['Configuration']\<close>: the function configuration inside the answer.\<close>

definition Configuration_of :: "response \<Rightarrow> function_configuration option" where
  "Configuration_of r = (case r of ConfigurationOf c \<Rightarrow> Some c | _ \<Rightarrow> None)"

text \<open>\<^verbatim>\<open>s.getvalue()\<close>: the bytes of the archive that the packaging wrote.\<close>

definition getvalue :: "response \<Rightarrow> string" where
  "getvalue r = (case r of ZipContent z \<Rightarrow> z | _ \<Rightarrow> [])"

text \<open>
  \<^verbatim>\<open>create_lambda\<close>. On the first path the value returned is the answer of
  \<^verbatim>\<open>create_function\<close> as it came; on the second it is the dictionary found under
  \<^verbatim>\<open>Configuration\<close> in the answer of \<^verbatim>\<open>get_function\<close>.
\<close>

definition create_lambda :: "env \<Rightarrow> 'w api \<Rightarrow> string \<Rightarrow> returned \<Rightarrow> ('w, returned) prog" where
  "create_lambda env api lambda_function_name lambda_iam_role =
     bind (invoke api (ZipFile ''lambda_function.py'')) (\<lambda>s.
     (let zip_content = getvalue s
      in
      try_except
        (bind (lookup ''Role'' (Role_of lambda_iam_role)) (\<lambda>role.
         bind (invoke api (Lambda (CreateFunction lambda_function_name ''python3.12'' 60
                 (Arn role) zip_content ''lambda_function.lambda_handler'' (standard_tags env))))
           (\<lambda>lambda_function.
         return (Whole lambda_function))))
        ''ResourceConflictException''
        (seq (print ''Lambda function already exists, retrieving it'')
        (bind (invoke api (Lambda (GetFunction lambda_function_name))) (\<lambda>lambda_function.
         bind (lookup ''Configuration'' (Configuration_of lambda_function)) (\<lambda>configuration.
         return (Part (FunctionConfiguration configuration))))))))"

text \<open>
  The two policy documents that \<^verbatim>\<open>create_lambda_role\<close> builds as local dictionaries
  before it hands them to \<^verbatim>\<open>json.dumps\<close>. The value the helper returns is the answer
  of \<^verbatim>\<open>create_role\<close> or of \<^verbatim>\<open>get_role\<close> as it came.
\<close>

definition assume_role_policy_document :: json where
  "assume_role_policy_document =
     JObject [(''Version'', JString ''2012-10-17''),
       (''Statement'', JArray [JObject
          [(''Effect'', JString ''Allow''),
           (''Principal'', JObject [(''Service'', JString ''lambda.amazonaws.com'')]),
           (''Action'', JString ''sts:AssumeRole'')]])]"

definition dynamodb_access_policy :: "env \<Rightarrow> string \<Rightarrow> json" where
  "dynamodb_access_policy env dynamodb_table_name =
     JObject [(''Version'', JString ''2012-10-17''),
       (''Statement'', JArray [JObject
          [(''Effect'', JString ''Allow''),
           (''Action'', JArray [JString ''dynamodb:GetItem'', JString ''dynamodb:PutItem'',
                                JString ''dynamodb:DeleteItem'']),
           (''Resource'', JString (''arn:aws:dynamodb:'' @ region_name env @ '':''
              @ account_id env @ '':table/'' @ dynamodb_table_name))]])]"

definition create_lambda_role :: "env \<Rightarrow> 'w api \<Rightarrow> string \<Rightarrow> string \<Rightarrow> ('w, returned) prog" where
  "create_lambda_role env api agent_name dynamodb_table_name =
     (let lambda_function_role = agent_name @ ''-lambda-role'';
          dynamodb_access_policy_name = agent_name @ ''-dynamodb-policy''
      in
      bind (try_except
              (bind (invoke api (Iam (CreateRole lambda_function_role
                       assume_role_policy_document (standard_tags_kv env)))) (\<lambda>lambda_iam_role.
               seq (sleep 10) (return lambda_iam_role)))
              ''EntityAlreadyExistsException''
              (invoke api (Iam (GetRole lambda_function_role)))) (\<lambda>lambda_iam_role.
      seq (perform api (Iam (AttachRolePolicy lambda_function_role
             ''arn:aws:iam::aws:policy/service-role/AWSLambdaBasicExecutionRole'')))
      (bind (try_except
               (invoke api (Iam (CreatePolicy dynamodb_access_policy_name
                  (dynamodb_access_policy env dynamodb_table_name))))
               ''EntityAlreadyExistsException''
               (invoke api (Iam (GetPolicy (''arn:aws:iam::'' @ account_id env @ '':policy/''
                  @ dynamodb_access_policy_name))))) (\<lambda>dynamodb_access_policy.
       bind (lookup ''Policy'' (Policy_of dynamodb_access_policy)) (\<lambda>policy.
       seq (perform api (Iam (AttachRolePolicy lambda_function_role (Arn policy))))
           (return (Whole lambda_iam_role)))))))"

section \<open>The guards of the handlers, and sample providers\<close>

text \<open>
  What each handler of \<^verbatim>\<open>delete_actions\<close> requires of an identifier before it does
  anything, in the order of that list: the service, and the literal that the resource
  path has to start with and continue after (none for \<^verbatim>\<open>delete_bucket\<close>, which looks at
  the service alone). \<open>guard_holds\<close> is the test
  \<^verbatim>\<open>service == "..." and re.match(r"^literal(.+)", resource)\<close> that the handlers open
  with, and \<open>accepts\<close> is that test on what \<^verbatim>\<open>parse_arn\<close> returns for an identifier.
\<close>

definition handler_guards :: "(string \<times> string option) list" where
  "handler_guards =
     [(''bedrock'', Some ''guardrail/''),
      (''aoss'', Some ''collection/''),
      (''bedrock'', Some ''knowledge-base/''),
      (''s3'', None),
      (''lambda'', Some ''function:''),
      (''iam'', Some ''role/''),
      (''iam'', Some ''policy/''),
      (''dynamodb'', Some ''table/''),
      (''bedrock'', Some ''agent/'')]"

definition guard_holds :: "string \<times> string option \<Rightarrow> string \<Rightarrow> string \<Rightarrow> bool" where
  "guard_holds guard service resource =
     (service = fst guard \<and>
      (case snd guard of None \<Rightarrow> True | Some literal \<Rightarrow> re_match literal resource \<noteq> None))"

definition accepts :: "string \<times> string option \<Rightarrow> string \<Rightarrow> bool" where
  "accepts guard arn =
     (case parse_arn arn of
        Inl e \<Rightarrow> False
      | Inr (service, resource) \<Rightarrow> guard_holds guard service resource)"


text \<open>
  A provider that has none of the resources left: \<^verbatim>\<open>batch_get_collection\<close> answers
  with an empty list of details (it reports unknown ids in a list of its own and does
  not raise), and every other call is answered not-found.
\<close>

definition already_deleted :: "unit api" where
  "already_deleted c w =
     (case c of
        Aoss (BatchGetCollection ids) \<Rightarrow> (Inr (CollectionDetails []), w)
      | _ \<Rightarrow> (Inl (ClientError ''ResourceNotFoundException''), w))"

text \<open>
  A provider with one collection, one encryption policy, one network policy and two data
  access policies; and a provider whose collection lookup finds nothing.
\<close>

definition sample_aoss :: "unit api" where
  "sample_aoss c w =
     (case c of
        Aoss (BatchGetCollection ids) \<Rightarrow>
          (Inr (CollectionDetails [\<lparr>collection_name = ''docs''\<rparr>]), w)
      | Aoss (ListSecurityPolicies policy_type resources) \<Rightarrow>
          (Inr (SecurityPolicySummaries [\<lparr>policy_summary_name = policy_type @ ''-1''\<rparr>]), w)
      | Aoss (ListAccessPolicies policy_type resources) \<Rightarrow>
          (Inr (AccessPolicySummaries
             [\<lparr>policy_summary_name = ''access-1''\<rparr>, \<lparr>policy_summary_name = ''access-2''\<rparr>]), w)
      | _ \<Rightarrow> (Inr Empty, w))"

definition no_collection :: "unit api" where
  "no_collection c w =
     (case c of
        Aoss (BatchGetCollection ids) \<Rightarrow> (Inr (CollectionDetails []), w)
      | _ \<Rightarrow> (Inr Empty, w))"

text \<open>A provider with one knowledge base of two data sources.\<close>

definition sample_bedrock_agent :: "unit api" where
  "sample_bedrock_agent c w =
     (case c of
        BedrockAgent (GetKnowledgeBase kb_id) \<Rightarrow>
          (Inr (KnowledgeBase \<lparr>knowledge_base_name = ''manuals''\<rparr>), w)
      | BedrockAgent (ListDataSources kb_id) \<Rightarrow>
          (Inr (DataSourceSummaries
             [\<lparr>dataSourceId = ''ds1'', data_source_summary_name = ''first''\<rparr>,
              \<lparr>dataSourceId = ''ds2'', data_source_summary_name = ''second''\<rparr>]), w)
      | BedrockAgent (GetDataSource kb_id ds_id) \<Rightarrow>
          (Inr (DataSource \<lparr>data_source_name = ds_id @ ''-name'',
                  dataSourceConfiguration = JObject [(''type'', JString ''S3'')],
                  vectorIngestionConfiguration = Some (JObject [])\<rparr>), w)
      | _ \<Rightarrow> (Inr Empty, w))"

text \<open>
  A bucket whose listing comes in the given pages: the state of the provider is the list
  of pages not yet handed out, and every page but the last carries a continuation token.
\<close>

definition paged_bucket :: "(s3_object list option list) api" where
  "paged_bucket c w =
     (case c of
        S3 (ListObjectsV2 b token) \<Rightarrow>
          (case w of
             [] \<Rightarrow> (Inr (ObjectsPage None None), [])
           | [page] \<Rightarrow> (Inr (ObjectsPage page None), [])
           | page # pages \<Rightarrow>
               (Inr (ObjectsPage page (Some (replicate (length pages) CHR ''+''))), pages))
      | _ \<Rightarrow> (Inr Empty, w))"

text \<open>
  A provider on which the function, the role and the policy all exist already, and a
  provider on which none of them exists yet and every creation succeeds.
\<close>

definition everything_exists :: "unit api" where
  "everything_exists c w =
     (case c of
        ZipFile file \<Rightarrow> (Inr (ZipContent ''PK''), w)
      | Lambda (CreateFunction name runtime timeout role code handler ts) \<Rightarrow>
          (Inl (ClientError ''ResourceConflictException''), w)
      | Lambda (GetFunction name) \<Rightarrow>
          (Inr (ConfigurationOf \<lparr>FunctionName = name,
                  FunctionArn = ''arn:aws:lambda:us-east-1:1:function:'' @ name\<rparr>), w)
      | Iam (CreateRole name document ts) \<Rightarrow>
          (Inl (ClientError ''EntityAlreadyExistsException''), w)
      | Iam (GetRole name) \<Rightarrow> (Inr (Role \<lparr>Arn = ''arn:aws:iam::1:role/'' @ name\<rparr>), w)
      | Iam (CreatePolicy name document) \<Rightarrow>
          (Inl (ClientError ''EntityAlreadyExistsException''), w)
      | Iam (GetPolicy arn) \<Rightarrow> (Inr (Policy \<lparr>Arn = arn\<rparr>), w)
      | _ \<Rightarrow> (Inr Empty, w))"

definition nothing_exists :: "unit api" where
  "nothing_exists c w =
     (case c of
        ZipFile file \<Rightarrow> (Inr (ZipContent ''PK''), w)
      | Lambda (CreateFunction name runtime timeout role code handler ts) \<Rightarrow>
          (Inr (FunctionConfiguration \<lparr>FunctionName = name,
                  FunctionArn = ''arn:aws:lambda:us-east-1:1:function:'' @ name\<rparr>), w)
      | Iam (CreateRole name document ts) \<Rightarrow>
          (Inr (Role \<lparr>Arn = ''arn:aws:iam::1:role/'' @ name\<rparr>), w)
      | Iam (CreatePolicy name document) \<Rightarrow>
          (Inr (Policy \<lparr>Arn = ''arn:aws:iam::1:policy/'' @ name\<rparr>), w)
      | _ \<Rightarrow> (Inr Empty, w))"



text \<open>
  An account with a role that has one managed policy attached, a bucket with one object,
  and agents; every deletion succeeds.
\<close>

definition sample_account :: "unit api" where
  "sample_account c w =
     (case c of
        S3 (ListObjectsV2 bucket_name token) \<Rightarrow>
          (Inr (ObjectsPage (Some [\<lparr>Key = ''a.txt''\<rparr>]) None), w)
      | Iam (ListAttachedRolePolicies role_name) \<Rightarrow>
          (Inr (AttachedPolicies
             [\<lparr>PolicyName = ''read'', PolicyArn = ''arn:aws:iam::1:policy/read''\<rparr>]), w)
      | Iam (ListRolePolicies role_name) \<Rightarrow> (Inr (PolicyNames []), w)
      | Iam (ListInstanceProfilesForRole role_name) \<Rightarrow> (Inr (InstanceProfiles []), w)
      | _ \<Rightarrow> (Inr Empty, w))"



text \<open>What a run issued: its provider calls in order, and whether a call was refused.\<close>

fun calls :: "event list \<Rightarrow> call list" where
  "calls [] = []"
| "calls (Call c r # t) = c # calls t"
| "calls (e # t) = calls t"

fun failed :: "event \<Rightarrow> bool" where
  "failed (Call c (Inl e)) = True"
| "failed e = False"

section \<open>Blocks of the handlers, named for the proofs\<close>

text \<open>
  The body of \<^verbatim>\<open>for policy_type in ["encryption", "network"]\<close> of
  \<open>delete_collection\<close>, and what follows that loop. \<open>delete_collection_blocks\<close>
  below shows that the handler is made of them.
\<close>

definition security_policies_block :: "'w api \<Rightarrow> string \<Rightarrow> string \<Rightarrow> ('w, unit) prog" where
  "security_policies_block api resource_name policy_type =
     bind (invoke api (Aoss (ListSecurityPolicies policy_type [resource_name]))) (\<lambda>response.
     bind (lookup ''securityPolicySummaries'' (securityPolicySummaries response))
       (\<lambda>security_policies.
     for_each security_policies (\<lambda>policy.
       seq (print (''-> Deleting OpenSearchServerless '' @ policy_type
                   @ '' policy: '' @ policy_summary_name policy))
           (perform api (Aoss (DeleteSecurityPolicy (policy_summary_name policy) policy_type))))))"

definition access_policies_block :: "'w api \<Rightarrow> string \<Rightarrow> string \<Rightarrow> ('w, unit) prog" where
  "access_policies_block api collection_id resource_name =
     bind (invoke api (Aoss (ListAccessPolicies ''data'' [resource_name]))) (\<lambda>response.
     bind (lookup ''accessPolicySummaries'' (accessPolicySummaries response))
       (\<lambda>access_policies.
     seq (for_each access_policies (\<lambda>policy.
            seq (print (''-> Deleting OpenSearchServerless data policy: ''
                        @ policy_summary_name policy))
                (perform api (Aoss (DeleteAccessPolicy (policy_summary_name policy) ''data'')))))
     (seq (print (''-> Deleting OpenSearch Serverless collection: '' @ resource_name))
          (perform api (Aoss (DeleteCollection collection_id))))))"

text \<open>The body of \<^verbatim>\<open>for ds in data_sources\<close> of \<open>delete_knowledgebase\<close>.\<close>

definition data_source_block :: "'w api \<Rightarrow> string \<Rightarrow> data_source_summary \<Rightarrow> ('w, unit) prog" where
  "data_source_block api kb_id ds =
     bind (invoke api (BedrockAgent (GetDataSource kb_id (dataSourceId ds)))) (\<lambda>response.
     bind (lookup ''dataSource'' (dataSource response)) (\<lambda>ds_details.
     bind (lookup ''vectorIngestionConfiguration'' (vectorIngestionConfiguration ds_details))
       (\<lambda>vector_ingestion.
     seq (perform api (BedrockAgent (UpdateDataSource kb_id (dataSourceId ds)
            (data_source_name ds_details) (dataSourceConfiguration ds_details)
            vector_ingestion ''RETAIN'')))
     (seq (print (''-> Deleting data source: '' @ data_source_summary_name ds))
          (perform api (BedrockAgent (DeleteDataSource kb_id (dataSourceId ds))))))))"

text \<open>The body of \<^verbatim>\<open>for page in paginator.paginate(...)\<close> of \<open>delete_bucket\<close>.\<close>

definition delete_page_objects :: "'w api \<Rightarrow> string \<Rightarrow> response \<Rightarrow> ('w, unit) prog" where
  "delete_page_objects api bucket_name page =
     (case Contents page of
        Some contents \<Rightarrow> perform api (S3 (DeleteObjects bucket_name (map Key contents)))
      | None \<Rightarrow> return ())"

section \<open>Properties of runs\<close>

text \<open>Every run of a piece of code, whatever its result, leaves events that satisfy \<open>P\<close>.\<close>

definition always :: "('w, 'a) prog \<Rightarrow> (event list \<Rightarrow> bool) \<Rightarrow> bool" where
  "always m P \<longleftrightarrow> (\<forall>w r t w'. m w = (r, t, w') \<longrightarrow> P t)"

text \<open>
  Wherever a data source is deleted, the two events before it are the successful update
  of that data source to the deletion policy \<^verbatim>\<open>RETAIN\<close> and the line printed in between.
\<close>

definition retained_first :: "event list \<Rightarrow> bool" where
  "retained_first t \<longleftrightarrow>
     (\<forall>pre post kb ds x. t = pre @ Call (BedrockAgent (DeleteDataSource kb ds)) x # post \<longrightarrow>
        (\<exists>pre' name conf vec y line.
           pre = pre' @ [Call (BedrockAgent (UpdateDataSource kb ds name conf vec ''RETAIN'')) (Inr y),
                         Print line]))"

text \<open>
  The pages a run was handed by the listing, in order; and the calls the code makes for a
  list of pages: each page is requested with the continuation token of the page before
  it (none for the first), and the objects of a page that has \<^verbatim>\<open>Contents\<close> are deleted in
  one batch before the next page is requested.
\<close>

fun pages_of :: "event list \<Rightarrow> response list" where
  "pages_of [] = []"
| "pages_of (Call (S3 (ListObjectsV2 b token)) (Inr page) # t) = page # pages_of t"
| "pages_of (e # t) = pages_of t"

fun listing_calls :: "string \<Rightarrow> string option \<Rightarrow> response list \<Rightarrow> call list" where
  "listing_calls b token [] = []"
| "listing_calls b token (page # pages) =
     S3 (ListObjectsV2 b token)
     # (case Contents page of
          Some contents \<Rightarrow> [S3 (DeleteObjects b (map Key contents))]
        | None \<Rightarrow> [])
     @ listing_calls b (NextContinuationToken page) pages"

section \<open>What every run of a piece of code ensures\<close>

text \<open>
  A property of the exception raised (if any) and the events, of every run of a piece of
  code; for code that may not return, of every run that returns. \<open>closed\<close> is what such a
  property needs to be carried from the statements of a sequence to the sequence.
\<close>

definition err_of :: "error + 'a \<Rightarrow> error option" where
  "err_of r = (case r of Inl e \<Rightarrow> Some e | Inr x \<Rightarrow> None)"

definition ensures :: "('w, 'a) prog \<Rightarrow> (error option \<Rightarrow> event list \<Rightarrow> bool) \<Rightarrow> bool" where
  "ensures m Q \<longleftrightarrow> (\<forall>w r t w'. m w = (r, t, w') \<longrightarrow> Q (err_of r) t)"

definition ensures_partial ::
  "('w, 'a) partial_prog \<Rightarrow> (error option \<Rightarrow> event list \<Rightarrow> bool) \<Rightarrow> bool" where
  "ensures_partial m Q \<longleftrightarrow> (\<forall>w r t w'. m w = Some (r, t, w') \<longrightarrow> Q (err_of r) t)"

definition closed :: "(error option \<Rightarrow> event list \<Rightarrow> bool) \<Rightarrow> bool" where
  "closed Q \<longleftrightarrow>
     Q None [] \<and> (\<forall>e. Q (Some e) []) \<and>
     (\<forall>t u e. Q None t \<longrightarrow> Q e u \<longrightarrow> Q e (t @ u))"




text \<open>A run whose only calls are collection lookups, none of them refused.\<close>

definition lookups_only :: "event list \<Rightarrow> bool" where
  "lookups_only t \<longleftrightarrow>
     (\<forall>c \<in> set (calls t). \<exists>ids. c = Aoss (BatchGetCollection ids)) \<and> \<not> list_ex failed t"

text \<open>
  The identifiers a run announces: every handler, when its guard holds, first prints
  \<^verbatim>\<open>Deleting: <arn>\<close>, and no other line that the code prints starts like that. A run
  that announces exactly the given identifiers; and a run that announces them in turn: a
  prefix of them, and all of them when it returns normally.
\<close>

fun announced :: "event list \<Rightarrow> string list" where
  "announced [] = []"
| "announced (Print s # t) =
     (if prefix ''Deleting: '' s then drop 10 s # announced t else announced t)"
| "announced (e # t) = announced t"

definition announces :: "string list \<Rightarrow> error option \<Rightarrow> event list \<Rightarrow> bool" where
  "announces arns e t \<longleftrightarrow> announced t = arns"

definition in_turn :: "string list \<Rightarrow> error option \<Rightarrow> event list \<Rightarrow> bool" where
  "in_turn arns e t \<longleftrightarrow> prefix (announced t) arns \<and> (e = None \<longrightarrow> announced t = arns)"


section \<open>Identifiers with fewer than six segments\<close>

text \<open>
  C4, as the code has it. \<open>parse_arn\<close> has no check of the number of segments. With
  fewer than three segments it raises \<^verbatim>\<open>IndexError\<close>, which nothing catches; with three
  to five segments it returns normally, the third segment as the service and the empty
  string as the resource path.
\<close>

theorem parse_arn_short:
  "length (split arn CHR '':'') < 6 \<Longrightarrow>
   parse_arn arn =
     (if length (split arn CHR '':'') < 3 then Inl IndexError
      else Inr (split arn CHR '':'' ! 2, []))"
  by (simp add: parse_arn_def Let_def)

theorem parse_arn_short_witness:
  "length (split ''arn:aws:iam'' CHR '':'') < 6 \<and>
   parse_arn ''arn:aws:iam'' = Inr (''iam'', [])"
  using parse_arn_short [of "''arn:aws:iam''"] by simp

text \<open>
  The claim as the specification states it fails: an identifier of three segments is
  neither rejected nor flagged, it is classified as the service \<^verbatim>\<open>s3\<close> with an empty
  bucket name; an identifier of two segments raises.
\<close>

theorem parse_arn_short_counterexample:
  "length (split ''arn:aws:s3'' CHR '':'') < 6 \<and>
   parse_arn ''arn:aws:s3'' = Inr (''s3'', []) \<and>
   length (split ''arn:aws'' CHR '':'') < 6 \<and>
   parse_arn ''arn:aws'' = Inl IndexError"
  by (simp add: parse_arn_def Let_def)

section \<open>Runs and their events\<close>

lemma calls_append [simp]: "calls (t @ u) = calls t @ calls u"
  by (induction t rule: calls.induct) auto

lemma Call_in_calls: "Call c r \<in> set t \<Longrightarrow> c \<in> set (calls t)"
  by (induction t rule: calls.induct) auto

lemma bind_cases [consumes 1, case_names fail ok]:
  assumes "bind m f w = (r, t, w')"
  obtains e where "m w = (Inl e, t, w')" "r = Inl e"
  | x ta wa tb where "m w = (Inr x, ta, wa)" "f x wa = (r, tb, w')" "t = ta @ tb"
  using assms by (auto simp: bind_def split: prod.splits sum.splits)

lemma seq_cases [consumes 1, case_names fail ok]:
  assumes "seq m n w = (r, t, w')"
  obtains e where "m w = (Inl e, t, w')" "r = Inl e"
  | x ta wa tb where "m w = (Inr x, ta, wa)" "n wa = (r, tb, w')" "t = ta @ tb"
  using assms unfolding seq_def by (rule bind_cases)

lemma print_perform_run:
  "seq (print s) (perform api c) w = (r, t, w') \<Longrightarrow>
   \<exists>x. api c w = (x, w') \<and> t = [Print s, Call c x] \<and>
       ((\<exists>e. x = Inl e \<and> r = Inl e) \<or> (\<exists>y. x = Inr y \<and> r = Inr ()))"
  by (auto simp: seq_def bind_def print_def perform_def invoke_def return_def
      split: prod.splits sum.splits)

lemma for_each_perform_calls:
  "for_each xs (\<lambda>x. seq (print (f x)) (perform api (g x))) w = (r, t, w') \<Longrightarrow>
   set (calls t) \<subseteq> g ` set xs"
proof (induction xs arbitrary: w t)
  case Nil
  then show ?case by (simp add: return_def)
next
  case (Cons x xs)
  from Cons.prems have "bind (seq (print (f x)) (perform api (g x)))
     (\<lambda>_. for_each xs (\<lambda>x. seq (print (f x)) (perform api (g x)))) w = (r, t, w')" by simp
  then show ?case
  proof (cases rule: bind_cases)
    case (fail e)
    from print_perform_run [OF fail(1)] show ?thesis by auto
  next
    case (ok u ta wa tb)
    from print_perform_run [OF ok(1)] Cons.IH [OF ok(2)] ok(3) show ?thesis by auto
  qed
qed

lemma for_each_perform_ok:
  "for_each xs (\<lambda>x. seq (print (f x)) (perform api (g x))) w = (Inr u, t, w') \<Longrightarrow>
   calls t = map g xs \<and> \<not> list_ex failed t"
proof (induction xs arbitrary: w t)
  case Nil
  then show ?case by (simp add: return_def)
next
  case (Cons x xs)
  from Cons.prems have "bind (seq (print (f x)) (perform api (g x)))
     (\<lambda>_. for_each xs (\<lambda>x. seq (print (f x)) (perform api (g x)))) w = (Inr u, t, w')" by simp
  then show ?case
  proof (cases rule: bind_cases)
    case (ok u ta wa tb)
    from print_perform_run [OF ok(1)] Cons.IH [OF ok(2)] ok(3) show ?thesis by auto
  qed simp
qed

lemma alwaysI: "(\<And>w r t w'. m w = (r, t, w') \<Longrightarrow> P t) \<Longrightarrow> always m P"
  by (simp add: always_def)

lemma alwaysD: "always m P \<Longrightarrow> m w = (r, t, w') \<Longrightarrow> P t"
  by (auto simp: always_def)

lemma always_bind:
  assumes "\<And>t u. P t \<Longrightarrow> P u \<Longrightarrow> P (t @ u)"
    and "always m P" and "\<And>x. always (f x) P"
  shows "always (bind m f) P"
proof (rule alwaysI)
  fix w r t w' assume "bind m f w = (r, t, w')"
  then show "P t"
  proof (cases rule: bind_cases)
    case (fail e)
    with assms(2) show ?thesis by (auto dest: alwaysD)
  next
    case (ok x ta wa tb)
    from assms(1) [OF alwaysD [OF assms(2) ok(1)] alwaysD [OF assms(3) ok(2)]] ok(3)
    show ?thesis by simp
  qed
qed

lemma always_seq:
  assumes "\<And>t u. P t \<Longrightarrow> P u \<Longrightarrow> P (t @ u)"
    and "always m P" and "always n P"
  shows "always (seq m n) P"
  unfolding seq_def using assms by (intro always_bind) auto

lemma always_for_each:
  assumes "\<And>t u. P t \<Longrightarrow> P u \<Longrightarrow> P (t @ u)" and "P []"
    and "\<And>x. always (f x) P"
  shows "always (for_each xs f) P"
proof (induction xs)
  case Nil
  with assms(2) show ?case by (simp add: always_def return_def)
next
  case (Cons x xs)
  with assms show ?case by (auto intro!: always_bind)
qed

lemma always_return: "P [] \<Longrightarrow> always (return x) P"
  by (simp add: always_def return_def)

lemma always_lookup: "P [] \<Longrightarrow> always (lookup k v) P"
  by (auto simp: always_def lookup_def return_def raise_def split: option.splits)

lemma always_print: "P [Print s] \<Longrightarrow> always (print s) P"
  by (simp add: always_def print_def)

lemma always_invoke: "(\<And>x. P [Call c x]) \<Longrightarrow> always (invoke api c) P"
  by (auto simp: always_def invoke_def split: prod.splits)

lemma always_perform: "(\<And>x. P [Call c x]) \<Longrightarrow> always (perform api c) P"
  by (auto simp: always_def perform_def bind_def invoke_def return_def split: prod.splits sum.splits)

lemma fetch_cases [consumes 1, case_names fail ok]:
  assumes "bind (invoke api c) (\<lambda>response. bind (lookup k (sel response)) K) w = (r, t, w')"
  obtains x where "t = [Call c x]" "\<exists>e. r = Inl e"
  | response v wa tb where "api c w = (Inr response, wa)" "sel response = Some v"
      "K v wa = (r, tb, w')" "t = Call c (Inr response) # tb"
  using assms
  by (auto simp: bind_def invoke_def lookup_def raise_def return_def
      split: prod.splits sum.splits option.splits)

section \<open>Properties of every run\<close>

lemmas run_defs = delete_resources_def delete_actions_def apply_action_def parse_arn_def Let_def
  bind_partial_def lift_def return_def raise_def bind_def seq_def print_def perform_def invoke_def
  delete_guardrail_def delete_collection_def delete_knowledgebase_def delete_bucket_def
  delete_function_def delete_roles_def delete_policy_def delete_table_def delete_agent_def
  re_match_def lookup_def

lemma ensuresI: "(\<And>w r t w'. m w = (r, t, w') \<Longrightarrow> Q (err_of r) t) \<Longrightarrow> ensures m Q"
  by (simp add: ensures_def)

lemma ensuresD: "ensures m Q \<Longrightarrow> m w = (r, t, w') \<Longrightarrow> Q (err_of r) t"
  by (auto simp: ensures_def)

lemma ensures_partialI:
  "(\<And>w r t w'. m w = Some (r, t, w') \<Longrightarrow> Q (err_of r) t) \<Longrightarrow> ensures_partial m Q"
  by (simp add: ensures_partial_def)

lemma ensures_partialD: "ensures_partial m Q \<Longrightarrow> m w = Some (r, t, w') \<Longrightarrow> Q (err_of r) t"
  by (auto simp: ensures_partial_def)

lemma err_of_simps [simp]: "err_of (Inl e) = Some e" "err_of (Inr x) = None"
  by (simp_all add: err_of_def)

lemma closed_append: "closed Q \<Longrightarrow> Q None t \<Longrightarrow> Q e u \<Longrightarrow> Q e (t @ u)"
  by (simp add: closed_def)

lemma ensures_bind:
  assumes "closed Q" and "ensures m Q" and "\<And>x. ensures (f x) Q"
  shows "ensures (bind m f) Q"
proof (rule ensuresI)
  fix w r t w' assume "bind m f w = (r, t, w')"
  then show "Q (err_of r) t"
  proof (cases rule: bind_cases)
    case (fail e)
    from ensuresD [OF assms(2) fail(1)] fail(2) show ?thesis by simp
  next
    case (ok x ta wa tb)
    from closed_append [OF assms(1)] ensuresD [OF assms(2) ok(1)] ensuresD [OF assms(3) ok(2)] ok(3)
    show ?thesis by simp
  qed
qed

lemma ensures_seq:
  assumes "closed Q" and "ensures m Q" and "ensures n Q"
  shows "ensures (seq m n) Q"
  unfolding seq_def using assms by (intro ensures_bind) auto

lemma ensures_return: "closed Q \<Longrightarrow> ensures (return x) Q"
  by (simp add: ensures_def return_def closed_def)

lemma ensures_raise: "closed Q \<Longrightarrow> ensures (raise e) Q"
  by (simp add: ensures_def raise_def closed_def)

lemma ensures_lookup: "closed Q \<Longrightarrow> ensures (lookup k v) Q"
  by (auto simp: lookup_def ensures_return ensures_raise split: option.splits)

lemma ensures_print: "Q None [Print s] \<Longrightarrow> ensures (print s) Q"
  by (simp add: ensures_def print_def)

lemma ensures_invoke: "(\<And>x. Q (err_of x) [Call c x]) \<Longrightarrow> ensures (invoke api c) Q"
  by (auto simp: ensures_def invoke_def split: prod.splits)

lemma ensures_perform:
  assumes "closed Q" and "\<And>x. Q (err_of x) [Call c x]"
  shows "ensures (perform api c) Q"
  unfolding perform_def
  by (intro ensures_bind ensures_invoke ensures_return assms)

lemma ensures_for_each:
  assumes "closed Q" and "\<And>x. ensures (f x) Q"
  shows "ensures (for_each xs f) Q"
proof (induction xs)
  case Nil
  with assms(1) show ?case by (simp add: ensures_return)
next
  case (Cons x xs)
  with assms show ?case by (auto intro!: ensures_bind)
qed

lemma ensures_if: "ensures a Q \<Longrightarrow> ensures b Q \<Longrightarrow> ensures (if c then a else b) Q"
  by simp

lemma ensures_case_option:
  "ensures a Q \<Longrightarrow> (\<And>x. ensures (f x) Q) \<Longrightarrow> ensures (case v of None \<Rightarrow> a | Some x \<Rightarrow> f x) Q"
  by (simp split: option.splits)

lemma ensures_partial_if:
  "ensures_partial a Q \<Longrightarrow> ensures_partial b Q \<Longrightarrow> ensures_partial (if c then a else b) Q"
  by simp

lemma ensures_lift: "ensures m Q \<Longrightarrow> ensures_partial (lift m) Q"
  by (auto simp: ensures_def ensures_partial_def lift_def)

lemma ensures_bind_partial:
  assumes "closed Q" and "ensures_partial m Q" and "\<And>x. ensures_partial (f x) Q"
  shows "ensures_partial (bind_partial m f) Q"
proof (rule ensures_partialI)
  fix w r t w' assume run: "bind_partial m f w = Some (r, t, w')"
  then obtain r1 t1 w1 where m: "m w = Some (r1, t1, w1)"
    by (auto simp: bind_partial_def split: option.splits)
  show "Q (err_of r) t"
  proof (cases r1)
    case (Inl e)
    with run m have "r = Inl e" "t = t1" by (auto simp: bind_partial_def)
    with ensures_partialD [OF assms(2) m] Inl show ?thesis by simp
  next
    case (Inr x)
    with run m obtain t2 where f: "f x w1 = Some (r, t2, w')" and t: "t = t1 @ t2"
      by (auto simp: bind_partial_def split: option.splits)
    from closed_append [OF assms(1)] ensures_partialD [OF assms(2) m] Inr
      ensures_partialD [OF assms(3) f] t
    show ?thesis by simp
  qed
qed

lemma ensures_except:
  assumes "ensures m Q" and "\<And>c t. Q (Some (ClientError c)) t \<Longrightarrow> Q None t"
  shows "ensures (except_ClientError_pass m) Q"
proof (rule ensuresI)
  fix w r t w' assume run: "except_ClientError_pass m w = (r, t, w')"
  obtain r0 where m: "m w = (r0, t, w')" and r0: "r = r0 \<or> (\<exists>c. r0 = Inl (ClientError c) \<and> r = Inr ())"
    using run
    by (auto simp: except_ClientError_pass_def split: prod.splits sum.splits error.splits)
  from ensuresD [OF assms(1) m] r0 assms(2) show "Q (err_of r) t" by auto
qed

lemmas ensures_rules =
  ensures_case_option ensures_if ensures_seq ensures_bind ensures_perform ensures_print
  ensures_return ensures_lookup ensures_invoke ensures_for_each ensures_raise

lemma paginate_ensures:
  assumes "paginate api b token body w = Some y"
  shows "closed Q \<longrightarrow> (\<forall>t e. Q None t \<longrightarrow> Q (Some e) t) \<longrightarrow>
         (\<forall>c x. Q (err_of x) [Call c x]) \<longrightarrow> (\<forall>page. ensures (body page) Q) \<longrightarrow>
         Q (err_of (fst y)) (fst (snd y))"
proof -
  let ?Q = "\<lambda>(api :: 'a api) (b :: string) (token :: string option)
       (body :: response \<Rightarrow> ('a, unit) prog) (w :: 'a) (y :: (error + unit) \<times> event list \<times> 'a).
         closed Q \<longrightarrow> (\<forall>t e. Q None t \<longrightarrow> Q (Some e) t) \<longrightarrow>
         (\<forall>c x. Q (err_of x) [Call c x]) \<longrightarrow> (\<forall>page. ensures (body page) Q) \<longrightarrow>
         Q (err_of (fst y)) (fst (snd y))"
  have "?Q api b token body w y"
  proof (rule paginate.raw_induct [where P = ?Q, OF _ assms])
    fix paginate' :: "'a api \<Rightarrow> string \<Rightarrow> string option \<Rightarrow> (response \<Rightarrow> ('a, unit) prog) \<Rightarrow> 'a
      \<Rightarrow> ((error + unit) \<times> event list \<times> 'a) option"
    fix api :: "'a api" and b token body and w :: 'a and y
    assume IH: "\<And>api b token body w y. paginate' api b token body w = Some y \<Longrightarrow> ?Q api b token body w y"
    assume unfold: "(case bind (invoke api (S3 (ListObjectsV2 b token)))
             (\<lambda>page. seq (body page) (return (NextContinuationToken page))) w of
        (Inl e, t, w') \<Rightarrow> Some (Inl e, t, w')
      | (Inr None, t, w') \<Rightarrow> Some (Inr (), t, w')
      | (Inr (Some next_token), t, w') \<Rightarrow>
          if token = Some next_token then Some (Inl (OtherError ''PaginationError''), t, w')
          else Option.bind (paginate' api b (Some next_token) body w')
                 (\<lambda>(r, t', w''). Some (r, t @ t', w''))) = Some y"
    show "?Q api b token body w y"
    proof (intro impI)
      assume cl: "closed Q" and raised: "\<forall>t e. Q None t \<longrightarrow> Q (Some e) t"
        and call: "\<forall>c x. Q (err_of x) [Call c x]" and body: "\<forall>page. ensures (body page) Q"
      obtain r1 t1 w1 where step: "bind (invoke api (S3 (ListObjectsV2 b token)))
             (\<lambda>page. seq (body page) (return (NextContinuationToken page))) w
           = (r1, t1, w1)" using prod_cases3 by blast
      have "ensures (bind (invoke api (S3 (ListObjectsV2 b token)))
             (\<lambda>page. seq (body page) (return (NextContinuationToken page)))) Q"
        using cl call body by (intro ensures_bind ensures_seq ensures_invoke ensures_return) auto
      from ensuresD [OF this step] have s: "Q (err_of r1) t1" .
      from unfold have unfold': "(case (r1, t1, w1) of
        (Inl e, t, w') \<Rightarrow> Some (Inl e, t, w')
      | (Inr None, t, w') \<Rightarrow> Some (Inr (), t, w')
      | (Inr (Some next_token), t, w') \<Rightarrow>
          if token = Some next_token then Some (Inl (OtherError ''PaginationError''), t, w')
          else Option.bind (paginate' api b (Some next_token) body w')
                 (\<lambda>(r, t', w''). Some (r, t @ t', w''))) = Some y"
        unfolding step .
      show "Q (err_of (fst y)) (fst (snd y))"
      proof (cases r1)
        case (Inl e)
        with unfold' have "y = (Inl e, t1, w1)" by simp
        with s Inl show ?thesis by simp
      next
        case (Inr next_token)
        with s have ok: "Q None t1" by simp
        show ?thesis
        proof (cases next_token)
          case None
          with unfold' Inr have "y = (Inr (), t1, w1)" by simp
          with ok show ?thesis by simp
        next
          case (Some nt)
          show ?thesis
          proof (cases "token = Some nt")
            case True
            with unfold' Inr Some
            have "y = (Inl (OtherError ''PaginationError''), t1, w1)" by simp
            with ok raised show ?thesis by simp
          next
            case False
            with unfold' Inr Some have "Option.bind (paginate' api b (Some nt) body w1)
                 (\<lambda>(r, t', w''). Some (r, t1 @ t', w'')) = Some y" by simp
            then obtain y' where
              rec: "paginate' api b (Some nt) body w1 = Some y'"
              and y: "y = (fst y', t1 @ fst (snd y'), snd (snd y'))"
              by (auto simp: bind_eq_Some_conv)
            from IH [OF rec] cl raised call body
            have "Q (err_of (fst y')) (fst (snd y'))" by blast
            from closed_append [OF cl ok this] y show ?thesis by simp
          qed
        qed
      qed
    qed
  qed
  then show ?thesis .
qed

lemma ensures_paginate:
  assumes "closed Q" and "\<And>t e. Q None t \<Longrightarrow> Q (Some e) t"
    and "\<And>c x. Q (err_of x) [Call c x]" and "\<And>page. ensures (body page) Q"
  shows "ensures_partial (paginate api b token body) Q"
proof (rule ensures_partialI)
  fix w r t w' assume "paginate api b token body w = Some (r, t, w')"
  from paginate_ensures [OF this, of Q] assms show "Q (err_of r) t" by simp
qed

lemmas ensures_partial_rules = ensures_partial_if ensures_bind_partial ensures_lift ensures_paginate




section \<open>At most one handler matches\<close>

lemma seq_print_ne: "seq (print s) m w \<noteq> (Inr (), [], w)"
  by (simp add: seq_def bind_def print_def split: prod.splits)

lemma bind_partial_print_ne:
  "bind_partial (lift (print s)) f w \<noteq> Some (Inr (), [], w)"
  by (simp add: bind_partial_def lift_def print_def split: option.splits prod.splits)

lemma fires_guardrail:
  "(lift (delete_guardrail api arn service resource) w \<noteq> Some (Inr (), [], w)) =
   (service = ''bedrock'' \<and> re_match ''guardrail/'' resource \<noteq> None)"
  by (auto simp: delete_guardrail_def lift_def seq_print_ne return_def split: option.splits)

lemma fires_collection:
  "(lift (delete_collection api arn service resource) w \<noteq> Some (Inr (), [], w)) =
   (service = ''aoss'' \<and> re_match ''collection/'' resource \<noteq> None)"
  by (auto simp: delete_collection_def lift_def seq_print_ne return_def split: option.splits)

lemma fires_knowledgebase:
  "(lift (delete_knowledgebase api arn service resource) w \<noteq> Some (Inr (), [], w)) =
   (service = ''bedrock'' \<and> re_match ''knowledge-base/'' resource \<noteq> None)"
  by (auto simp: delete_knowledgebase_def lift_def seq_print_ne return_def split: option.splits)

lemma fires_bucket:
  "(delete_bucket api arn service resource w \<noteq> Some (Inr (), [], w)) = (service = ''s3'')"
  by (auto simp: delete_bucket_def lift_def bind_partial_print_ne return_def Let_def)

lemma fires_function:
  "(lift (delete_function api arn service resource) w \<noteq> Some (Inr (), [], w)) =
   (service = ''lambda'' \<and> re_match ''function:'' resource \<noteq> None)"
  by (auto simp: delete_function_def lift_def seq_print_ne return_def split: option.splits)

lemma fires_roles:
  "(lift (delete_roles api arn service resource) w \<noteq> Some (Inr (), [], w)) =
   (service = ''iam'' \<and> re_match ''role/'' resource \<noteq> None)"
  by (auto simp: delete_roles_def lift_def seq_print_ne return_def Let_def split: option.splits)

lemma fires_policy:
  "(lift (delete_policy api arn service resource) w \<noteq> Some (Inr (), [], w)) =
   (service = ''iam'' \<and> re_match ''policy/'' resource \<noteq> None)"
  by (auto simp: delete_policy_def lift_def seq_print_ne return_def split: option.splits)

lemma fires_table:
  "(lift (delete_table api arn service resource) w \<noteq> Some (Inr (), [], w)) =
   (service = ''dynamodb'' \<and> re_match ''table/'' resource \<noteq> None)"
  by (auto simp: delete_table_def lift_def seq_print_ne return_def split: option.splits)

lemma fires_agent:
  "(lift (delete_agent api arn service resource) w \<noteq> Some (Inr (), [], w)) =
   (service = ''bedrock'' \<and> re_match ''agent/'' resource \<noteq> None)"
  by (auto simp: delete_agent_def lift_def seq_print_ne return_def split: option.splits)

lemmas fires = fires_guardrail fires_collection fires_knowledgebase fires_bucket
  fires_function fires_roles fires_policy fires_table fires_agent

lemma re_match_Cons:
  "re_match (c # lit) s \<noteq> None \<Longrightarrow> \<exists>s'. s = c # s'"
  by (cases s) (auto simp: re_match_def split: if_splits)

lemma re_match_Cons_Cons:
  "re_match (c # lit) (d # s) = (if c = d then re_match lit s else None)"
  by (simp add: re_match_def)

text \<open>
  C5. For every service and resource path (so for every pair \<open>parse_arn\<close> returns), at
  most one of the nine handlers of \<open>delete_actions\<close> does anything at all: the service
  checks and the literal prefixes exclude each other, and the bucket handler, which
  matches on the service \<^verbatim>\<open>s3\<close> alone, shares its service with no other handler. A
  handler that does not match returns at once, with no event and the provider untouched.
\<close>

theorem handlers_mutually_exclusive:
  "length (filter (\<lambda>action. action api arn service resource w \<noteq> Some (Inr (), [], w))
     delete_actions) \<le> 1"
  unfolding delete_actions_def
  by (auto simp: fires re_match_Cons_Cons simp del: not_None_eq dest!: re_match_Cons)

section \<open>The order of the sweep\<close>

lemma announced_append [simp]: "announced (t @ u) = announced t @ announced u"
  by (induction t rule: announced.induct) auto

lemma closed_announces_Nil: "closed (announces [])"
  by (simp add: closed_def announces_def)

lemma announces_Nil_call: "announces [] (err_of x) [Call c x]"
  by (simp add: announces_def)

lemma announces_Nil_raised: "announces [] None t \<Longrightarrow> announces [] (Some e) t"
  by (simp add: announces_def)

lemma ensures_announce:
  assumes "ensures m (announces [])"
  shows "ensures (seq (print (''Deleting: '' @ arn)) m) (announces [arn])"
proof (rule ensuresI)
  fix w r t w' assume "seq (print (''Deleting: '' @ arn)) m w = (r, t, w')"
  then obtain u where "m w = (r, u, w')" "t = Print (''Deleting: '' @ arn) # u"
    by (auto simp: seq_def bind_def print_def split: prod.splits)
  with ensuresD [OF assms this(1)] show "announces [arn] (err_of r) t"
    by (simp add: announces_def)
qed

lemma announces_guarded:
  assumes "\<And>g. ensures (rest g) (announces [])"
  shows "ensures (case re_match literal resource of
                    None \<Rightarrow> return ()
                  | Some g \<Rightarrow>
                      if service = required then seq (print (''Deleting: '' @ arn)) (rest g)
                      else return ())
           (announces (if guard_holds (required, Some literal) service resource then [arn] else []))"
proof (cases "guard_holds (required, Some literal) service resource")
  case True
  then obtain g where "re_match literal resource = Some g" "service = required"
    by (auto simp: guard_holds_def)
  moreover have "ensures (rest g) (announces [])" by (rule assms)
  then have "ensures (seq (print (''Deleting: '' @ arn)) (rest g)) (announces [arn])"
    by (rule ensures_announce)
  ultimately show ?thesis using True by simp
next
  case False
  then show ?thesis
    by (auto simp: guard_holds_def ensures_def return_def announces_def split: option.splits)
qed

lemmas announces_Nil_rules = ensures_rules closed_announces_Nil announces_Nil_call

lemma delete_guardrail_announces:
  "ensures (delete_guardrail api arn service resource)
     (announces (if guard_holds (''bedrock'', Some ''guardrail/'') service resource then [arn] else []))"
  unfolding delete_guardrail_def
  by (rule announces_guarded) (intro announces_Nil_rules; simp add: announces_def)

lemma delete_collection_announces:
  "ensures (delete_collection api arn service resource)
     (announces (if guard_holds (''aoss'', Some ''collection/'') service resource then [arn] else []))"
  unfolding delete_collection_def Let_def
  by (rule announces_guarded) (intro announces_Nil_rules; simp add: announces_def)

lemma delete_knowledgebase_announces:
  "ensures (delete_knowledgebase api arn service resource)
     (announces (if guard_holds (''bedrock'', Some ''knowledge-base/'') service resource then [arn] else []))"
  unfolding delete_knowledgebase_def
  by (rule announces_guarded) (intro announces_Nil_rules; simp add: announces_def)

lemma delete_function_announces:
  "ensures (delete_function api arn service resource)
     (announces (if guard_holds (''lambda'', Some ''function:'') service resource then [arn] else []))"
  unfolding delete_function_def
  by (rule announces_guarded) (intro announces_Nil_rules; simp add: announces_def)

lemma delete_policy_announces:
  "ensures (delete_policy api arn service resource)
     (announces (if guard_holds (''iam'', Some ''policy/'') service resource then [arn] else []))"
  unfolding delete_policy_def
  by (rule announces_guarded) (intro announces_Nil_rules; simp add: announces_def)

lemma delete_table_announces:
  "ensures (delete_table api arn service resource)
     (announces (if guard_holds (''dynamodb'', Some ''table/'') service resource then [arn] else []))"
  unfolding delete_table_def
  by (rule announces_guarded) (intro announces_Nil_rules; simp add: announces_def)

lemma delete_agent_announces:
  "ensures (delete_agent api arn service resource)
     (announces (if guard_holds (''bedrock'', Some ''agent/'') service resource then [arn] else []))"
  unfolding delete_agent_def
  by (rule announces_guarded) (intro announces_Nil_rules; simp add: announces_def)


lemma announces_Nil_passed: "announces [] (Some (ClientError c)) t \<Longrightarrow> announces [] None t"
  by (simp add: announces_def)

lemma delete_roles_announces:
  "ensures (delete_roles api arn service resource)
     (announces (if guard_holds (''iam'', Some ''role/'') service resource then [arn] else []))"
  unfolding delete_roles_def Let_def
  by (rule announces_guarded)
    (intro announces_Nil_rules ensures_except announces_Nil_passed; simp add: announces_def)

lemma ensures_partial_announce:
  assumes "ensures_partial m (announces [])"
  shows "ensures_partial (bind_partial (lift (print (''Deleting: '' @ arn))) (\<lambda>_. m))
           (announces [arn])"
proof (rule ensures_partialI)
  fix w r t w'
  assume "bind_partial (lift (print (''Deleting: '' @ arn))) (\<lambda>_. m) w = Some (r, t, w')"
  then obtain u where "m w = Some (r, u, w')" "t = Print (''Deleting: '' @ arn) # u"
    by (auto simp: bind_partial_def lift_def print_def split: option.splits)
  with ensures_partialD [OF assms this(1)] show "announces [arn] (err_of r) t"
    by (simp add: announces_def)
qed

lemma delete_bucket_announces:
  "ensures_partial (delete_bucket api arn service resource)
     (announces (if guard_holds (''s3'', None) service resource then [arn] else []))"
proof (cases "service = ''s3''")
  case True
  have "ensures_partial (delete_bucket api arn ''s3'' resource) (announces [arn])"
    unfolding delete_bucket_def Let_def
    apply (simp only: simp_thms if_True)
    apply (rule ensures_partial_announce)
    apply (intro ensures_partial_rules announces_Nil_rules announces_Nil_raised;
        simp add: announces_def)
    done
  with True show ?thesis by (simp add: guard_holds_def)
next
  case False
  then show ?thesis
    by (simp add: delete_bucket_def guard_holds_def ensures_partial_def lift_def return_def
        announces_def)
qed

lemma announces_in_turn: "announces arns e t \<Longrightarrow> in_turn arns e t"
  by (simp add: announces_def in_turn_def)

lemma in_turn_bind_partial:
  assumes "ensures_partial m (in_turn xs)" and "\<And>x. ensures_partial (f x) (in_turn ys)"
  shows "ensures_partial (bind_partial m f) (in_turn (xs @ ys))"
proof (rule ensures_partialI)
  fix w r t w' assume run: "bind_partial m f w = Some (r, t, w')"
  then obtain r1 t1 w1 where m: "m w = Some (r1, t1, w1)"
    by (auto simp: bind_partial_def split: option.splits)
  show "in_turn (xs @ ys) (err_of r) t"
  proof (cases r1)
    case (Inl e)
    with run m have "r = Inl e" "t = t1" by (auto simp: bind_partial_def)
    with ensures_partialD [OF assms(1) m] Inl show ?thesis
      by (auto simp: in_turn_def prefix_def)
  next
    case (Inr x)
    with run m obtain t2 where f: "f x w1 = Some (r, t2, w')" and t: "t = t1 @ t2"
      by (auto simp: bind_partial_def split: option.splits)
    from ensures_partialD [OF assms(1) m] Inr ensures_partialD [OF assms(2) f] t
    show ?thesis by (auto simp: in_turn_def)
  qed
qed

lemma apply_action_announces:
  assumes "\<And>service resource. ensures_partial (action api arn service resource)
             (announces (if guard_holds guard service resource then [arn] else []))"
  shows "ensures_partial (apply_action api action arn)
           (in_turn (if accepts guard arn then [arn] else []))"
proof (cases "parse_arn arn")
  case (Inl e)
  then show ?thesis
    by (simp add: apply_action_def accepts_def ensures_partial_def lift_def raise_def in_turn_def)
next
  case (Inr p)
  obtain service resource where p: "p = (service, resource)" by (cases p)
  have "apply_action api action arn = action api arn service resource"
    using Inr p by (simp add: apply_action_def)
  moreover have "accepts guard arn = guard_holds guard service resource"
    using Inr p by (simp add: accepts_def)
  moreover have "ensures_partial (action api arn service resource)
      (in_turn (if guard_holds guard service resource then [arn] else []))"
  proof (rule ensures_partialI)
    fix w r t w' assume "action api arn service resource w = Some (r, t, w')"
    from ensures_partialD [OF assms this]
    show "in_turn (if guard_holds guard service resource then [arn] else []) (err_of r) t"
      by (rule announces_in_turn)
  qed
  ultimately show ?thesis by simp
qed

lemma for_arns_in_turn:
  assumes "\<And>arn service resource. ensures_partial (action api arn service resource)
             (announces (if guard_holds guard service resource then [arn] else []))"
  shows "ensures_partial (for_arns api action arns) (in_turn (filter (accepts guard) arns))"
proof (induction arns)
  case Nil
  show ?case by (simp add: ensures_partial_def lift_def return_def in_turn_def)
next
  case (Cons arn arns)
  have "ensures_partial (bind_partial (apply_action api action arn) (\<lambda>_. for_arns api action arns))
          (in_turn ((if accepts guard arn then [arn] else []) @ filter (accepts guard) arns))"
    by (rule in_turn_bind_partial [OF apply_action_announces Cons.IH]) (rule assms)
  then show ?case by (cases "accepts guard arn") simp_all
qed

lemma for_actions_in_turn:
  assumes "list_all2 (\<lambda>action guard. \<forall>arn service resource.
             ensures_partial (action api arn service resource)
               (announces (if guard_holds guard service resource then [arn] else [])))
           actions guards"
  shows "ensures_partial (for_actions api actions arns)
           (in_turn (concat (map (\<lambda>guard. filter (accepts guard) arns) guards)))"
  using assms
proof (induction actions guards rule: list_all2_induct)
  case Nil
  show ?case by (simp add: ensures_partial_def lift_def return_def in_turn_def)
next
  case (Cons action actions guard guards)
  have "ensures_partial (bind_partial (for_arns api action arns) (\<lambda>_. for_actions api actions arns))
          (in_turn (filter (accepts guard) arns
             @ concat (map (\<lambda>guard. filter (accepts guard) arns) guards)))"
    by (rule in_turn_bind_partial [OF for_arns_in_turn Cons.IH]) (simp add: Cons.hyps)
  then show ?case by simp
qed

lemma delete_actions_guards:
  "list_all2 (\<lambda>action guard. \<forall>arn service resource.
             ensures_partial (action api arn service resource)
               (announces (if guard_holds guard service resource then [arn] else [])))
           delete_actions handler_guards"
  unfolding delete_actions_def handler_guards_def
  by (simp add: ensures_lift delete_guardrail_announces delete_collection_announces
      delete_knowledgebase_announces delete_bucket_announces delete_function_announces
      delete_roles_announces delete_policy_announces delete_table_announces
      delete_agent_announces)

text \<open>
  C1. In every run of \<open>delete_resources\<close> that returns, the identifiers are taken up
  handler by handler, in the fixed order guardrail, collection, knowledge-base, bucket,
  function, role, policy, table, agent, and under each handler in the order of the list:
  the identifiers that the run announces (a handler announces an identifier when its
  guard holds for it, before anything else) are those the first handler accepts, in list
  order, then those the second handler accepts, and so on -- all of them when the sweep
  returns normally, and the part of that sequence reached when an exception ends it.
\<close>

theorem delete_resources_handler_outer:
  assumes "delete_resources api arns w = Some (r, t, w')"
  shows "prefix (announced t) (concat (map (\<lambda>guard. filter (accepts guard) arns) handler_guards))
       \<and> (r = Inr () \<longrightarrow>
            announced t = concat (map (\<lambda>guard. filter (accepts guard) arns) handler_guards))"
proof -
  have "ensures_partial (delete_resources api arns)
          (in_turn (concat (map (\<lambda>guard. filter (accepts guard) arns) handler_guards)))"
    unfolding delete_resources_def by (rule for_actions_in_turn [OF delete_actions_guards])
  from ensures_partialD [OF this assms] show ?thesis
    by (cases r) (auto simp: in_turn_def)
qed

theorem delete_resources_handler_outer_witness:
  "delete_resources sample_account
     [''arn:aws:iam::1:role/my-role'', ''arn:aws:s3:::my-bucket'',
      ''arn:aws:bedrock:us-east-1:1:agent/abc123''] ()
   = Some (Inr (),
       [Print ''Deleting: arn:aws:s3:::my-bucket'',
        Print ''-> Deleting all contained objects'',
        Call (S3 (ListObjectsV2 ''my-bucket'' None))
          (Inr (ObjectsPage (Some [\<lparr>Key = ''a.txt''\<rparr>]) None)),
        Call (S3 (DeleteObjects ''my-bucket'' [''a.txt''])) (Inr Empty),
        Print ''-> Deleting S3 bucket: my-bucket'',
        Call (S3 (DeleteBucket ''my-bucket'')) (Inr Empty),
        Print ''Deleting: arn:aws:iam::1:role/my-role'',
        Call (Iam (ListAttachedRolePolicies ''my-role''))
          (Inr (AttachedPolicies
             [\<lparr>PolicyName = ''read'', PolicyArn = ''arn:aws:iam::1:policy/read''\<rparr>])),
        Print ''-> Detaching managed policy: read'',
        Call (Iam (DetachRolePolicy ''my-role'' ''arn:aws:iam::1:policy/read'')) (Inr Empty),
        Call (Iam (ListRolePolicies ''my-role'')) (Inr (PolicyNames [])),
        Call (Iam (ListInstanceProfilesForRole ''my-role'')) (Inr (InstanceProfiles [])),
        Print ''-> Deleting role: my-role'',
        Call (Iam (DeleteRole ''my-role'')) (Inr Empty),
        Print ''Deleting: arn:aws:bedrock:us-east-1:1:agent/abc123'',
        Print ''-> Deleting Bedrock Agent: abc123'',
        Call (BedrockAgent (DeleteAgent ''abc123'')) (Inr Empty)], ())
   \<and> concat (map (\<lambda>guard. filter (accepts guard)
         [''arn:aws:iam::1:role/my-role'', ''arn:aws:s3:::my-bucket'',
          ''arn:aws:bedrock:us-east-1:1:agent/abc123'']) handler_guards)
     = [''arn:aws:s3:::my-bucket'', ''arn:aws:iam::1:role/my-role'',
        ''arn:aws:bedrock:us-east-1:1:agent/abc123'']
   \<and> announced
       [Print ''Deleting: arn:aws:s3:::my-bucket'',
        Print ''-> Deleting all contained objects'',
        Call (S3 (ListObjectsV2 ''my-bucket'' None))
          (Inr (ObjectsPage (Some [\<lparr>Key = ''a.txt''\<rparr>]) None)),
        Call (S3 (DeleteObjects ''my-bucket'' [''a.txt''])) (Inr Empty),
        Print ''-> Deleting S3 bucket: my-bucket'',
        Call (S3 (DeleteBucket ''my-bucket'')) (Inr Empty),
        Print ''Deleting: arn:aws:iam::1:role/my-role'',
        Call (Iam (ListAttachedRolePolicies ''my-role''))
          (Inr (AttachedPolicies
             [\<lparr>PolicyName = ''read'', PolicyArn = ''arn:aws:iam::1:policy/read''\<rparr>])),
        Print ''-> Detaching managed policy: read'',
        Call (Iam (DetachRolePolicy ''my-role'' ''arn:aws:iam::1:policy/read'')) (Inr Empty),
        Call (Iam (ListRolePolicies ''my-role'')) (Inr (PolicyNames [])),
        Call (Iam (ListInstanceProfilesForRole ''my-role'')) (Inr (InstanceProfiles [])),
        Print ''-> Deleting role: my-role'',
        Call (Iam (DeleteRole ''my-role'')) (Inr Empty),
        Print ''Deleting: arn:aws:bedrock:us-east-1:1:agent/abc123'',
        Print ''-> Deleting Bedrock Agent: abc123'',
        Call (BedrockAgent (DeleteAgent ''abc123'')) (Inr Empty)]
     = [''arn:aws:s3:::my-bucket'', ''arn:aws:iam::1:role/my-role'',
        ''arn:aws:bedrock:us-east-1:1:agent/abc123'']"
proof -
  have page: "paginate sample_account ''my-bucket'' None body ()
    = (case body (ObjectsPage (Some [\<lparr>Key = ''a.txt''\<rparr>]) None) () of
         (Inl e, t, w) \<Rightarrow>
           Some (Inl e, Call (S3 (ListObjectsV2 ''my-bucket'' None))
             (Inr (ObjectsPage (Some [\<lparr>Key = ''a.txt''\<rparr>]) None)) # t, w)
       | (Inr u, t, w) \<Rightarrow>
           Some (Inr (), Call (S3 (ListObjectsV2 ''my-bucket'' None))
             (Inr (ObjectsPage (Some [\<lparr>Key = ''a.txt''\<rparr>]) None)) # t, w))" for body
    by (subst paginate.simps)
      (simp add: sample_account_def bind_def seq_def invoke_def return_def
        NextContinuationToken_def split: prod.splits sum.splits)
  have run: "delete_resources sample_account
     [''arn:aws:iam::1:role/my-role'', ''arn:aws:s3:::my-bucket'',
      ''arn:aws:bedrock:us-east-1:1:agent/abc123''] ()
   = Some (Inr (),
       [Print ''Deleting: arn:aws:s3:::my-bucket'',
        Print ''-> Deleting all contained objects'',
        Call (S3 (ListObjectsV2 ''my-bucket'' None))
          (Inr (ObjectsPage (Some [\<lparr>Key = ''a.txt''\<rparr>]) None)),
        Call (S3 (DeleteObjects ''my-bucket'' [''a.txt''])) (Inr Empty),
        Print ''-> Deleting S3 bucket: my-bucket'',
        Call (S3 (DeleteBucket ''my-bucket'')) (Inr Empty),
        Print ''Deleting: arn:aws:iam::1:role/my-role'',
        Call (Iam (ListAttachedRolePolicies ''my-role''))
          (Inr (AttachedPolicies
             [\<lparr>PolicyName = ''read'', PolicyArn = ''arn:aws:iam::1:policy/read''\<rparr>])),
        Print ''-> Detaching managed policy: read'',
        Call (Iam (DetachRolePolicy ''my-role'' ''arn:aws:iam::1:policy/read'')) (Inr Empty),
        Call (Iam (ListRolePolicies ''my-role'')) (Inr (PolicyNames [])),
        Call (Iam (ListInstanceProfilesForRole ''my-role'')) (Inr (InstanceProfiles [])),
        Print ''-> Deleting role: my-role'',
        Call (Iam (DeleteRole ''my-role'')) (Inr Empty),
        Print ''Deleting: arn:aws:bedrock:us-east-1:1:agent/abc123'',
        Print ''-> Deleting Bedrock Agent: abc123'',
        Call (BedrockAgent (DeleteAgent ''abc123'')) (Inr Empty)], ())"
    by (simp add: run_defs page sample_account_def except_ClientError_pass_def
        AttachedPolicies_of_def PolicyNames_of_def InstanceProfiles_of_def Contents_def)
  have expected: "concat (map (\<lambda>guard. filter (accepts guard)
         [''arn:aws:iam::1:role/my-role'', ''arn:aws:s3:::my-bucket'',
          ''arn:aws:bedrock:us-east-1:1:agent/abc123'']) handler_guards)
     = [''arn:aws:s3:::my-bucket'', ''arn:aws:iam::1:role/my-role'',
        ''arn:aws:bedrock:us-east-1:1:agent/abc123'']"
    by (simp add: handler_guards_def accepts_def guard_holds_def parse_arn_def re_match_def Let_def)
  from delete_resources_handler_outer [OF run] run expected show ?thesis by simp
qed


section \<open>Exceptions leave the sweep\<close>

























section \<open>A second run over resources already deleted\<close>

lemma paginate_first_error:
  "api (S3 (ListObjectsV2 b tok)) w = (Inl e, w') \<Longrightarrow>
   paginate api b tok body w = Some (Inl e, [Call (S3 (ListObjectsV2 b tok)) (Inl e)], w')"
  by (subst paginate.simps) (simp add: bind_def invoke_def)

lemma lookups_only_Nil [simp]: "lookups_only []"
  by (simp add: lookups_only_def)

lemma lookups_only_append [simp]: "lookups_only (t @ u) \<longleftrightarrow> lookups_only t \<and> lookups_only u"
  by (auto simp: lookups_only_def list_ex_iff)

lemma refused_calls:
  assumes "\<forall>c w. (\<forall>ids. c \<noteq> Aoss (BatchGetCollection ids)) \<longrightarrow> api c w = (Inl (err c), w)"
  shows "api (Bedrock_DeleteGuardrail a) w = (Inl (err (Bedrock_DeleteGuardrail a)), w)"
    and "api (BedrockAgent ba) w = (Inl (err (BedrockAgent ba)), w)"
    and "api (S3 sc) w = (Inl (err (S3 sc)), w)"
    and "api (Iam ic) w = (Inl (err (Iam ic)), w)"
    and "api (Lambda lc) w = (Inl (err (Lambda lc)), w)"
    and "api (Dynamodb_DeleteTable n) w = (Inl (err (Dynamodb_DeleteTable n)), w)"
  by (simp_all add: assms)

lemma refused_guardrail:
  assumes "\<forall>c w. (\<forall>ids. c \<noteq> Aoss (BatchGetCollection ids)) \<longrightarrow> api c w = (Inl (err c), w)"
  shows "lift (delete_guardrail api arn service resource) w = Some (Inr (), [], w) \<or>
         (\<exists>c t. lift (delete_guardrail api arn service resource) w = Some (Inl (err c), t, w))"
proof -
  have ex: "\<exists>c. err x = err c" for x by (rule exI [of _ x]) (rule refl)
  from refused_calls [OF assms] show ?thesis
    by (simp add: delete_guardrail_def lift_def return_def seq_def bind_def print_def
      perform_def invoke_def ex split: option.splits)
qed

lemma refused_knowledgebase:
  assumes "\<forall>c w. (\<forall>ids. c \<noteq> Aoss (BatchGetCollection ids)) \<longrightarrow> api c w = (Inl (err c), w)"
  shows "lift (delete_knowledgebase api arn service resource) w = Some (Inr (), [], w) \<or>
         (\<exists>c t. lift (delete_knowledgebase api arn service resource) w = Some (Inl (err c), t, w))"
proof -
  have ex: "\<exists>c. err x = err c" for x by (rule exI [of _ x]) (rule refl)
  from refused_calls [OF assms] show ?thesis
    by (simp add: delete_knowledgebase_def lift_def return_def seq_def bind_def print_def
      perform_def invoke_def ex split: option.splits)
qed

lemma refused_bucket:
  assumes "\<forall>c w. (\<forall>ids. c \<noteq> Aoss (BatchGetCollection ids)) \<longrightarrow> api c w = (Inl (err c), w)"
  shows "delete_bucket api arn service resource w = Some (Inr (), [], w) \<or>
         (\<exists>c t. delete_bucket api arn service resource w = Some (Inl (err c), t, w))"
proof -
  have "api (S3 (ListObjectsV2 resource None)) w = (Inl (err (S3 (ListObjectsV2 resource None))), w)"
    by (simp add: assms)
  then have "paginate api resource None body w
    = Some (Inl (err (S3 (ListObjectsV2 resource None))),
        [Call (S3 (ListObjectsV2 resource None)) (Inl (err (S3 (ListObjectsV2 resource None))))], w)"
    for body by (rule paginate_first_error)
  moreover have "\<exists>c. err x = err c" for x by (rule exI [of _ x]) (rule refl)
  ultimately show ?thesis
    by (simp add: delete_bucket_def lift_def return_def bind_partial_def print_def Let_def)
qed

lemma refused_function:
  assumes "\<forall>c w. (\<forall>ids. c \<noteq> Aoss (BatchGetCollection ids)) \<longrightarrow> api c w = (Inl (err c), w)"
  shows "lift (delete_function api arn service resource) w = Some (Inr (), [], w) \<or>
         (\<exists>c t. lift (delete_function api arn service resource) w = Some (Inl (err c), t, w))"
proof -
  have ex: "\<exists>c. err x = err c" for x by (rule exI [of _ x]) (rule refl)
  from refused_calls [OF assms] show ?thesis
    by (simp add: delete_function_def lift_def return_def seq_def bind_def print_def
      perform_def invoke_def ex split: option.splits)
qed

lemma refused_roles:
  assumes "\<forall>c w. (\<forall>ids. c \<noteq> Aoss (BatchGetCollection ids)) \<longrightarrow> api c w = (Inl (err c), w)"
  shows "lift (delete_roles api arn service resource) w = Some (Inr (), [], w) \<or>
         (\<exists>c t. lift (delete_roles api arn service resource) w = Some (Inl (err c), t, w))"
proof -
  have ex: "\<exists>c. err x = err c" for x by (rule exI [of _ x]) (rule refl)
  from refused_calls [OF assms] show ?thesis
    by (simp add: delete_roles_def lift_def return_def seq_def bind_def print_def
      perform_def invoke_def Let_def ex split: option.splits)
qed

lemma refused_policy:
  assumes "\<forall>c w. (\<forall>ids. c \<noteq> Aoss (BatchGetCollection ids)) \<longrightarrow> api c w = (Inl (err c), w)"
  shows "lift (delete_policy api arn service resource) w = Some (Inr (), [], w) \<or>
         (\<exists>c t. lift (delete_policy api arn service resource) w = Some (Inl (err c), t, w))"
proof -
  have ex: "\<exists>c. err x = err c" for x by (rule exI [of _ x]) (rule refl)
  from refused_calls [OF assms] show ?thesis
    by (simp add: delete_policy_def lift_def return_def seq_def bind_def print_def
      perform_def invoke_def ex split: option.splits)
qed

lemma refused_table:
  assumes "\<forall>c w. (\<forall>ids. c \<noteq> Aoss (BatchGetCollection ids)) \<longrightarrow> api c w = (Inl (err c), w)"
  shows "lift (delete_table api arn service resource) w = Some (Inr (), [], w) \<or>
         (\<exists>c t. lift (delete_table api arn service resource) w = Some (Inl (err c), t, w))"
proof -
  have ex: "\<exists>c. err x = err c" for x by (rule exI [of _ x]) (rule refl)
  from refused_calls [OF assms] show ?thesis
    by (simp add: delete_table_def lift_def return_def seq_def bind_def print_def
      perform_def invoke_def ex split: option.splits)
qed

lemma refused_agent:
  assumes "\<forall>c w. (\<forall>ids. c \<noteq> Aoss (BatchGetCollection ids)) \<longrightarrow> api c w = (Inl (err c), w)"
  shows "lift (delete_agent api arn service resource) w = Some (Inr (), [], w) \<or>
         (\<exists>c t. lift (delete_agent api arn service resource) w = Some (Inl (err c), t, w))"
proof -
  have ex: "\<exists>c. err x = err c" for x by (rule exI [of _ x]) (rule refl)
  from refused_calls [OF assms] show ?thesis
    by (simp add: delete_agent_def lift_def return_def seq_def bind_def print_def
      perform_def invoke_def ex split: option.splits)
qed

lemma absent_collection:
  assumes "\<forall>ids w. api (Aoss (BatchGetCollection ids)) w = (Inr (CollectionDetails []), w)"
  shows "\<exists>t. lift (delete_collection api arn service resource) w = Some (Inr (), t, w)
             \<and> lookups_only t"
  by (simp add: delete_collection_def lift_def return_def seq_def bind_def print_def
      invoke_def lookup_def collectionDetails_def lookups_only_def assms split: option.splits)

lemma second_action:
  assumes a: "\<forall>ids w. api (Aoss (BatchGetCollection ids)) w = (Inr (CollectionDetails []), w)"
    and b: "\<forall>c w. (\<forall>ids. c \<noteq> Aoss (BatchGetCollection ids)) \<longrightarrow> api c w = (Inl (err c), w)"
    and k: "k < 9"
  shows "if k = 1 then \<exists>t. (delete_actions ! k) api arn service resource w = Some (Inr (), t, w)
                           \<and> lookups_only t
         else (delete_actions ! k) api arn service resource w = Some (Inr (), [], w) \<or>
              (\<exists>c t. (delete_actions ! k) api arn service resource w = Some (Inl (err c), t, w))"
proof (cases "k = 1")
  case True
  with absent_collection [of api arn service resource w, OF a] show ?thesis
    by (simp add: delete_actions_def)
next
  case False
  note g = refused_guardrail [of api err arn service resource w, OF b]
    refused_knowledgebase [of api err arn service resource w, OF b]
    refused_bucket [of api err arn service resource w, OF b]
    refused_function [of api err arn service resource w, OF b]
    refused_roles [of api err arn service resource w, OF b]
    refused_policy [of api err arn service resource w, OF b]
    refused_table [of api err arn service resource w, OF b]
    refused_agent [of api err arn service resource w, OF b]
  from k False have "k \<in> {0, 2, 3, 4, 5, 6, 7, 8}" by auto
  then show ?thesis using g
    by (elim insertE emptyE) (simp_all add: delete_actions_def)
qed

lemma second_apply_action:
  assumes a: "\<forall>ids w. api (Aoss (BatchGetCollection ids)) w = (Inr (CollectionDetails []), w)"
    and b: "\<forall>c w. (\<forall>ids. c \<noteq> Aoss (BatchGetCollection ids)) \<longrightarrow> api c w = (Inl (err c), w)"
    and k: "k < 9" and arn: "3 \<le> length (split arn CHR '':'')"
  shows "if k = 1 then \<exists>t. apply_action api (delete_actions ! k) arn w = Some (Inr (), t, w)
                           \<and> lookups_only t
         else apply_action api (delete_actions ! k) arn w = Some (Inr (), [], w) \<or>
              (\<exists>c t. apply_action api (delete_actions ! k) arn w = Some (Inl (err c), t, w))"
  using second_action [OF a b k, of arn "split arn CHR '':'' ! 2"
      "join '':'' (drop 5 (split arn CHR '':''))" w] arn
  by (simp add: apply_action_def parse_arn_def Let_def split: if_splits)

lemma second_for_arns:
  assumes a: "\<forall>ids w. api (Aoss (BatchGetCollection ids)) w = (Inr (CollectionDetails []), w)"
    and b: "\<forall>c w. (\<forall>ids. c \<noteq> Aoss (BatchGetCollection ids)) \<longrightarrow> api c w = (Inl (err c), w)"
    and k: "k < 9" and arns: "list_all (\<lambda>arn. 3 \<le> length (split arn CHR '':'')) arns"
  shows "if k \<noteq> 1 \<and> (\<exists>arn \<in> set arns.
              apply_action api (delete_actions ! k) arn w \<noteq> Some (Inr (), [], w))
         then \<exists>c t. for_arns api (delete_actions ! k) arns w = Some (Inl (err c), t, w)
         else \<exists>t. for_arns api (delete_actions ! k) arns w = Some (Inr (), t, w)
                  \<and> lookups_only t"
  using arns
proof (induction arns)
  case Nil
  then show ?case by (simp add: lift_def return_def)
next
  case (Cons arn arns)
  then have arn: "3 \<le> length (split arn CHR '':'')" by simp
  from Cons have IH: "if k \<noteq> 1 \<and> (\<exists>arn \<in> set arns.
              apply_action api (delete_actions ! k) arn w \<noteq> Some (Inr (), [], w))
         then \<exists>c t. for_arns api (delete_actions ! k) arns w = Some (Inl (err c), t, w)
         else \<exists>t. for_arns api (delete_actions ! k) arns w = Some (Inr (), t, w)
                  \<and> lookups_only t" by simp
  note step = second_apply_action [OF a b k arn, of w]
  show ?case
  proof (cases "k = 1")
    case True
    with step obtain t where
      "apply_action api (delete_actions ! k) arn w = Some (Inr (), t, w)" "lookups_only t"
      by auto
    moreover from IH True obtain u where
      "for_arns api (delete_actions ! k) arns w = Some (Inr (), u, w)" "lookups_only u"
      by auto
    ultimately show ?thesis using True by (simp add: bind_partial_def)
  next
    case False
    with step consider
      "apply_action api (delete_actions ! k) arn w = Some (Inr (), [], w)"
      | c t where "apply_action api (delete_actions ! k) arn w = Some (Inl (err c), t, w)"
      by auto
    then show ?thesis
    proof cases
      case 1
      with IH False show ?thesis by (auto simp: bind_partial_def split: if_splits)
    next
      case 2
      with False show ?thesis by (auto simp: bind_partial_def)
    qed
  qed
qed

lemma second_for_actions:
  assumes a: "\<forall>ids w. api (Aoss (BatchGetCollection ids)) w = (Inr (CollectionDetails []), w)"
    and b: "\<forall>c w. (\<forall>ids. c \<noteq> Aoss (BatchGetCollection ids)) \<longrightarrow> api c w = (Inl (err c), w)"
    and arns: "list_all (\<lambda>arn. 3 \<le> length (split arn CHR '':'')) arns"
    and ks: "\<forall>k \<in> set ks. k < 9"
  shows "if \<exists>k \<in> set ks. k \<noteq> 1 \<and> (\<exists>arn \<in> set arns.
              apply_action api (delete_actions ! k) arn w \<noteq> Some (Inr (), [], w))
         then \<exists>c t. for_actions api (map ((!) delete_actions) ks) arns w = Some (Inl (err c), t, w)
         else \<exists>t. for_actions api (map ((!) delete_actions) ks) arns w = Some (Inr (), t, w)
                  \<and> lookups_only t"
  using ks
proof (induction ks)
  case Nil
  then show ?case by (simp add: lift_def return_def)
next
  case (Cons k ks)
  then have k: "k < 9" by simp
  from Cons have IH: "if \<exists>k \<in> set ks. k \<noteq> 1 \<and> (\<exists>arn \<in> set arns.
              apply_action api (delete_actions ! k) arn w \<noteq> Some (Inr (), [], w))
         then \<exists>c t. for_actions api (map ((!) delete_actions) ks) arns w = Some (Inl (err c), t, w)
         else \<exists>t. for_actions api (map ((!) delete_actions) ks) arns w = Some (Inr (), t, w)
                  \<and> lookups_only t" by simp
  note step = second_for_arns [OF a b k arns, of w]
  show ?case
  proof (cases "k \<noteq> 1 \<and> (\<exists>arn \<in> set arns.
              apply_action api (delete_actions ! k) arn w \<noteq> Some (Inr (), [], w))")
    case True
    with step obtain c t where
      "for_arns api (delete_actions ! k) arns w = Some (Inl (err c), t, w)" by auto
    with True show ?thesis by (auto simp: bind_partial_def)
  next
    case False
    with step obtain t where t:
      "for_arns api (delete_actions ! k) arns w = Some (Inr (), t, w)" "lookups_only t"
      by auto
    show ?thesis
    proof (cases "\<exists>k \<in> set ks. k \<noteq> 1 \<and> (\<exists>arn \<in> set arns.
              apply_action api (delete_actions ! k) arn w \<noteq> Some (Inr (), [], w))")
      case True
      with IH obtain c u where
        "for_actions api (map ((!) delete_actions) ks) arns w = Some (Inl (err c), u, w)" by auto
      with t True show ?thesis by (auto simp: bind_partial_def)
    next
      case no: False
      with IH obtain u where
        "for_actions api (map ((!) delete_actions) ks) arns w = Some (Inr (), u, w)"
        "lookups_only u" by (auto split: if_splits)
      with t False no show ?thesis by (auto simp: bind_partial_def)
    qed
  qed
qed

lemma delete_actions_nth:
  "(delete_actions :: 'w action list) = map ((!) delete_actions) [0..<9]"
proof -
  have "length (delete_actions :: 'w action list) = 9" by (simp add: delete_actions_def)
  with map_nth [of "delete_actions :: 'w action list"] show ?thesis by simp
qed

text \<open>
  C3, as the code has it. On a second run the resources are gone: the collection lookup
  answers with an empty list of details, and the provider refuses every other call with
  an error (not-found), its state unchanged. Only \<open>delete_collection\<close>, handler 1 of
  \<open>delete_actions\<close> counting from 0, copes with that: it looks the collection up first and
  does nothing when the lookup finds none. The other eight handlers do not treat
  not-found as success. So, the identifiers having at least three segments each: when
  some identifier matches one of those eight handlers, the sweep raises the provider's
  error; otherwise it returns normally, and the only calls it has issued are collection
  lookups, none of them refused.
\<close>

theorem second_run_outcome:
  assumes "\<forall>ids w. api (Aoss (BatchGetCollection ids)) w = (Inr (CollectionDetails []), w)"
    and "\<forall>c w. (\<forall>ids. c \<noteq> Aoss (BatchGetCollection ids)) \<longrightarrow> api c w = (Inl (err c), w)"
    and "list_all (\<lambda>arn. 3 \<le> length (split arn CHR '':'')) arns"
  shows "if \<exists>k arn. k < 9 \<and> k \<noteq> 1 \<and> arn \<in> set arns \<and>
              apply_action api (delete_actions ! k) arn w \<noteq> Some (Inr (), [], w)
         then \<exists>c t. delete_resources api arns w = Some (Inl (err c), t, w)
         else \<exists>t. delete_resources api arns w = Some (Inr (), t, w) \<and>
                  (\<forall>c \<in> set (calls t). \<exists>ids. c = Aoss (BatchGetCollection ids)) \<and>
                  \<not> list_ex failed t"
proof -
  have "\<forall>k \<in> set [0..<9]. k < 9" by simp
  from second_for_actions [OF assms this, of w]
  have "if \<exists>k \<in> set [0..<9]. k \<noteq> 1 \<and> (\<exists>arn \<in> set arns.
              apply_action api (delete_actions ! k) arn w \<noteq> Some (Inr (), [], w))
         then \<exists>c t. for_actions api (map ((!) delete_actions) [0..<9]) arns w = Some (Inl (err c), t, w)
         else \<exists>t. for_actions api (map ((!) delete_actions) [0..<9]) arns w = Some (Inr (), t, w)
                  \<and> lookups_only t" .
  moreover have "(\<exists>k \<in> set [0..<9]. k \<noteq> 1 \<and> (\<exists>arn \<in> set arns.
              apply_action api (delete_actions ! k) arn w \<noteq> Some (Inr (), [], w)))
     \<longleftrightarrow> (\<exists>k arn. k < 9 \<and> k \<noteq> 1 \<and> arn \<in> set arns \<and>
              apply_action api (delete_actions ! k) arn w \<noteq> Some (Inr (), [], w))"
    by auto
  ultimately show ?thesis
    unfolding delete_resources_def delete_actions_nth [symmetric] lookups_only_def
    by (simp only:)
qed

theorem second_run_outcome_witness:
  "(\<forall>ids w. already_deleted (Aoss (BatchGetCollection ids)) w = (Inr (CollectionDetails []), w)) \<and>
   (\<forall>c w. (\<exists>ids. c = Aoss (BatchGetCollection ids)) \<or>
      already_deleted c w = (Inl (ClientError ''ResourceNotFoundException''), w)) \<and>
   list_all (\<lambda>arn. 3 \<le> length (split arn CHR '':''))
     [''arn:aws:aoss:us-east-1:1:collection/abc123'', ''arn:aws:dynamodb:us-east-1:1:table/ta''] \<and>
   (\<exists>t. delete_resources already_deleted
      [''arn:aws:aoss:us-east-1:1:collection/abc123'', ''arn:aws:dynamodb:us-east-1:1:table/ta''] ()
      = Some (Inl (ClientError ''ResourceNotFoundException''), t, ())) \<and>
   (\<exists>t. delete_resources already_deleted [''arn:aws:aoss:us-east-1:1:collection/abc123''] ()
      = Some (Inr (), t, ()) \<and>
      (\<forall>c \<in> set (calls t). \<exists>ids. c = Aoss (BatchGetCollection ids)) \<and> \<not> list_ex failed t)"
proof -
  have lookup: "\<forall>ids w. already_deleted (Aoss (BatchGetCollection ids)) w
      = (Inr (CollectionDetails []), w)"
    by (simp add: already_deleted_def)
  have gone: "\<forall>c w. (\<forall>ids. c \<noteq> Aoss (BatchGetCollection ids)) \<longrightarrow>
      already_deleted c w = (Inl (ClientError ''ResourceNotFoundException''), w)"
    by (auto simp: already_deleted_def split: call.splits aoss_call.splits)
  have both: "list_all (\<lambda>arn. 3 \<le> length (split arn CHR '':''))
     [''arn:aws:aoss:us-east-1:1:collection/abc123'', ''arn:aws:dynamodb:us-east-1:1:table/ta'']"
    by simp
  have one: "list_all (\<lambda>arn. 3 \<le> length (split arn CHR '':''))
     [''arn:aws:aoss:us-east-1:1:collection/abc123'']"
    by simp
  have table: "apply_action already_deleted (delete_actions ! 7)
      ''arn:aws:dynamodb:us-east-1:1:table/ta'' () \<noteq> Some (Inr (), [], ())"
    by (simp add: run_defs already_deleted_def)
  have "\<exists>k arn. k < 9 \<and> k \<noteq> 1 \<and>
      arn \<in> set [''arn:aws:aoss:us-east-1:1:collection/abc123'',
                 ''arn:aws:dynamodb:us-east-1:1:table/ta''] \<and>
      apply_action already_deleted (delete_actions ! k) arn () \<noteq> Some (Inr (), [], ())"
    by (rule exI [of _ 7], rule exI [of _ "''arn:aws:dynamodb:us-east-1:1:table/ta''"])
      (simp add: table)
  with second_run_outcome [OF lookup gone both, of "()"]
  have raises: "\<exists>t. delete_resources already_deleted
      [''arn:aws:aoss:us-east-1:1:collection/abc123'', ''arn:aws:dynamodb:us-east-1:1:table/ta''] ()
      = Some (Inl (ClientError ''ResourceNotFoundException''), t, ())"
    by (simp only: if_True) blast
  have "\<forall>k<9. k \<noteq> 1 \<longrightarrow> apply_action already_deleted (delete_actions ! k)
      ''arn:aws:aoss:us-east-1:1:collection/abc123'' () = Some (Inr (), [], ())"
    unfolding numeral_eq_Suc pred_numeral_simps BitM.simps numeral_One One_nat_def All_less_Suc
    by (simp add: run_defs)
  then have "\<not> (\<exists>k arn. k < 9 \<and> k \<noteq> 1 \<and>
      arn \<in> set [''arn:aws:aoss:us-east-1:1:collection/abc123''] \<and>
      apply_action already_deleted (delete_actions ! k) arn () \<noteq> Some (Inr (), [], ()))"
    by auto
  with second_run_outcome [OF lookup gone one, of "()"]
  have returns: "\<exists>t. delete_resources already_deleted [''arn:aws:aoss:us-east-1:1:collection/abc123''] ()
      = Some (Inr (), t, ()) \<and>
      (\<forall>c \<in> set (calls t). \<exists>ids. c = Aoss (BatchGetCollection ids)) \<and> \<not> list_ex failed t"
    by (simp only: if_False)
  from gone have "\<forall>c w. (\<exists>ids. c = Aoss (BatchGetCollection ids)) \<or>
      already_deleted c w = (Inl (ClientError ''ResourceNotFoundException''), w)" by blast
  with lookup both raises returns show ?thesis by blast
qed


text \<open>
  The claim as the specification states it fails: on a guardrail that is already
  deleted, the sweep issues the deletion call and the not-found error leaves it.
\<close>

theorem second_run_counterexample:
  "delete_resources already_deleted
     [''arn:aws:bedrock:us-east-1:1:guardrail/g1''] ()
   = Some (Inl (ClientError ''ResourceNotFoundException''),
       [Print ''Deleting: arn:aws:bedrock:us-east-1:1:guardrail/g1'',
        Print ''-> Deleting guardrail: g1'',
        Call (Bedrock_DeleteGuardrail ''arn:aws:bedrock:us-east-1:1:guardrail/g1'')
          (Inl (ClientError ''ResourceNotFoundException''))], ())"
  by (simp add: run_defs already_deleted_def)

section \<open>Collection deletion\<close>

lemma delete_collection_blocks:
  "re_match ''collection/'' resource = Some collection_id \<Longrightarrow>
   delete_collection api arn ''aoss'' resource =
     seq (print (''Deleting: '' @ arn))
     (bind (invoke api (Aoss (BatchGetCollection [collection_id]))) (\<lambda>response.
      bind (lookup ''collectionDetails'' (collectionDetails response)) (\<lambda>collections.
      if length collections = 1 then
        seq (for_each [''encryption'', ''network'']
               (security_policies_block api (''collection/'' @ collection_name (collections ! 0))))
            (access_policies_block api collection_id
               (''collection/'' @ collection_name (collections ! 0)))
      else return ())))"
  unfolding security_policies_block_def access_policies_block_def
  by (simp add: delete_collection_def Let_def cong: if_cong)

lemma securityPolicySummaries_Some:
  "securityPolicySummaries response = Some v \<Longrightarrow> response = SecurityPolicySummaries v"
  by (cases response) (simp_all add: securityPolicySummaries_def)

lemma accessPolicySummaries_Some:
  "accessPolicySummaries response = Some v \<Longrightarrow> response = AccessPolicySummaries v"
  by (cases response) (simp_all add: accessPolicySummaries_def)

lemma collectionDetails_Some:
  "collectionDetails response = Some v \<Longrightarrow> response = CollectionDetails v"
  by (cases response) (simp_all add: collectionDetails_def)

lemma security_policies_block_calls:
  assumes "security_policies_block api rn pt w = (r, t, w')"
  shows "Aoss (DeleteCollection cid) \<notin> set (calls t)"
  using assms unfolding security_policies_block_def
proof (cases rule: fetch_cases)
  case (fail x)
  then show ?thesis by simp
next
  case (ok response v wa tb)
  from for_each_perform_calls [OF ok(3)] ok(4) show ?thesis by auto
qed

lemma security_policies_block_ok:
  assumes "security_policies_block api rn pt w = (Inr u, t, w')"
  shows "\<exists>ps. calls t = Aoss (ListSecurityPolicies pt [rn])
             # map (\<lambda>p. Aoss (DeleteSecurityPolicy (policy_summary_name p) pt)) ps
           \<and> Call (Aoss (ListSecurityPolicies pt [rn])) (Inr (SecurityPolicySummaries ps)) \<in> set t
           \<and> \<not> list_ex failed t"
  using assms unfolding security_policies_block_def
proof (cases rule: fetch_cases)
  case (fail x)
  then show ?thesis by simp
next
  case (ok response v wa tb)
  from for_each_perform_ok [OF ok(3)] ok(4) securityPolicySummaries_Some [OF ok(2)]
  show ?thesis by auto
qed


lemma access_policies_block_run:
  assumes "access_policies_block api cid rn w = (r, t, w')"
    and "Call (Aoss (DeleteCollection c)) x \<in> set t"
  shows "\<exists>ps pre. c = cid \<and> t = pre @ [Call (Aoss (DeleteCollection cid)) x]
           \<and> calls pre = Aoss (ListAccessPolicies ''data'' [rn])
               # map (\<lambda>p. Aoss (DeleteAccessPolicy (policy_summary_name p) ''data'')) ps
           \<and> Call (Aoss (ListAccessPolicies ''data'' [rn])) (Inr (AccessPolicySummaries ps)) \<in> set pre
           \<and> \<not> list_ex failed pre"
  using assms(1) unfolding access_policies_block_def
proof (cases rule: fetch_cases)
  case (fail y)
  with assms(2) show ?thesis by simp
next
  case (ok response ps wa tb)
  note resp = accessPolicySummaries_Some [OF ok(2)]
  from ok(3) show ?thesis
  proof (cases rule: seq_cases)
    case (fail e)
    from for_each_perform_calls [OF fail(1)] Call_in_calls [OF assms(2)] ok(4)
    show ?thesis by auto
  next
    case (ok u ta wb tc)
    obtain u' where u: "u = (u' :: unit)" by simp
    from for_each_perform_ok [OF ok(1) [unfolded u]]
    have ta: "calls ta = map (\<lambda>p. Aoss (DeleteAccessPolicy (policy_summary_name p) ''data'')) ps"
      "\<not> list_ex failed ta" by simp_all
    from print_perform_run [OF ok(2)] obtain y where
      tc: "tc = [Print (''-> Deleting OpenSearch Serverless collection: '' @ rn),
                 Call (Aoss (DeleteCollection cid)) y]" by auto
    from assms(2) have "Call (Aoss (DeleteCollection c)) x \<in> set (Call (Aoss (ListAccessPolicies ''data'' [rn])) (Inr response) # ta @ tc)"
      using \<open>t = Call (Aoss (ListAccessPolicies ''data'' [rn])) (Inr response) # tb\<close> ok(3) by simp
    then have "Call (Aoss (DeleteCollection c)) x \<in> set ta \<or> (c = cid \<and> x = y)"
      using tc by auto
    moreover have "Call (Aoss (DeleteCollection c)) x \<notin> set ta"
      using Call_in_calls [of "Aoss (DeleteCollection c)" x ta] ta(1) by auto
    ultimately have cx: "c = cid" "x = y" by auto
    let ?pre = "Call (Aoss (ListAccessPolicies ''data'' [rn])) (Inr response) # ta
                @ [Print (''-> Deleting OpenSearch Serverless collection: '' @ rn)]"
    have "t = ?pre @ [Call (Aoss (DeleteCollection cid)) x]"
      using \<open>t = Call (Aoss (ListAccessPolicies ''data'' [rn])) (Inr response) # tb\<close> ok(3) tc cx by simp
    moreover have "calls ?pre = Aoss (ListAccessPolicies ''data'' [rn])
               # map (\<lambda>p. Aoss (DeleteAccessPolicy (policy_summary_name p) ''data'')) ps"
      using ta(1) by simp
    moreover have "Call (Aoss (ListAccessPolicies ''data'' [rn])) (Inr (AccessPolicySummaries ps)) \<in> set ?pre"
      using resp by simp
    moreover have "\<not> list_ex failed ?pre" using ta(2) by simp
    ultimately show ?thesis using cx(1) by blast
  qed
qed

text \<open>
  C6. In every run of \<open>delete_collection\<close> that issues the delete-collection call, that
  call is the last event of the run, and the calls before it are exactly: the metadata
  lookup, the listing of the encryption policies and the deletion of each policy listed,
  the same for the network policies, the listing of the data access policies and the
  deletion of each one listed; every one of these calls was answered without error. So
  no policy deletion comes after the collection deletion, and the collection deletion is
  not issued unless every listed policy was deleted first.
\<close>

theorem delete_collection_policies_first:
  assumes "delete_collection api arn service resource w = (r, t, w')"
    and "Call (Aoss (DeleteCollection cid)) x \<in> set t"
  shows "\<exists>pre c encs nets datas.
      t = pre @ [Call (Aoss (DeleteCollection cid)) x]
    \<and> calls pre =
        Aoss (BatchGetCollection [cid])
        # Aoss (ListSecurityPolicies ''encryption'' [''collection/'' @ collection_name c])
        # map (\<lambda>p. Aoss (DeleteSecurityPolicy (policy_summary_name p) ''encryption'')) encs
        @ Aoss (ListSecurityPolicies ''network'' [''collection/'' @ collection_name c])
        # map (\<lambda>p. Aoss (DeleteSecurityPolicy (policy_summary_name p) ''network'')) nets
        @ Aoss (ListAccessPolicies ''data'' [''collection/'' @ collection_name c])
        # map (\<lambda>p. Aoss (DeleteAccessPolicy (policy_summary_name p) ''data'')) datas
    \<and> Call (Aoss (BatchGetCollection [cid])) (Inr (CollectionDetails [c])) \<in> set pre
    \<and> Call (Aoss (ListSecurityPolicies ''encryption'' [''collection/'' @ collection_name c]))
         (Inr (SecurityPolicySummaries encs)) \<in> set pre
    \<and> Call (Aoss (ListSecurityPolicies ''network'' [''collection/'' @ collection_name c]))
         (Inr (SecurityPolicySummaries nets)) \<in> set pre
    \<and> Call (Aoss (ListAccessPolicies ''data'' [''collection/'' @ collection_name c]))
         (Inr (AccessPolicySummaries datas)) \<in> set pre
    \<and> \<not> list_ex failed pre"
proof -
  from assms have fires: "delete_collection api arn service resource w \<noteq> (Inr (), [], w)"
    by auto
  then obtain k where k: "re_match ''collection/'' resource = Some k" and svc: "service = ''aoss''"
    by (auto simp: delete_collection_def return_def split: option.splits if_splits)
  let ?D = "Print (''Deleting: '' @ arn)"
  from assms(1) [unfolded svc delete_collection_blocks [OF k]]
  obtain t0 where t: "t = ?D # t0" and
    run0: "bind (invoke api (Aoss (BatchGetCollection [k]))) (\<lambda>response.
      bind (lookup ''collectionDetails'' (collectionDetails response)) (\<lambda>collections.
      if length collections = 1 then
        seq (for_each [''encryption'', ''network'']
               (security_policies_block api (''collection/'' @ collection_name (collections ! 0))))
            (access_policies_block api k
               (''collection/'' @ collection_name (collections ! 0)))
      else return ())) w = (r, t0, w')"
    by (auto simp: seq_def bind_def print_def split: prod.splits)
  from run0 show ?thesis
  proof (cases rule: fetch_cases)
    case (fail y)
    with assms(2) t show ?thesis by simp
  next
    case (ok response cs wa tb)
    note resp = collectionDetails_Some [OF ok(2)]
    show ?thesis
    proof (cases "length cs = 1")
      case False
      with ok(3) have "tb = []" by (simp add: return_def)
      with assms(2) t ok(4) show ?thesis by simp
    next
      case True
      then obtain c where cs: "cs = [c]" by (cases cs) auto
      let ?rn = "''collection/'' @ collection_name c"
      from ok(3) True cs have run1:
        "seq (for_each [''encryption'', ''network''] (security_policies_block api ?rn))
             (access_policies_block api k ?rn) wa = (r, tb, w')" by simp
      have sec_calls: "Aoss (DeleteCollection cid) \<notin> set (calls ts)"
        if "for_each [''encryption'', ''network''] (security_policies_block api ?rn) wa = (r', ts, w'')"
        for r' ts w''
      proof -
        from that have "bind (security_policies_block api ?rn ''encryption'')
          (\<lambda>_. bind (security_policies_block api ?rn ''network'') (\<lambda>_. return ())) wa = (r', ts, w'')"
          by simp
        then show ?thesis
        proof (cases rule: bind_cases)
          case (fail e)
          from security_policies_block_calls [OF fail(1)] show ?thesis .
        next
          case (ok u ta wb tc)
          from ok(2) have "Aoss (DeleteCollection cid) \<notin> set (calls tc)"
          proof (cases rule: bind_cases)
            case (fail e)
            from security_policies_block_calls [OF fail(1)] show ?thesis .
          next
            case (ok u2 td wc te)
            from security_policies_block_calls [OF ok(1)] ok(2,3) show ?thesis
              by (simp add: return_def)
          qed
          with security_policies_block_calls [OF ok(1)] ok(3) show ?thesis by simp
        qed
      qed
      from run1 show ?thesis
      proof (cases rule: seq_cases)
        case (fail e)
        from sec_calls [OF fail(1)] Call_in_calls [of "Aoss (DeleteCollection cid)" x tb]
          assms(2) t ok(4)
        show ?thesis by auto
      next
        case sec: (ok u ts wb tc)
        obtain u' where u: "u = (u' :: unit)" by simp
        from sec(1) have "bind (security_policies_block api ?rn ''encryption'')
          (\<lambda>_. bind (security_policies_block api ?rn ''network'') (\<lambda>_. return ())) wa = (Inr u, ts, wb)"
          by simp
        then obtain encs nets where
          ts: "calls ts =
                Aoss (ListSecurityPolicies ''encryption'' [?rn])
                # map (\<lambda>p. Aoss (DeleteSecurityPolicy (policy_summary_name p) ''encryption'')) encs
                @ Aoss (ListSecurityPolicies ''network'' [?rn])
                # map (\<lambda>p. Aoss (DeleteSecurityPolicy (policy_summary_name p) ''network'')) nets"
            "Call (Aoss (ListSecurityPolicies ''encryption'' [?rn]))
               (Inr (SecurityPolicySummaries encs)) \<in> set ts"
            "Call (Aoss (ListSecurityPolicies ''network'' [?rn]))
               (Inr (SecurityPolicySummaries nets)) \<in> set ts"
            "\<not> list_ex failed ts"
        proof (cases rule: bind_cases)
          case (ok u1 ta wc td)
          obtain u1' where u1: "u1 = (u1' :: unit)" by simp
          from ok(2) obtain u2 te wd tf where
            net: "security_policies_block api ?rn ''network'' wc = (Inr u2, te, wd)"
            and td: "td = te" 
            by (cases rule: bind_cases) (auto simp: return_def)
          from security_policies_block_ok [OF ok(1) [unfolded u1]] obtain encs where
            e: "calls ta = Aoss (ListSecurityPolicies ''encryption'' [?rn])
                 # map (\<lambda>p. Aoss (DeleteSecurityPolicy (policy_summary_name p) ''encryption'')) encs"
               "Call (Aoss (ListSecurityPolicies ''encryption'' [?rn]))
                  (Inr (SecurityPolicySummaries encs)) \<in> set ta"
               "\<not> list_ex failed ta" by blast
          from security_policies_block_ok [OF net] obtain nets where
            n: "calls te = Aoss (ListSecurityPolicies ''network'' [?rn])
                 # map (\<lambda>p. Aoss (DeleteSecurityPolicy (policy_summary_name p) ''network'')) nets"
               "Call (Aoss (ListSecurityPolicies ''network'' [?rn]))
                  (Inr (SecurityPolicySummaries nets)) \<in> set te"
               "\<not> list_ex failed te" by blast
          have ts: "ts = ta @ te" using ok(3) td by simp
          show ?thesis
          proof (rule that [of encs nets])
            show "calls ts =
                Aoss (ListSecurityPolicies ''encryption'' [?rn])
                # map (\<lambda>p. Aoss (DeleteSecurityPolicy (policy_summary_name p) ''encryption'')) encs
                @ Aoss (ListSecurityPolicies ''network'' [?rn])
                # map (\<lambda>p. Aoss (DeleteSecurityPolicy (policy_summary_name p) ''network'')) nets"
              using ts e(1) n(1) by simp
            show "Call (Aoss (ListSecurityPolicies ''encryption'' [?rn]))
               (Inr (SecurityPolicySummaries encs)) \<in> set ts" using ts e(2) by simp
            show "Call (Aoss (ListSecurityPolicies ''network'' [?rn]))
               (Inr (SecurityPolicySummaries nets)) \<in> set ts" using ts n(2) by simp
            show "\<not> list_ex failed ts" using ts e(3) n(3) by simp
          qed
        qed simp
        have "Call (Aoss (DeleteCollection cid)) x \<notin> set ts"
          using sec_calls [OF sec(1)] Call_in_calls by blast
        with assms(2) t ok(4) sec(3) have in_tc: "Call (Aoss (DeleteCollection cid)) x \<in> set tc"
          by auto
        from access_policies_block_run [OF sec(2) in_tc] obtain datas pre where
          acc: "cid = k" "tc = pre @ [Call (Aoss (DeleteCollection k)) x]"
            "calls pre = Aoss (ListAccessPolicies ''data'' [?rn])
               # map (\<lambda>p. Aoss (DeleteAccessPolicy (policy_summary_name p) ''data'')) datas"
            "Call (Aoss (ListAccessPolicies ''data'' [?rn])) (Inr (AccessPolicySummaries datas)) \<in> set pre"
            "\<not> list_ex failed pre" by blast
        let ?pre = "?D # Call (Aoss (BatchGetCollection [k])) (Inr response) # ts @ pre"
        have 1: "t = ?pre @ [Call (Aoss (DeleteCollection cid)) x]"
          using t ok(4) sec(3) acc(1,2) by simp
        have 2: "calls ?pre =
            Aoss (BatchGetCollection [cid])
            # Aoss (ListSecurityPolicies ''encryption'' [?rn])
            # map (\<lambda>p. Aoss (DeleteSecurityPolicy (policy_summary_name p) ''encryption'')) encs
            @ Aoss (ListSecurityPolicies ''network'' [?rn])
            # map (\<lambda>p. Aoss (DeleteSecurityPolicy (policy_summary_name p) ''network'')) nets
            @ Aoss (ListAccessPolicies ''data'' [?rn])
            # map (\<lambda>p. Aoss (DeleteAccessPolicy (policy_summary_name p) ''data'')) datas"
          using ts(1) acc(1,3) by simp
        have 3: "Call (Aoss (BatchGetCollection [cid])) (Inr (CollectionDetails [c])) \<in> set ?pre"
          using resp cs acc(1) by simp
        have 4: "Call (Aoss (ListSecurityPolicies ''encryption'' [?rn]))
               (Inr (SecurityPolicySummaries encs)) \<in> set ?pre"
           "Call (Aoss (ListSecurityPolicies ''network'' [?rn]))
               (Inr (SecurityPolicySummaries nets)) \<in> set ?pre"
           "Call (Aoss (ListAccessPolicies ''data'' [?rn])) (Inr (AccessPolicySummaries datas)) \<in> set ?pre"
          using ts(2,3) acc(4) by simp_all
        have 5: "\<not> list_ex failed ?pre" using ts(4) acc(5) by simp
        from 1 2 3 4 5 show ?thesis by blast
      qed
    qed
  qed
qed

lemmas response_defs = collectionDetails_def securityPolicySummaries_def
  accessPolicySummaries_def knowledgeBase_def dataSourceSummaries_def dataSource_def
  Contents_def NextContinuationToken_def AttachedPolicies_of_def PolicyNames_of_def
  InstanceProfiles_of_def Versions_of_def

theorem delete_collection_policies_first_witness:
  "delete_collection sample_aoss ''arn:aws:aoss:us-east-1:1:collection/abc123'' ''aoss''
     ''collection/abc123'' ()
   = (Inr (),
      [Print ''Deleting: arn:aws:aoss:us-east-1:1:collection/abc123'',
       Call (Aoss (BatchGetCollection [''abc123'']))
         (Inr (CollectionDetails [\<lparr>collection_name = ''docs''\<rparr>])),
       Call (Aoss (ListSecurityPolicies ''encryption'' [''collection/docs'']))
         (Inr (SecurityPolicySummaries [\<lparr>policy_summary_name = ''encryption-1''\<rparr>])),
       Print ''-> Deleting OpenSearchServerless encryption policy: encryption-1'',
       Call (Aoss (DeleteSecurityPolicy ''encryption-1'' ''encryption'')) (Inr Empty),
       Call (Aoss (ListSecurityPolicies ''network'' [''collection/docs'']))
         (Inr (SecurityPolicySummaries [\<lparr>policy_summary_name = ''network-1''\<rparr>])),
       Print ''-> Deleting OpenSearchServerless network policy: network-1'',
       Call (Aoss (DeleteSecurityPolicy ''network-1'' ''network'')) (Inr Empty),
       Call (Aoss (ListAccessPolicies ''data'' [''collection/docs'']))
         (Inr (AccessPolicySummaries
            [\<lparr>policy_summary_name = ''access-1''\<rparr>, \<lparr>policy_summary_name = ''access-2''\<rparr>])),
       Print ''-> Deleting OpenSearchServerless data policy: access-1'',
       Call (Aoss (DeleteAccessPolicy ''access-1'' ''data'')) (Inr Empty),
       Print ''-> Deleting OpenSearchServerless data policy: access-2'',
       Call (Aoss (DeleteAccessPolicy ''access-2'' ''data'')) (Inr Empty),
       Print ''-> Deleting OpenSearch Serverless collection: collection/docs'',
       Call (Aoss (DeleteCollection ''abc123'')) (Inr Empty)], ())
   \<and> (\<exists>pre c encs nets datas.
        fst (snd (delete_collection sample_aoss ''arn:aws:aoss:us-east-1:1:collection/abc123''
          ''aoss'' ''collection/abc123'' ()))
        = pre @ [Call (Aoss (DeleteCollection ''abc123'')) (Inr Empty)]
      \<and> calls pre =
          Aoss (BatchGetCollection [''abc123''])
          # Aoss (ListSecurityPolicies ''encryption'' [''collection/'' @ collection_name c])
          # map (\<lambda>p. Aoss (DeleteSecurityPolicy (policy_summary_name p) ''encryption'')) encs
          @ Aoss (ListSecurityPolicies ''network'' [''collection/'' @ collection_name c])
          # map (\<lambda>p. Aoss (DeleteSecurityPolicy (policy_summary_name p) ''network'')) nets
          @ Aoss (ListAccessPolicies ''data'' [''collection/'' @ collection_name c])
          # map (\<lambda>p. Aoss (DeleteAccessPolicy (policy_summary_name p) ''data'')) datas
      \<and> Call (Aoss (BatchGetCollection [''abc123''])) (Inr (CollectionDetails [c])) \<in> set pre
      \<and> Call (Aoss (ListSecurityPolicies ''encryption'' [''collection/'' @ collection_name c]))
           (Inr (SecurityPolicySummaries encs)) \<in> set pre
      \<and> Call (Aoss (ListSecurityPolicies ''network'' [''collection/'' @ collection_name c]))
           (Inr (SecurityPolicySummaries nets)) \<in> set pre
      \<and> Call (Aoss (ListAccessPolicies ''data'' [''collection/'' @ collection_name c]))
           (Inr (AccessPolicySummaries datas)) \<in> set pre
      \<and> \<not> list_ex failed pre)"
proof -
  let ?run = "delete_collection sample_aoss ''arn:aws:aoss:us-east-1:1:collection/abc123''
     ''aoss'' ''collection/abc123'' ()"
  have trace: "?run
   = (Inr (),
      [Print ''Deleting: arn:aws:aoss:us-east-1:1:collection/abc123'',
       Call (Aoss (BatchGetCollection [''abc123'']))
         (Inr (CollectionDetails [\<lparr>collection_name = ''docs''\<rparr>])),
       Call (Aoss (ListSecurityPolicies ''encryption'' [''collection/docs'']))
         (Inr (SecurityPolicySummaries [\<lparr>policy_summary_name = ''encryption-1''\<rparr>])),
       Print ''-> Deleting OpenSearchServerless encryption policy: encryption-1'',
       Call (Aoss (DeleteSecurityPolicy ''encryption-1'' ''encryption'')) (Inr Empty),
       Call (Aoss (ListSecurityPolicies ''network'' [''collection/docs'']))
         (Inr (SecurityPolicySummaries [\<lparr>policy_summary_name = ''network-1''\<rparr>])),
       Print ''-> Deleting OpenSearchServerless network policy: network-1'',
       Call (Aoss (DeleteSecurityPolicy ''network-1'' ''network'')) (Inr Empty),
       Call (Aoss (ListAccessPolicies ''data'' [''collection/docs'']))
         (Inr (AccessPolicySummaries
            [\<lparr>policy_summary_name = ''access-1''\<rparr>, \<lparr>policy_summary_name = ''access-2''\<rparr>])),
       Print ''-> Deleting OpenSearchServerless data policy: access-1'',
       Call (Aoss (DeleteAccessPolicy ''access-1'' ''data'')) (Inr Empty),
       Print ''-> Deleting OpenSearchServerless data policy: access-2'',
       Call (Aoss (DeleteAccessPolicy ''access-2'' ''data'')) (Inr Empty),
       Print ''-> Deleting OpenSearch Serverless collection: collection/docs'',
       Call (Aoss (DeleteCollection ''abc123'')) (Inr Empty)], ())"
    by (simp add: run_defs response_defs sample_aoss_def)
  have run: "?run = (fst ?run, fst (snd ?run), snd (snd ?run))" by (simp add: trace)
  have mem: "Call (Aoss (DeleteCollection ''abc123'')) (Inr Empty) \<in> set (fst (snd ?run))"
    by (simp add: trace)
  from delete_collection_policies_first [OF run mem] trace show ?thesis by blast
qed

text \<open>
  C10. When the resource path matches \<^verbatim>\<open>collection/<id>\<close>, the service is \<^verbatim>\<open>aoss\<close>
  and the metadata lookup returns a list of collection details whose length is not one
  (none, when the collection is already deleted), \<open>delete_collection\<close> returns normally
  after that one call: no security policy, no access policy and no collection is deleted.
\<close>

theorem delete_collection_not_found:
  assumes "re_match ''collection/'' resource = Some collection_id"
    and "api (Aoss (BatchGetCollection [collection_id])) w = (Inr (CollectionDetails collections), w')"
    and "length collections \<noteq> 1"
  shows "delete_collection api arn ''aoss'' resource w
         = (Inr (),
            [Print (''Deleting: '' @ arn),
             Call (Aoss (BatchGetCollection [collection_id])) (Inr (CollectionDetails collections))],
            w')"
  using assms
  by (simp add: delete_collection_def seq_def bind_def print_def invoke_def lookup_def
      return_def collectionDetails_def)

theorem delete_collection_not_found_witness:
  "delete_collection no_collection ''arn:aws:aoss:us-east-1:1:collection/abc123'' ''aoss''
     ''collection/abc123'' ()
   = (Inr (),
      [Print (''Deleting: '' @ ''arn:aws:aoss:us-east-1:1:collection/abc123''),
       Call (Aoss (BatchGetCollection [''abc123''])) (Inr (CollectionDetails []))],
      ())"
proof (rule delete_collection_not_found)
  show "re_match ''collection/'' ''collection/abc123'' = Some ''abc123''"
    by (simp add: re_match_def)
  show "no_collection (Aoss (BatchGetCollection [''abc123''])) () = (Inr (CollectionDetails []), ())"
    by (simp add: no_collection_def)
  show "length ([] :: collection_detail list) \<noteq> 1" by simp
qed

section \<open>Knowledge-base deletion\<close>

lemma delete_knowledgebase_blocks:
  "re_match ''knowledge-base/'' resource = Some kb_id \<Longrightarrow>
   delete_knowledgebase api arn ''bedrock'' resource =
     seq (print (''Deleting: '' @ arn))
     (bind (invoke api (BedrockAgent (GetKnowledgeBase kb_id))) (\<lambda>response.
      bind (lookup ''knowledgeBase'' (knowledgeBase response)) (\<lambda>kb.
      bind (invoke api (BedrockAgent (ListDataSources kb_id))) (\<lambda>response.
      bind (lookup ''dataSourceSummaries'' (dataSourceSummaries response)) (\<lambda>data_sources.
      seq (for_each data_sources (data_source_block api kb_id))
      (seq (print (''-> Deleting knowledge base: '' @ knowledge_base_name kb))
           (perform api (BedrockAgent (DeleteKnowledgeBase kb_id)))))))))"
  unfolding data_source_block_def
  by (simp add: delete_knowledgebase_def)

lemma retained_first_Nil: "retained_first []"
  by (simp add: retained_first_def)

lemma retained_first_append:
  assumes "retained_first t" and "retained_first u"
  shows "retained_first (t @ u)"
  unfolding retained_first_def
proof (intro allI impI)
  fix pre post kb ds x
  assume eq: "t @ u = pre @ Call (BedrockAgent (DeleteDataSource kb ds)) x # post"
  then obtain us where
    "(t = pre @ us \<and> us @ u = Call (BedrockAgent (DeleteDataSource kb ds)) x # post) \<or>
     (t @ us = pre \<and> u = us @ Call (BedrockAgent (DeleteDataSource kb ds)) x # post)"
    by (auto simp: append_eq_append_conv2)
  then consider us where "t = pre @ Call (BedrockAgent (DeleteDataSource kb ds)) x # us"
    | us where "pre = t @ us" "u = us @ Call (BedrockAgent (DeleteDataSource kb ds)) x # post"
    by (cases us) auto
  then show "\<exists>pre' name conf vec y line.
           pre = pre' @ [Call (BedrockAgent (UpdateDataSource kb ds name conf vec ''RETAIN'')) (Inr y),
                         Print line]"
  proof cases
    case 1
    with assms(1) show ?thesis unfolding retained_first_def by blast
  next
    case 2
    from assms(2) 2(2) obtain pre' name conf vec y line where
      "us = pre' @ [Call (BedrockAgent (UpdateDataSource kb ds name conf vec ''RETAIN'')) (Inr y),
                         Print line]" unfolding retained_first_def by blast
    with 2(1) have "pre = (t @ pre') @ [Call (BedrockAgent (UpdateDataSource kb ds name conf vec ''RETAIN'')) (Inr y),
                         Print line]" by simp
    then show ?thesis by blast
  qed
qed

lemma retained_first_other:
  "\<forall>kb ds x. e \<noteq> Call (BedrockAgent (DeleteDataSource kb ds)) x \<Longrightarrow> retained_first [e]"
  by (auto simp: retained_first_def append_eq_Cons_conv Cons_eq_append_conv)

lemma data_source_block_run:
  assumes "data_source_block api kb_id ds w = (r, t, w')"
  shows "(\<exists>x e. t = [Call (BedrockAgent (GetDataSource kb_id (dataSourceId ds))) x] \<and> r = Inl e)
       \<or> (\<exists>y e name conf vec.
            t = [Call (BedrockAgent (GetDataSource kb_id (dataSourceId ds))) (Inr y),
                 Call (BedrockAgent (UpdateDataSource kb_id (dataSourceId ds) name conf vec ''RETAIN''))
                   (Inl e)] \<and> r = Inl e)
       \<or> (\<exists>y z name conf vec x.
            t = [Call (BedrockAgent (GetDataSource kb_id (dataSourceId ds))) (Inr y),
                 Call (BedrockAgent (UpdateDataSource kb_id (dataSourceId ds) name conf vec ''RETAIN''))
                   (Inr z),
                 Print (''-> Deleting data source: '' @ data_source_summary_name ds),
                 Call (BedrockAgent (DeleteDataSource kb_id (dataSourceId ds))) x]
            \<and> ((\<exists>e. x = Inl e \<and> r = Inl e) \<or> (\<exists>v. x = Inr v \<and> r = Inr ())))"
  using assms unfolding data_source_block_def
proof (cases rule: fetch_cases)
  case (fail x)
  then show ?thesis by auto
next
  case (ok response d wa tb)
  from ok(3) show ?thesis
    using ok(4)
    by (auto simp: bind_def seq_def lookup_def raise_def return_def perform_def invoke_def print_def
        split: option.splits prod.splits sum.splits)
qed

lemma data_source_block_retained: "always (data_source_block api kb_id ds) retained_first"
proof (rule alwaysI)
  fix w r t w' assume "data_source_block api kb_id ds w = (r, t, w')"
  from data_source_block_run [OF this] show "retained_first t"
    by (elim disjE exE conjE)
      (auto simp: retained_first_def append_eq_Cons_conv Cons_eq_append_conv)
qed

lemma delete_knowledgebase_retained:
  "always (delete_knowledgebase api arn service resource) retained_first"
proof (cases "re_match ''knowledge-base/'' resource")
  case None
  then show ?thesis
    by (simp add: delete_knowledgebase_def always_return retained_first_Nil)
next
  case (Some kb_id)
  show ?thesis
  proof (cases "service = ''bedrock''")
    case False
    with Some show ?thesis
      by (simp add: delete_knowledgebase_def always_return retained_first_Nil)
  next
    case True
    show ?thesis
      unfolding True delete_knowledgebase_blocks [OF Some]
      by (intro always_seq always_bind always_for_each always_print always_invoke
          always_perform always_lookup retained_first_append retained_first_Nil
          data_source_block_retained retained_first_other)
        simp_all
  qed
qed

lemma knowledgeBase_Some: "knowledgeBase response = Some v \<Longrightarrow> response = KnowledgeBase v"
  by (cases response) (simp_all add: knowledgeBase_def)

lemma dataSourceSummaries_Some:
  "dataSourceSummaries response = Some v \<Longrightarrow> response = DataSourceSummaries v"
  by (cases response) (simp_all add: dataSourceSummaries_def)

lemma data_sources_loop_calls:
  assumes "for_each data_sources (data_source_block api kb_id) w = (r, t, w')"
  shows "BedrockAgent (DeleteKnowledgeBase k) \<notin> set (calls t)"
proof -
  have "always (for_each data_sources (data_source_block api kb_id))
          (\<lambda>t. BedrockAgent (DeleteKnowledgeBase k) \<notin> set (calls t))"
    unfolding data_source_block_def
    by (intro always_for_each always_seq always_bind always_print always_invoke
        always_perform always_lookup) simp_all
  from alwaysD [OF this assms] show ?thesis .
qed

lemma data_sources_loop_ok:
  "for_each data_sources (data_source_block api kb_id) w = (Inr u, t, w') \<Longrightarrow>
   \<exists>updates. length updates = length data_sources
     \<and> calls t = concat (map (\<lambda>(ds, name, conf, vec).
          [BedrockAgent (GetDataSource kb_id (dataSourceId ds)),
           BedrockAgent (UpdateDataSource kb_id (dataSourceId ds) name conf vec ''RETAIN''),
           BedrockAgent (DeleteDataSource kb_id (dataSourceId ds))]) (zip data_sources updates))
     \<and> \<not> list_ex failed t"
proof (induction data_sources arbitrary: w t)
  case Nil
  then show ?case by (simp add: return_def)
next
  case (Cons ds data_sources)
  from Cons.prems have "bind (data_source_block api kb_id ds)
     (\<lambda>_. for_each data_sources (data_source_block api kb_id)) w = (Inr u, t, w')" by simp
  then show ?case
  proof (cases rule: bind_cases)
    case (ok v ta wa tb)
    from data_source_block_run [OF ok(1)] obtain name conf vec where
      ta: "calls ta = [BedrockAgent (GetDataSource kb_id (dataSourceId ds)),
           BedrockAgent (UpdateDataSource kb_id (dataSourceId ds) name conf vec ''RETAIN''),
           BedrockAgent (DeleteDataSource kb_id (dataSourceId ds))]" "\<not> list_ex failed ta"
      by auto
    from Cons.IH [OF ok(2)] obtain updates where
      tb: "length updates = length data_sources"
        "calls tb = concat (map (\<lambda>(ds, name, conf, vec).
          [BedrockAgent (GetDataSource kb_id (dataSourceId ds)),
           BedrockAgent (UpdateDataSource kb_id (dataSourceId ds) name conf vec ''RETAIN''),
           BedrockAgent (DeleteDataSource kb_id (dataSourceId ds))]) (zip data_sources updates))"
        "\<not> list_ex failed tb" by blast
    show ?thesis
    proof (intro exI [of _ "(name, conf, vec) # updates"] conjI)
      show "length ((name, conf, vec) # updates) = length (ds # data_sources)"
        using tb(1) by simp
      show "calls t = concat (map (\<lambda>(ds, name, conf, vec).
          [BedrockAgent (GetDataSource kb_id (dataSourceId ds)),
           BedrockAgent (UpdateDataSource kb_id (dataSourceId ds) name conf vec ''RETAIN''),
           BedrockAgent (DeleteDataSource kb_id (dataSourceId ds))])
          (zip (ds # data_sources) ((name, conf, vec) # updates)))"
        using ok(3) ta(1) tb(2) by simp
      show "\<not> list_ex failed t" using ok(3) ta(2) tb(3) by simp
    qed
  qed simp
qed

text \<open>
  C7. In every run of \<open>delete_knowledgebase\<close>, whatever its outcome: wherever a data
  source is deleted, the call just before it (one printed line lies between them) is the
  update of that same data source with the deletion policy \<^verbatim>\<open>RETAIN\<close>, and that update
  succeeded. And if the knowledge base itself is deleted, that call is the last event of
  the run, and the calls before it are the lookup of the knowledge base, the listing of
  its data sources and, for every data source listed, in order, its lookup, its update to
  \<^verbatim>\<open>RETAIN\<close> and its deletion, every one answered without error.
\<close>

theorem delete_knowledgebase_retain_then_delete:
  assumes "delete_knowledgebase api arn service resource w = (r, t, w')"
  shows "(t = pre @ Call (BedrockAgent (DeleteDataSource kb ds)) x # post \<longrightarrow>
           (\<exists>pre' name conf vec y line.
              pre = pre' @ [Call (BedrockAgent (UpdateDataSource kb ds name conf vec ''RETAIN'')) (Inr y),
                            Print line]))
       \<and> (Call (BedrockAgent (DeleteKnowledgeBase kbase)) z \<in> set t \<longrightarrow>
           (\<exists>before data_sources updates.
              t = before @ [Call (BedrockAgent (DeleteKnowledgeBase kbase)) z]
            \<and> Call (BedrockAgent (ListDataSources kbase)) (Inr (DataSourceSummaries data_sources))
                \<in> set before
            \<and> length updates = length data_sources
            \<and> calls before =
                BedrockAgent (GetKnowledgeBase kbase) # BedrockAgent (ListDataSources kbase)
                # concat (map (\<lambda>(ds, name, conf, vec).
                    [BedrockAgent (GetDataSource kbase (dataSourceId ds)),
                     BedrockAgent (UpdateDataSource kbase (dataSourceId ds) name conf vec ''RETAIN''),
                     BedrockAgent (DeleteDataSource kbase (dataSourceId ds))])
                    (zip data_sources updates))
            \<and> \<not> list_ex failed before))"
proof (intro conjI impI)
  assume "t = pre @ Call (BedrockAgent (DeleteDataSource kb ds)) x # post"
  with alwaysD [OF delete_knowledgebase_retained assms]
  show "\<exists>pre' name conf vec y line.
              pre = pre' @ [Call (BedrockAgent (UpdateDataSource kb ds name conf vec ''RETAIN'')) (Inr y),
                            Print line]"
    unfolding retained_first_def by blast
next
  let ?K = "Call (BedrockAgent (DeleteKnowledgeBase kbase)) z"
  assume del: "?K \<in> set t"
  with assms have "delete_knowledgebase api arn service resource w \<noteq> (Inr (), [], w)" by auto
  then obtain k where k: "re_match ''knowledge-base/'' resource = Some k"
    and svc: "service = ''bedrock''"
    by (auto simp: delete_knowledgebase_def return_def split: option.splits if_splits)
  let ?D = "Print (''Deleting: '' @ arn)"
  from assms [unfolded svc delete_knowledgebase_blocks [OF k]]
  obtain t0 where t: "t = ?D # t0" and
    run0: "bind (invoke api (BedrockAgent (GetKnowledgeBase k))) (\<lambda>response.
      bind (lookup ''knowledgeBase'' (knowledgeBase response)) (\<lambda>kb.
      bind (invoke api (BedrockAgent (ListDataSources k))) (\<lambda>response.
      bind (lookup ''dataSourceSummaries'' (dataSourceSummaries response)) (\<lambda>data_sources.
      seq (for_each data_sources (data_source_block api k))
      (seq (print (''-> Deleting knowledge base: '' @ knowledge_base_name kb))
           (perform api (BedrockAgent (DeleteKnowledgeBase k)))))))) w = (r, t0, w')"
    by (auto simp: seq_def bind_def print_def split: prod.splits)
  from run0 show "\<exists>before data_sources updates.
              t = before @ [?K]
            \<and> Call (BedrockAgent (ListDataSources kbase)) (Inr (DataSourceSummaries data_sources))
                \<in> set before
            \<and> length updates = length data_sources
            \<and> calls before =
                BedrockAgent (GetKnowledgeBase kbase) # BedrockAgent (ListDataSources kbase)
                # concat (map (\<lambda>(ds, name, conf, vec).
                    [BedrockAgent (GetDataSource kbase (dataSourceId ds)),
                     BedrockAgent (UpdateDataSource kbase (dataSourceId ds) name conf vec ''RETAIN''),
                     BedrockAgent (DeleteDataSource kbase (dataSourceId ds))])
                    (zip data_sources updates))
            \<and> \<not> list_ex failed before"
  proof (cases rule: fetch_cases)
    case (fail y)
    with del t show ?thesis by simp
  next
    case get: (ok response1 kbv wa ta)
    from get(3) show ?thesis
    proof (cases rule: fetch_cases)
      case (fail y)
      with del t get(4) show ?thesis by simp
    next
      case lst: (ok response2 dss wb tb)
      note resp = dataSourceSummaries_Some [OF lst(2)]
      from lst(3) show ?thesis
      proof (cases rule: seq_cases)
        case (fail e)
        from data_sources_loop_calls [OF fail(1), of kbase] Call_in_calls [of _ z tb]
          del t get(4) lst(4)
        show ?thesis by auto
      next
        case loop: (ok u tc wc td)
        obtain u' where u: "u = (u' :: unit)" by simp
        from data_sources_loop_ok [OF loop(1) [unfolded u]] obtain updates where
          up: "length updates = length dss"
            "calls tc = concat (map (\<lambda>(ds, name, conf, vec).
              [BedrockAgent (GetDataSource k (dataSourceId ds)),
               BedrockAgent (UpdateDataSource k (dataSourceId ds) name conf vec ''RETAIN''),
               BedrockAgent (DeleteDataSource k (dataSourceId ds))]) (zip dss updates))"
            "\<not> list_ex failed tc" by blast
        from print_perform_run [OF loop(2)] obtain y where
          td: "td = [Print (''-> Deleting knowledge base: '' @ knowledge_base_name kbv),
                     Call (BedrockAgent (DeleteKnowledgeBase k)) y]" by auto
        have "?K \<notin> set tc"
          using data_sources_loop_calls [OF loop(1), of kbase] Call_in_calls by blast
        with del t get(4) lst(4) loop(3) td have kz: "kbase = k" "z = y" by auto
        let ?before = "?D # Call (BedrockAgent (GetKnowledgeBase k)) (Inr response1)
          # Call (BedrockAgent (ListDataSources k)) (Inr response2) # tc
          @ [Print (''-> Deleting knowledge base: '' @ knowledge_base_name kbv)]"
        have 1: "t = ?before @ [?K]" using t get(4) lst(4) loop(3) td kz by simp
        have 2: "Call (BedrockAgent (ListDataSources kbase)) (Inr (DataSourceSummaries dss))
                \<in> set ?before" using resp kz by simp
        have 3: "calls ?before =
                BedrockAgent (GetKnowledgeBase kbase) # BedrockAgent (ListDataSources kbase)
                # concat (map (\<lambda>(ds, name, conf, vec).
                    [BedrockAgent (GetDataSource kbase (dataSourceId ds)),
                     BedrockAgent (UpdateDataSource kbase (dataSourceId ds) name conf vec ''RETAIN''),
                     BedrockAgent (DeleteDataSource kbase (dataSourceId ds))])
                    (zip dss updates))" using up(2) kz by simp
        have 4: "\<not> list_ex failed ?before" using up(3) by simp
        from 1 2 up(1) 3 4 show ?thesis by blast
      qed
    qed
  qed
qed

theorem delete_knowledgebase_retain_then_delete_witness:
  "delete_knowledgebase sample_bedrock_agent ''arn:aws:bedrock:us-east-1:1:knowledge-base/KB1''
     ''bedrock'' ''knowledge-base/KB1'' ()
   = (Inr (),
      [Print ''Deleting: arn:aws:bedrock:us-east-1:1:knowledge-base/KB1'',
       Call (BedrockAgent (GetKnowledgeBase ''KB1''))
         (Inr (KnowledgeBase \<lparr>knowledge_base_name = ''manuals''\<rparr>)),
       Call (BedrockAgent (ListDataSources ''KB1''))
         (Inr (DataSourceSummaries
            [\<lparr>dataSourceId = ''ds1'', data_source_summary_name = ''first''\<rparr>,
             \<lparr>dataSourceId = ''ds2'', data_source_summary_name = ''second''\<rparr>])),
       Call (BedrockAgent (GetDataSource ''KB1'' ''ds1''))
         (Inr (DataSource \<lparr>data_source_name = ''ds1-name'',
                 dataSourceConfiguration = JObject [(''type'', JString ''S3'')],
                 vectorIngestionConfiguration = Some (JObject [])\<rparr>)),
       Call (BedrockAgent (UpdateDataSource ''KB1'' ''ds1'' ''ds1-name''
               (JObject [(''type'', JString ''S3'')]) (JObject []) ''RETAIN'')) (Inr Empty),
       Print ''-> Deleting data source: first'',
       Call (BedrockAgent (DeleteDataSource ''KB1'' ''ds1'')) (Inr Empty),
       Call (BedrockAgent (GetDataSource ''KB1'' ''ds2''))
         (Inr (DataSource \<lparr>data_source_name = ''ds2-name'',
                 dataSourceConfiguration = JObject [(''type'', JString ''S3'')],
                 vectorIngestionConfiguration = Some (JObject [])\<rparr>)),
       Call (BedrockAgent (UpdateDataSource ''KB1'' ''ds2'' ''ds2-name''
               (JObject [(''type'', JString ''S3'')]) (JObject []) ''RETAIN'')) (Inr Empty),
       Print ''-> Deleting data source: second'',
       Call (BedrockAgent (DeleteDataSource ''KB1'' ''ds2'')) (Inr Empty),
       Print ''-> Deleting knowledge base: manuals'',
       Call (BedrockAgent (DeleteKnowledgeBase ''KB1'')) (Inr Empty)], ())
   \<and> (\<exists>pre post.
        fst (snd (delete_knowledgebase sample_bedrock_agent
          ''arn:aws:bedrock:us-east-1:1:knowledge-base/KB1'' ''bedrock'' ''knowledge-base/KB1'' ()))
        = pre @ Call (BedrockAgent (DeleteDataSource ''KB1'' ''ds2'')) (Inr Empty) # post
      \<and> (\<exists>pre' name conf vec y line.
           pre = pre' @ [Call (BedrockAgent (UpdateDataSource ''KB1'' ''ds2'' name conf vec ''RETAIN''))
                           (Inr y), Print line]))
   \<and> (\<exists>before data_sources updates.
        fst (snd (delete_knowledgebase sample_bedrock_agent
          ''arn:aws:bedrock:us-east-1:1:knowledge-base/KB1'' ''bedrock'' ''knowledge-base/KB1'' ()))
        = before @ [Call (BedrockAgent (DeleteKnowledgeBase ''KB1'')) (Inr Empty)]
      \<and> Call (BedrockAgent (ListDataSources ''KB1'')) (Inr (DataSourceSummaries data_sources))
          \<in> set before
      \<and> length updates = length data_sources
      \<and> calls before =
          BedrockAgent (GetKnowledgeBase ''KB1'') # BedrockAgent (ListDataSources ''KB1'')
          # concat (map (\<lambda>(ds, name, conf, vec).
              [BedrockAgent (GetDataSource ''KB1'' (dataSourceId ds)),
               BedrockAgent (UpdateDataSource ''KB1'' (dataSourceId ds) name conf vec ''RETAIN''),
               BedrockAgent (DeleteDataSource ''KB1'' (dataSourceId ds))])
              (zip data_sources updates))
      \<and> \<not> list_ex failed before)"
proof -
  let ?run = "delete_knowledgebase sample_bedrock_agent
     ''arn:aws:bedrock:us-east-1:1:knowledge-base/KB1'' ''bedrock'' ''knowledge-base/KB1'' ()"
  have trace: "?run
   = (Inr (),
      [Print ''Deleting: arn:aws:bedrock:us-east-1:1:knowledge-base/KB1'',
       Call (BedrockAgent (GetKnowledgeBase ''KB1''))
         (Inr (KnowledgeBase \<lparr>knowledge_base_name = ''manuals''\<rparr>)),
       Call (BedrockAgent (ListDataSources ''KB1''))
         (Inr (DataSourceSummaries
            [\<lparr>dataSourceId = ''ds1'', data_source_summary_name = ''first''\<rparr>,
             \<lparr>dataSourceId = ''ds2'', data_source_summary_name = ''second''\<rparr>])),
       Call (BedrockAgent (GetDataSource ''KB1'' ''ds1''))
         (Inr (DataSource \<lparr>data_source_name = ''ds1-name'',
                 dataSourceConfiguration = JObject [(''type'', JString ''S3'')],
                 vectorIngestionConfiguration = Some (JObject [])\<rparr>)),
       Call (BedrockAgent (UpdateDataSource ''KB1'' ''ds1'' ''ds1-name''
               (JObject [(''type'', JString ''S3'')]) (JObject []) ''RETAIN'')) (Inr Empty),
       Print ''-> Deleting data source: first'',
       Call (BedrockAgent (DeleteDataSource ''KB1'' ''ds1'')) (Inr Empty),
       Call (BedrockAgent (GetDataSource ''KB1'' ''ds2''))
         (Inr (DataSource \<lparr>data_source_name = ''ds2-name'',
                 dataSourceConfiguration = JObject [(''type'', JString ''S3'')],
                 vectorIngestionConfiguration = Some (JObject [])\<rparr>)),
       Call (BedrockAgent (UpdateDataSource ''KB1'' ''ds2'' ''ds2-name''
               (JObject [(''type'', JString ''S3'')]) (JObject []) ''RETAIN'')) (Inr Empty),
       Print ''-> Deleting data source: second'',
       Call (BedrockAgent (DeleteDataSource ''KB1'' ''ds2'')) (Inr Empty),
       Print ''-> Deleting knowledge base: manuals'',
       Call (BedrockAgent (DeleteKnowledgeBase ''KB1'')) (Inr Empty)], ())"
    by (simp add: run_defs response_defs sample_bedrock_agent_def)
  have run: "?run = (fst ?run, fst (snd ?run), snd (snd ?run))" by (simp add: trace)
  have split: "fst (snd ?run) = take 10 (fst (snd ?run))
     @ Call (BedrockAgent (DeleteDataSource ''KB1'' ''ds2'')) (Inr Empty) # drop 11 (fst (snd ?run))"
    by (simp add: trace)
  have mem: "Call (BedrockAgent (DeleteKnowledgeBase ''KB1'')) (Inr Empty) \<in> set (fst (snd ?run))"
    by (simp add: trace)
  note th = delete_knowledgebase_retain_then_delete [OF run,
      where pre = "take 10 (fst (snd ?run))" and post = "drop 11 (fst (snd ?run))"
        and kb = "''KB1''" and ds = "''ds2''" and x = "Inr Empty"
        and kbase = "''KB1''" and z = "Inr Empty"]
  from th split have 1: "\<exists>pre' name conf vec y line.
           take 10 (fst (snd ?run))
           = pre' @ [Call (BedrockAgent (UpdateDataSource ''KB1'' ''ds2'' name conf vec ''RETAIN''))
                           (Inr y), Print line]" by blast
  from th mem have 2: "\<exists>before data_sources updates.
        fst (snd ?run) = before @ [Call (BedrockAgent (DeleteKnowledgeBase ''KB1'')) (Inr Empty)]
      \<and> Call (BedrockAgent (ListDataSources ''KB1'')) (Inr (DataSourceSummaries data_sources))
          \<in> set before
      \<and> length updates = length data_sources
      \<and> calls before =
          BedrockAgent (GetKnowledgeBase ''KB1'') # BedrockAgent (ListDataSources ''KB1'')
          # concat (map (\<lambda>(ds, name, conf, vec).
              [BedrockAgent (GetDataSource ''KB1'' (dataSourceId ds)),
               BedrockAgent (UpdateDataSource ''KB1'' (dataSourceId ds) name conf vec ''RETAIN''),
               BedrockAgent (DeleteDataSource ''KB1'' (dataSourceId ds))])
              (zip data_sources updates))
      \<and> \<not> list_ex failed before" by blast
  from split 1 have 3: "\<exists>pre post.
        fst (snd ?run)
        = pre @ Call (BedrockAgent (DeleteDataSource ''KB1'' ''ds2'')) (Inr Empty) # post
      \<and> (\<exists>pre' name conf vec y line.
           pre = pre' @ [Call (BedrockAgent (UpdateDataSource ''KB1'' ''ds2'' name conf vec ''RETAIN''))
                           (Inr y), Print line])" by blast
  from trace 3 2 show ?thesis by (intro conjI)
qed

section \<open>Bucket deletion\<close>

lemma delete_bucket_blocks:
  "delete_bucket api arn ''s3'' resource =
     bind_partial (lift (print (''Deleting: '' @ arn))) (\<lambda>_.
     bind_partial (lift (print ''-> Deleting all contained objects'')) (\<lambda>_.
     bind_partial (paginate api resource None (delete_page_objects api resource)) (\<lambda>_.
     bind_partial (lift (print (''-> Deleting S3 bucket: '' @ resource))) (\<lambda>_.
     lift (perform api (S3 (DeleteBucket resource)))))))"
  unfolding delete_page_objects_def [abs_def]
  by (simp add: delete_bucket_def Let_def cong: option.case_cong)

lemma pages_of_append [simp]: "pages_of (t @ u) = pages_of t @ pages_of u"
  by (induction t rule: pages_of.induct) auto

lemma page_step_run:
  assumes "bind (invoke api (S3 (ListObjectsV2 b token)))
             (\<lambda>page. seq (delete_page_objects api b page) (return (NextContinuationToken page))) w
           = (r, t, w')"
  shows "S3 (DeleteBucket k) \<notin> set (calls t) \<and>
         (\<forall>next_token. r = Inr next_token \<longrightarrow>
            (\<exists>page. next_token = NextContinuationToken page \<and> pages_of t = [page]
               \<and> calls t = listing_calls b token [page] \<and> \<not> list_ex failed t))"
  using assms
  by (auto simp: bind_def seq_def invoke_def delete_page_objects_def perform_def return_def
      split: prod.splits sum.splits option.splits)

lemma paginate_run:
  assumes "paginate api b token body w = Some y"
  shows "body = delete_page_objects api b \<longrightarrow>
         S3 (DeleteBucket k) \<notin> set (calls (fst (snd y))) \<and>
         (fst y = Inr () \<longrightarrow>
            pages_of (fst (snd y)) \<noteq> []
          \<and> NextContinuationToken (last (pages_of (fst (snd y)))) = None
          \<and> calls (fst (snd y)) = listing_calls b token (pages_of (fst (snd y)))
          \<and> \<not> list_ex failed (fst (snd y)))"
proof -
  let ?Q = "\<lambda>(api :: 'a api) b token body (w :: 'a) (y :: (error + unit) \<times> event list \<times> 'a).
         body = delete_page_objects api b \<longrightarrow>
         S3 (DeleteBucket k) \<notin> set (calls (fst (snd y))) \<and>
         (fst y = Inr () \<longrightarrow>
            pages_of (fst (snd y)) \<noteq> []
          \<and> NextContinuationToken (last (pages_of (fst (snd y)))) = None
          \<and> calls (fst (snd y)) = listing_calls b token (pages_of (fst (snd y)))
          \<and> \<not> list_ex failed (fst (snd y)))"
  have "?Q api b token body w y"
  proof (rule paginate.raw_induct [where P = ?Q, OF _ assms])
    fix paginate' :: "'a api \<Rightarrow> string \<Rightarrow> string option \<Rightarrow> (response \<Rightarrow> ('a, unit) prog) \<Rightarrow> 'a
      \<Rightarrow> ((error + unit) \<times> event list \<times> 'a) option"
    fix api :: "'a api" and b token body and w :: 'a and y
    assume IH: "\<And>api b token body w y. paginate' api b token body w = Some y \<Longrightarrow> ?Q api b token body w y"
    assume unfold: "(case bind (invoke api (S3 (ListObjectsV2 b token)))
             (\<lambda>page. seq (body page) (return (NextContinuationToken page))) w of
        (Inl e, t, w') \<Rightarrow> Some (Inl e, t, w')
      | (Inr None, t, w') \<Rightarrow> Some (Inr (), t, w')
      | (Inr (Some next_token), t, w') \<Rightarrow>
          if token = Some next_token then Some (Inl (OtherError ''PaginationError''), t, w')
          else Option.bind (paginate' api b (Some next_token) body w')
                 (\<lambda>(r, t', w''). Some (r, t @ t', w''))) = Some y"
    show "?Q api b token body w y"
    proof
      assume body: "body = delete_page_objects api b"
      obtain r1 t1 w1 where step: "bind (invoke api (S3 (ListObjectsV2 b token)))
             (\<lambda>page. seq (delete_page_objects api b page) (return (NextContinuationToken page))) w
           = (r1, t1, w1)" using prod_cases3 by blast
      note s = page_step_run [OF step, of k]
      from unfold have unfold': "(case (r1, t1, w1) of
        (Inl e, t, w') \<Rightarrow> Some (Inl e, t, w')
      | (Inr None, t, w') \<Rightarrow> Some (Inr (), t, w')
      | (Inr (Some next_token), t, w') \<Rightarrow>
          if token = Some next_token then Some (Inl (OtherError ''PaginationError''), t, w')
          else Option.bind (paginate' api b (Some next_token) body w')
                 (\<lambda>(r, t', w''). Some (r, t @ t', w''))) = Some y"
        unfolding body step .
      show "S3 (DeleteBucket k) \<notin> set (calls (fst (snd y))) \<and>
         (fst y = Inr () \<longrightarrow>
            pages_of (fst (snd y)) \<noteq> []
          \<and> NextContinuationToken (last (pages_of (fst (snd y)))) = None
          \<and> calls (fst (snd y)) = listing_calls b token (pages_of (fst (snd y)))
          \<and> \<not> list_ex failed (fst (snd y)))"
      proof (cases r1)
        case (Inl e)
        with unfold' have "y = (Inl e, t1, w1)" by simp
        with s show ?thesis by simp
      next
        case (Inr next_token)
        with s obtain page where page: "next_token = NextContinuationToken page"
          "pages_of t1 = [page]" "calls t1 = listing_calls b token [page]" "\<not> list_ex failed t1"
          by auto
        show ?thesis
        proof (cases next_token)
          case None
          with unfold' Inr have "y = (Inr (), t1, w1)" by simp
          with s page None show ?thesis by simp
        next
          case (Some nt)
          show ?thesis
          proof (cases "token = Some nt")
            case True
            with unfold' Inr Some
            have "y = (Inl (OtherError ''PaginationError''), t1, w1)" by simp
            with s show ?thesis by simp
          next
            case False
            with unfold' Inr Some have "Option.bind (paginate' api b (Some nt) body w1)
                 (\<lambda>(r, t', w''). Some (r, t1 @ t', w'')) = Some y" by simp
            then obtain y' where
              rec: "paginate' api b (Some nt) body w1 = Some y'"
              and y: "y = (fst y', t1 @ fst (snd y'), snd (snd y'))"
              by (auto simp: bind_eq_Some_conv)
            from IH [OF rec] body have IH': "S3 (DeleteBucket k) \<notin> set (calls (fst (snd y')))"
              "fst y' = Inr () \<Longrightarrow>
                 pages_of (fst (snd y')) \<noteq> []
               \<and> NextContinuationToken (last (pages_of (fst (snd y')))) = None
               \<and> calls (fst (snd y')) = listing_calls b (Some nt) (pages_of (fst (snd y')))
               \<and> \<not> list_ex failed (fst (snd y'))" by auto
            from s IH'(1) y have A: "S3 (DeleteBucket k) \<notin> set (calls (fst (snd y)))" by simp
            have B: "pages_of (fst (snd y)) \<noteq> []
               \<and> NextContinuationToken (last (pages_of (fst (snd y)))) = None
               \<and> calls (fst (snd y)) = listing_calls b token (pages_of (fst (snd y)))
               \<and> \<not> list_ex failed (fst (snd y))" if "fst y = Inr ()"
            proof -
              from that y have "fst y' = Inr ()" by simp
              from IH'(2) [OF this] page Some y show ?thesis by simp
            qed
            from A B show ?thesis by blast
          qed
        qed
      qed
    qed
  qed
  then show ?thesis .
qed


lemma delete_bucket_run [consumes 1, case_names fail ok]:
  assumes "delete_bucket api arn ''s3'' resource w = Some (r, t, w')"
  obtains e tp where
      "paginate api resource None (delete_page_objects api resource) w = Some (Inl e, tp, w')"
      "t = Print (''Deleting: '' @ arn) # Print ''-> Deleting all contained objects'' # tp"
  | tp wa x where
      "paginate api resource None (delete_page_objects api resource) w = Some (Inr (), tp, wa)"
      "t = Print (''Deleting: '' @ arn) # Print ''-> Deleting all contained objects'' # tp
           @ [Print (''-> Deleting S3 bucket: '' @ resource),
              Call (S3 (DeleteBucket resource)) x]"
  using assms unfolding delete_bucket_blocks
  by (auto simp: bind_partial_def lift_def print_def perform_def bind_def invoke_def return_def
      split: option.splits prod.splits sum.splits)

text \<open>
  C8. In every run of \<open>delete_bucket\<close> that issues the delete-bucket call, however many
  pages the listing has, that call is the last event of the run, and the calls before it
  are exactly, for each page the listing returned, in order: the request of the page and
  the batch deletion of the objects of that page (when it has any); the listing was
  followed to the page that carries no continuation token, and every call was answered
  without error. So the delete-bucket call comes after the last object deletion.
\<close>

theorem delete_bucket_objects_first:
  assumes "delete_bucket api arn service resource w = Some (r, t, w')"
    and "Call (S3 (DeleteBucket b)) x \<in> set t"
  shows "\<exists>before.
      t = before @ [Call (S3 (DeleteBucket b)) x]
    \<and> b = resource
    \<and> pages_of before \<noteq> []
    \<and> NextContinuationToken (last (pages_of before)) = None
    \<and> calls before = listing_calls b None (pages_of before)
    \<and> \<not> list_ex failed before"
proof -
  from assms have svc: "service = ''s3''"
    by (auto simp: delete_bucket_def lift_def return_def split: if_splits)
  from assms(1) [unfolded svc] show ?thesis
  proof (cases rule: delete_bucket_run)
    case (fail e tp)
    from paginate_run [OF fail(1), of b] Call_in_calls [of "S3 (DeleteBucket b)" x tp]
      assms(2) fail(2)
    show ?thesis by (auto simp: delete_bucket_blocks)
  next
    case (ok tp wa y)
    from paginate_run [OF ok(1), of b, simplified] have tp:
      "S3 (DeleteBucket b) \<notin> set (calls tp)" "pages_of tp \<noteq> []"
      "NextContinuationToken (last (pages_of tp)) = None"
      "calls tp = listing_calls resource None (pages_of tp)" "\<not> list_ex failed tp"
      by blast+
    from tp(1) have "Call (S3 (DeleteBucket b)) x \<notin> set tp" using Call_in_calls by blast
    with assms(2) ok(2) have bx: "b = resource" "x = y" by auto
    let ?before = "Print (''Deleting: '' @ arn) # Print ''-> Deleting all contained objects'' # tp
           @ [Print (''-> Deleting S3 bucket: '' @ resource)]"
    have "t = ?before @ [Call (S3 (DeleteBucket b)) x]" using ok(2) bx by simp
    moreover have "pages_of ?before \<noteq> []" using tp(2) by simp
    moreover have "NextContinuationToken (last (pages_of ?before)) = None" using tp(3) by simp
    moreover have "calls ?before = listing_calls b None (pages_of ?before)" using tp(4) bx by simp
    moreover have "\<not> list_ex failed ?before" using tp(5) by simp
    ultimately show ?thesis using bx(1) by blast
  qed
qed

text \<open>
  The run ends for a listing of any number of pages: on the provider \<open>paged_bucket\<close>,
  \<open>delete_bucket\<close> returns normally and has used up every page.
\<close>

lemma paginate_paged_bucket:
  "token \<noteq> Some (replicate (length pages - 1) CHR ''+'') \<Longrightarrow>
   \<exists>t. paginate paged_bucket b token (delete_page_objects paged_bucket b) pages
        = Some (Inr (), t, [])"
proof (induction pages arbitrary: token)
  case Nil
  show ?case
    by (subst paginate.simps)
      (simp add: paged_bucket_def bind_def seq_def invoke_def return_def delete_page_objects_def
        perform_def Contents_def NextContinuationToken_def)
next
  case (Cons page pages)
  show ?case
  proof (cases pages)
    case Nil
    show ?thesis unfolding Nil
      by (subst paginate.simps)
        (simp add: paged_bucket_def bind_def seq_def invoke_def return_def delete_page_objects_def
          perform_def Contents_def NextContinuationToken_def split: option.splits)
  next
    case (Cons p2 ps)
    have "Some (replicate (length pages) CHR ''+'') \<noteq> Some (replicate (length pages - 1) CHR ''+'')"
      using Cons by (auto dest: arg_cong [where f = length])
    from Cons.IH [OF this] obtain t where
      rec: "paginate paged_bucket b (Some (replicate (length pages) CHR ''+''))
              (delete_page_objects paged_bucket b) pages = Some (Inr (), t, [])" by blast
    from Cons.prems have tok: "token \<noteq> Some (replicate (length pages) CHR ''+'')" by simp
    show ?thesis
      using rec tok unfolding Cons
      by (subst paginate.simps)
        (simp add: paged_bucket_def bind_def seq_def invoke_def return_def delete_page_objects_def
          perform_def Contents_def NextContinuationToken_def split: option.splits)
  qed
qed

lemma delete_bucket_paged_returns:
  "\<exists>t. delete_bucket paged_bucket arn ''s3'' b pages = Some (Inr (), t, [])"
proof -
  from paginate_paged_bucket [of None pages b] obtain t where
    "paginate paged_bucket b None (delete_page_objects paged_bucket b) pages = Some (Inr (), t, [])"
    by auto
  then show ?thesis
    by (simp add: delete_bucket_blocks bind_partial_def lift_def print_def perform_def bind_def
        invoke_def return_def paged_bucket_def)
qed

theorem delete_bucket_objects_first_witness:
  "delete_bucket paged_bucket ''arn:aws:s3:::my-bucket'' ''s3'' ''my-bucket''
     [Some [\<lparr>Key = ''a.txt''\<rparr>, \<lparr>Key = ''b.txt''\<rparr>], Some [\<lparr>Key = ''c.txt''\<rparr>]]
   = Some (Inr (),
       [Print ''Deleting: arn:aws:s3:::my-bucket'',
        Print ''-> Deleting all contained objects'',
        Call (S3 (ListObjectsV2 ''my-bucket'' None))
          (Inr (ObjectsPage (Some [\<lparr>Key = ''a.txt''\<rparr>, \<lparr>Key = ''b.txt''\<rparr>]) (Some ''+''))),
        Call (S3 (DeleteObjects ''my-bucket'' [''a.txt'', ''b.txt''])) (Inr Empty),
        Call (S3 (ListObjectsV2 ''my-bucket'' (Some ''+'')))
          (Inr (ObjectsPage (Some [\<lparr>Key = ''c.txt''\<rparr>]) None)),
        Call (S3 (DeleteObjects ''my-bucket'' [''c.txt''])) (Inr Empty),
        Print ''-> Deleting S3 bucket: my-bucket'',
        Call (S3 (DeleteBucket ''my-bucket'')) (Inr Empty)], [])
   \<and> (\<exists>before.
       [Print ''Deleting: arn:aws:s3:::my-bucket'',
        Print ''-> Deleting all contained objects'',
        Call (S3 (ListObjectsV2 ''my-bucket'' None))
          (Inr (ObjectsPage (Some [\<lparr>Key = ''a.txt''\<rparr>, \<lparr>Key = ''b.txt''\<rparr>]) (Some ''+''))),
        Call (S3 (DeleteObjects ''my-bucket'' [''a.txt'', ''b.txt''])) (Inr Empty),
        Call (S3 (ListObjectsV2 ''my-bucket'' (Some ''+'')))
          (Inr (ObjectsPage (Some [\<lparr>Key = ''c.txt''\<rparr>]) None)),
        Call (S3 (DeleteObjects ''my-bucket'' [''c.txt''])) (Inr Empty),
        Print ''-> Deleting S3 bucket: my-bucket'',
        Call (S3 (DeleteBucket ''my-bucket'')) (Inr Empty)]
       = before @ [Call (S3 (DeleteBucket ''my-bucket'')) (Inr Empty)]
     \<and> ''my-bucket'' = ''my-bucket''
     \<and> pages_of before \<noteq> []
     \<and> NextContinuationToken (last (pages_of before)) = None
     \<and> calls before = listing_calls ''my-bucket'' None (pages_of before)
     \<and> \<not> list_ex failed before)"
proof -
  have p2: "paginate paged_bucket ''my-bucket'' (Some ''+'')
      (delete_page_objects paged_bucket ''my-bucket'') [Some [\<lparr>Key = ''c.txt''\<rparr>]]
    = Some (Inr (),
        [Call (S3 (ListObjectsV2 ''my-bucket'' (Some ''+'')))
           (Inr (ObjectsPage (Some [\<lparr>Key = ''c.txt''\<rparr>]) None)),
         Call (S3 (DeleteObjects ''my-bucket'' [''c.txt''])) (Inr Empty)], [])"
    by (subst paginate.simps)
      (simp add: paged_bucket_def bind_def seq_def invoke_def return_def delete_page_objects_def
        perform_def Contents_def NextContinuationToken_def)
  have p1: "paginate paged_bucket ''my-bucket'' None
      (delete_page_objects paged_bucket ''my-bucket'')
      [Some [\<lparr>Key = ''a.txt''\<rparr>, \<lparr>Key = ''b.txt''\<rparr>], Some [\<lparr>Key = ''c.txt''\<rparr>]]
    = Some (Inr (),
        [Call (S3 (ListObjectsV2 ''my-bucket'' None))
           (Inr (ObjectsPage (Some [\<lparr>Key = ''a.txt''\<rparr>, \<lparr>Key = ''b.txt''\<rparr>]) (Some ''+''))),
         Call (S3 (DeleteObjects ''my-bucket'' [''a.txt'', ''b.txt''])) (Inr Empty),
         Call (S3 (ListObjectsV2 ''my-bucket'' (Some ''+'')))
           (Inr (ObjectsPage (Some [\<lparr>Key = ''c.txt''\<rparr>]) None)),
         Call (S3 (DeleteObjects ''my-bucket'' [''c.txt''])) (Inr Empty)], [])"
    by (subst paginate.simps)
      (simp add: paged_bucket_def bind_def seq_def invoke_def return_def delete_page_objects_def
        perform_def Contents_def NextContinuationToken_def p2)
  have run: "delete_bucket paged_bucket ''arn:aws:s3:::my-bucket'' ''s3'' ''my-bucket''
     [Some [\<lparr>Key = ''a.txt''\<rparr>, \<lparr>Key = ''b.txt''\<rparr>], Some [\<lparr>Key = ''c.txt''\<rparr>]]
   = Some (Inr (),
       [Print ''Deleting: arn:aws:s3:::my-bucket'',
        Print ''-> Deleting all contained objects'',
        Call (S3 (ListObjectsV2 ''my-bucket'' None))
          (Inr (ObjectsPage (Some [\<lparr>Key = ''a.txt''\<rparr>, \<lparr>Key = ''b.txt''\<rparr>]) (Some ''+''))),
        Call (S3 (DeleteObjects ''my-bucket'' [''a.txt'', ''b.txt''])) (Inr Empty),
        Call (S3 (ListObjectsV2 ''my-bucket'' (Some ''+'')))
          (Inr (ObjectsPage (Some [\<lparr>Key = ''c.txt''\<rparr>]) None)),
        Call (S3 (DeleteObjects ''my-bucket'' [''c.txt''])) (Inr Empty),
        Print ''-> Deleting S3 bucket: my-bucket'',
        Call (S3 (DeleteBucket ''my-bucket'')) (Inr Empty)], [])"
    by (simp add: delete_bucket_blocks bind_partial_def lift_def print_def perform_def bind_def
        invoke_def return_def p1 paged_bucket_def)
  have mem: "Call (S3 (DeleteBucket ''my-bucket'')) (Inr Empty) \<in> set
       [Print ''Deleting: arn:aws:s3:::my-bucket'',
        Print ''-> Deleting all contained objects'',
        Call (S3 (ListObjectsV2 ''my-bucket'' None))
          (Inr (ObjectsPage (Some [\<lparr>Key = ''a.txt''\<rparr>, \<lparr>Key = ''b.txt''\<rparr>]) (Some ''+''))),
        Call (S3 (DeleteObjects ''my-bucket'' [''a.txt'', ''b.txt''])) (Inr Empty),
        Call (S3 (ListObjectsV2 ''my-bucket'' (Some ''+'')))
          (Inr (ObjectsPage (Some [\<lparr>Key = ''c.txt''\<rparr>]) None)),
        Call (S3 (DeleteObjects ''my-bucket'' [''c.txt''])) (Inr Empty),
        Print ''-> Deleting S3 bucket: my-bucket'',
        Call (S3 (DeleteBucket ''my-bucket'')) (Inr Empty)]"
    by simp
  from run delete_bucket_objects_first [OF run mem] show ?thesis by (intro conjI)
qed

section \<open>Create or get\<close>

text \<open>
  C9, as the code has it. For the Lambda function (\<open>create_lambda\<close>): when
  \<^verbatim>\<open>create_function\<close> fails with \<^verbatim>\<open>ResourceConflictException\<close>, the helper fetches the
  function with \<^verbatim>\<open>get_function\<close> and returns normally, and what it returns is the
  function configuration found under \<^verbatim>\<open>Configuration\<close>: the configuration keys that a
  successful create returns at the top level of its answer, without the key
  \<^verbatim>\<open>ResponseMetadata\<close> that the answer of \<^verbatim>\<open>create_function\<close> carries. For the role and the
  policy (\<open>create_lambda_role\<close>): whether \<^verbatim>\<open>create_role\<close> succeeds, or fails with
  \<^verbatim>\<open>EntityAlreadyExistsException\<close> and \<^verbatim>\<open>get_role\<close> answers, and likewise for
  \<^verbatim>\<open>create_policy\<close> and \<^verbatim>\<open>get_policy\<close>, the helper attaches the policy by the ARN of the
  answer it got and returns the whole answer about the role, on either path.
\<close>

theorem create_or_get_descriptor:
  "(api (ZipFile ''lambda_function.py'') w = (Inr s, wa)
    \<and> Role_of lambda_iam_role = Some role
    \<and> api (Lambda (CreateFunction name ''python3.12'' 60 (Arn role) (getvalue s)
            ''lambda_function.lambda_handler'' (standard_tags env))) wa
       = (Inr (FunctionConfiguration c), wb)
    \<longrightarrow> (\<exists>t. create_lambda env api name lambda_iam_role w
               = (Inr (Whole (FunctionConfiguration c)), t, wb)))
 \<and> (api (ZipFile ''lambda_function.py'') w = (Inr s, wa)
    \<and> Role_of lambda_iam_role = Some role
    \<and> api (Lambda (CreateFunction name ''python3.12'' 60 (Arn role) (getvalue s)
            ''lambda_function.lambda_handler'' (standard_tags env))) wa
       = (Inl (ClientError ''ResourceConflictException''), wx)
    \<and> api (Lambda (GetFunction name)) wx = (Inr (ConfigurationOf c), wb)
    \<longrightarrow> (\<exists>t. create_lambda env api name lambda_iam_role w
               = (Inr (Part (FunctionConfiguration c)), t, wb)))
 \<and> ((api (Iam (CreateRole (agent_name @ ''-lambda-role'') assume_role_policy_document
             (standard_tags_kv env))) v
         = (Inr role_response, va)
       \<or> (\<exists>vx. api (Iam (CreateRole (agent_name @ ''-lambda-role'') assume_role_policy_document
                   (standard_tags_kv env))) v
                = (Inl (ClientError ''EntityAlreadyExistsException''), vx)
              \<and> api (Iam (GetRole (agent_name @ ''-lambda-role''))) vx = (Inr role_response, va)))
    \<and> api (Iam (AttachRolePolicy (agent_name @ ''-lambda-role'')
            ''arn:aws:iam::aws:policy/service-role/AWSLambdaBasicExecutionRole'')) va = (Inr a, vb)
    \<and> (api (Iam (CreatePolicy (agent_name @ ''-dynamodb-policy'')
             (dynamodb_access_policy env table))) vb
         = (Inr (Policy policy), vc)
       \<or> (\<exists>vx. api (Iam (CreatePolicy (agent_name @ ''-dynamodb-policy'')
                   (dynamodb_access_policy env table))) vb
                = (Inl (ClientError ''EntityAlreadyExistsException''), vx)
              \<and> api (Iam (GetPolicy (''arn:aws:iam::'' @ account_id env @ '':policy/''
                       @ agent_name @ ''-dynamodb-policy''))) vx = (Inr (Policy policy), vc)))
    \<and> api (Iam (AttachRolePolicy (agent_name @ ''-lambda-role'') (Arn policy))) vc = (Inr b, vd)
    \<longrightarrow> (\<exists>t. create_lambda_role env api agent_name table v
               = (Inr (Whole role_response), t, vd)))"
proof (intro conjI impI)
  assume "api (ZipFile ''lambda_function.py'') w = (Inr s, wa)
    \<and> Role_of lambda_iam_role = Some role
    \<and> api (Lambda (CreateFunction name ''python3.12'' 60 (Arn role) (getvalue s)
            ''lambda_function.lambda_handler'' (standard_tags env))) wa
       = (Inr (FunctionConfiguration c), wb)"
  then show "\<exists>t. create_lambda env api name lambda_iam_role w
               = (Inr (Whole (FunctionConfiguration c)), t, wb)"
    by (auto simp: create_lambda_def try_except_def bind_def seq_def invoke_def lookup_def
        return_def print_def Let_def)
next
  assume "api (ZipFile ''lambda_function.py'') w = (Inr s, wa)
    \<and> Role_of lambda_iam_role = Some role
    \<and> api (Lambda (CreateFunction name ''python3.12'' 60 (Arn role) (getvalue s)
            ''lambda_function.lambda_handler'' (standard_tags env))) wa
       = (Inl (ClientError ''ResourceConflictException''), wx)
    \<and> api (Lambda (GetFunction name)) wx = (Inr (ConfigurationOf c), wb)"
  then show "\<exists>t. create_lambda env api name lambda_iam_role w
               = (Inr (Part (FunctionConfiguration c)), t, wb)"
    by (auto simp: create_lambda_def try_except_def bind_def seq_def invoke_def lookup_def
        return_def print_def Configuration_of_def Let_def)
next
  assume "(api (Iam (CreateRole (agent_name @ ''-lambda-role'') assume_role_policy_document
             (standard_tags_kv env))) v
         = (Inr role_response, va)
       \<or> (\<exists>vx. api (Iam (CreateRole (agent_name @ ''-lambda-role'') assume_role_policy_document
                   (standard_tags_kv env))) v
                = (Inl (ClientError ''EntityAlreadyExistsException''), vx)
              \<and> api (Iam (GetRole (agent_name @ ''-lambda-role''))) vx = (Inr role_response, va)))
    \<and> api (Iam (AttachRolePolicy (agent_name @ ''-lambda-role'')
            ''arn:aws:iam::aws:policy/service-role/AWSLambdaBasicExecutionRole'')) va = (Inr a, vb)
    \<and> (api (Iam (CreatePolicy (agent_name @ ''-dynamodb-policy'')
             (dynamodb_access_policy env table))) vb
         = (Inr (Policy policy), vc)
       \<or> (\<exists>vx. api (Iam (CreatePolicy (agent_name @ ''-dynamodb-policy'')
                   (dynamodb_access_policy env table))) vb
                = (Inl (ClientError ''EntityAlreadyExistsException''), vx)
              \<and> api (Iam (GetPolicy (''arn:aws:iam::'' @ account_id env @ '':policy/''
                       @ agent_name @ ''-dynamodb-policy''))) vx = (Inr (Policy policy), vc)))
    \<and> api (Iam (AttachRolePolicy (agent_name @ ''-lambda-role'') (Arn policy))) vc = (Inr b, vd)"
  then show "\<exists>t. create_lambda_role env api agent_name table v = (Inr (Whole role_response), t, vd)"
    by (auto simp: create_lambda_role_def try_except_def bind_def seq_def invoke_def lookup_def
        return_def print_def sleep_def perform_def Policy_of_def Let_def)
qed

theorem create_or_get_descriptor_witness:
  "(\<exists>t. create_lambda
          \<lparr>region_name = ''us-east-1'', account_id = ''1'',
           standard_tags = [(''project'', ''workshop'')],
           standard_tags_kv = [(''project'', ''workshop'')]\<rparr>
          nothing_exists ''booking''
          (Whole (Role \<lparr>Arn = ''arn:aws:iam::1:role/booking-lambda-role''\<rparr>)) ()
        = (Inr (Whole (FunctionConfiguration \<lparr>FunctionName = ''booking'',
                  FunctionArn = ''arn:aws:lambda:us-east-1:1:function:booking''\<rparr>)), t, ()))
 \<and> (\<exists>t. create_lambda
          \<lparr>region_name = ''us-east-1'', account_id = ''1'',
           standard_tags = [(''project'', ''workshop'')],
           standard_tags_kv = [(''project'', ''workshop'')]\<rparr>
          everything_exists ''booking''
          (Whole (Role \<lparr>Arn = ''arn:aws:iam::1:role/booking-lambda-role''\<rparr>)) ()
        = (Inr (Part (FunctionConfiguration \<lparr>FunctionName = ''booking'',
                  FunctionArn = ''arn:aws:lambda:us-east-1:1:function:booking''\<rparr>)), t, ()))
 \<and> (\<exists>t. create_lambda_role
          \<lparr>region_name = ''us-east-1'', account_id = ''1'',
           standard_tags = [(''project'', ''workshop'')],
           standard_tags_kv = [(''project'', ''workshop'')]\<rparr>
          everything_exists ''booking'' ''bookings'' ()
        = (Inr (Whole (Role \<lparr>Arn = ''arn:aws:iam::1:role/booking-lambda-role''\<rparr>)), t, ()))"
proof (intro conjI)
  let ?env = "\<lparr>region_name = ''us-east-1'', account_id = ''1'',
           standard_tags = [(''project'', ''workshop'')],
           standard_tags_kv = [(''project'', ''workshop'')]\<rparr>"
  let ?role = "Whole (Role \<lparr>Arn = ''arn:aws:iam::1:role/booking-lambda-role''\<rparr>)"
  let ?c = "\<lparr>FunctionName = ''booking'',
             FunctionArn = ''arn:aws:lambda:us-east-1:1:function:booking''\<rparr>"
  show "\<exists>t. create_lambda ?env nothing_exists ''booking'' ?role ()
        = (Inr (Whole (FunctionConfiguration ?c)), t, ())"
    using create_or_get_descriptor
      [where api = nothing_exists and env = ?env and w = "()" and wa = "()" and wb = "()"
         and s = "ZipContent ''PK''" and name = "''booking''" and lambda_iam_role = ?role
         and role = "\<lparr>Arn = ''arn:aws:iam::1:role/booking-lambda-role''\<rparr>" and c = ?c]
    by (simp add: nothing_exists_def getvalue_def Role_of_def keys_of_def)
  show "\<exists>t. create_lambda ?env everything_exists ''booking'' ?role ()
        = (Inr (Part (FunctionConfiguration ?c)), t, ())"
    using create_or_get_descriptor
      [where api = everything_exists and env = ?env and w = "()" and wa = "()" and wb = "()"
         and wx = "()" and s = "ZipContent ''PK''" and name = "''booking''"
         and lambda_iam_role = ?role
         and role = "\<lparr>Arn = ''arn:aws:iam::1:role/booking-lambda-role''\<rparr>" and c = ?c]
    by (simp add: everything_exists_def getvalue_def Role_of_def keys_of_def)
  show "\<exists>t. create_lambda_role ?env everything_exists ''booking'' ''bookings'' ()
        = (Inr ?role, t, ())"
    using create_or_get_descriptor
      [where api = everything_exists and env = ?env
         and agent_name = "''booking''" and table = "''bookings''"
         and v = "()" and va = "()" and vb = "()" and vc = "()" and vd = "()"
         and role_response = "Role \<lparr>Arn = ''arn:aws:iam::1:role/booking-lambda-role''\<rparr>"
         and policy = "\<lparr>Arn = ''arn:aws:iam::1:policy/booking-dynamodb-policy''\<rparr>"
         and a = Empty and b = Empty]
    by (simp add: everything_exists_def)
qed

text \<open>
  The claim as the specification states it fails for the Lambda function: for the same
  function configuration, the value returned when the function is created carries the key
  \<^verbatim>\<open>ResponseMetadata\<close> and the value returned when the function existed does not, so a
  caller can tell the two paths apart; the function ARN reads the same from both.
\<close>

theorem create_lambda_paths_counterexample:
  "fst (create_lambda
          \<lparr>region_name = ''us-east-1'', account_id = ''1'',
           standard_tags = [(''project'', ''workshop'')],
           standard_tags_kv = [(''project'', ''workshop'')]\<rparr>
          nothing_exists ''booking''
          (Whole (Role \<lparr>Arn = ''arn:aws:iam::1:role/booking-lambda-role''\<rparr>)) ())
   = Inr (Whole (FunctionConfiguration \<lparr>FunctionName = ''booking'',
            FunctionArn = ''arn:aws:lambda:us-east-1:1:function:booking''\<rparr>))
 \<and> fst (create_lambda
          \<lparr>region_name = ''us-east-1'', account_id = ''1'',
           standard_tags = [(''project'', ''workshop'')],
           standard_tags_kv = [(''project'', ''workshop'')]\<rparr>
          everything_exists ''booking''
          (Whole (Role \<lparr>Arn = ''arn:aws:iam::1:role/booking-lambda-role''\<rparr>)) ())
   = Inr (Part (FunctionConfiguration \<lparr>FunctionName = ''booking'',
            FunctionArn = ''arn:aws:lambda:us-east-1:1:function:booking''\<rparr>))
 \<and> has_ResponseMetadata (Whole (FunctionConfiguration \<lparr>FunctionName = ''booking'',
            FunctionArn = ''arn:aws:lambda:us-east-1:1:function:booking''\<rparr>))
 \<and> \<not> has_ResponseMetadata (Part (FunctionConfiguration \<lparr>FunctionName = ''booking'',
            FunctionArn = ''arn:aws:lambda:us-east-1:1:function:booking''\<rparr>))
 \<and> FunctionArn_of (Whole (FunctionConfiguration \<lparr>FunctionName = ''booking'',
            FunctionArn = ''arn:aws:lambda:us-east-1:1:function:booking''\<rparr>))
   = FunctionArn_of (Part (FunctionConfiguration \<lparr>FunctionName = ''booking'',
            FunctionArn = ''arn:aws:lambda:us-east-1:1:function:booking''\<rparr>))"
  by (simp add: create_lambda_def try_except_def bind_def seq_def invoke_def lookup_def
      return_def print_def Configuration_of_def Let_def Role_of_def keys_of_def getvalue_def
      nothing_exists_def everything_exists_def has_ResponseMetadata_def FunctionArn_of_def)

end
